theory Spec2Isabelle
  imports Complex_Main
begin

section \<open>Python numeric primitives\<close>

text \<open>
  Python floats are modelled as reals and Python ints as integers, so the arithmetic
  of the model is exact where the device rounds; the concrete values below are taken
  away from the points where a truncation or a comparison could change with the last
  bit of a float.  Where a statement depends on the very integer that the truncation
  of a float yields (the rainbow palettes), the deviation of the float from the exact
  value is a parameter of the model, see \<open>float_error\<close> below.  \<open>int(v)\<close> on a float
  truncates towards zero; \<open>a % b\<close> and
  \<open>a // b\<close> on floats are the floored remainder and quotient; \<open>math.atan2\<close> is the
  angle of the point \<open>(x, y)\<close> in \<open>(-\<pi>, \<pi>]\<close>, with \<open>atan2(0, 0) = 0\<close>.
\<close>

definition py_int :: "real \<Rightarrow> int" where
  "py_int v = (if 0 \<le> v then \<lfloor>v\<rfloor> else \<lceil>v\<rceil>)"

definition py_floordiv :: "real \<Rightarrow> real \<Rightarrow> real" where
  "py_floordiv a b = of_int \<lfloor>a / b\<rfloor>"

definition py_fmod :: "real \<Rightarrow> real \<Rightarrow> real" where
  "py_fmod a b = a - b * of_int \<lfloor>a / b\<rfloor>"

definition atan2 :: "real \<Rightarrow> real \<Rightarrow> real" where
  "atan2 y x =
     (if 0 < x then arctan (y / x)
      else if x < 0 \<and> 0 \<le> y then arctan (y / x) + pi
      else if x < 0 then arctan (y / x) - pi
      else if 0 < y then pi / 2
      else if y < 0 then - (pi / 2)
      else 0)"

datatype py_error = IndexError | ValueError | ZeroDivisionError

section \<open>The random source\<close>

text \<open>
  The generators draw from Python's \<open>random\<close> module.  It is modelled as an injected
  stream of draws: the stream is a sequence of reals, a draw takes the fractional part
  of its head (a number in \<open>[0, 1)\<close>, as \<open>random.random()\<close> returns) and leaves the
  tail.  \<open>randint\<close>, \<open>uniform\<close> and \<open>choice\<close> scale one draw each.
\<close>

type_synonym rng = "nat \<Rightarrow> real"

definition rng_random :: "rng \<Rightarrow> real \<times> rng" where
  "rng_random g = (frac (g 0), (\<lambda>n. g (Suc n)))"

definition randint :: "int \<Rightarrow> int \<Rightarrow> rng \<Rightarrow> int \<times> rng" where
  "randint a b g = (let (u, g') = rng_random g in (a + \<lfloor>u * of_int (b - a + 1)\<rfloor>, g'))"

definition uniform :: "real \<Rightarrow> real \<Rightarrow> rng \<Rightarrow> real \<times> rng" where
  "uniform a b g = (let (u, g') = rng_random g in (a + (b - a) * u, g'))"

definition choice :: "'a list \<Rightarrow> rng \<Rightarrow> 'a \<times> rng" where
  "choice xs g = (let (u, g') = rng_random g in (xs ! nat \<lfloor>u * of_nat (length xs)\<rfloor>, g'))"

section \<open>Bitmaps and loops\<close>

text \<open>
  A \<open>displayio.Bitmap(width, height, value_count)\<close> starts with every pixel \<open>0\<close>.  A
  write \<open>bitmap[x, y] = v\<close> raises \<open>IndexError\<close> outside the bitmap and
  \<open>ValueError\<close> when \<open>v\<close> is not one of the \<open>value_count\<close> pixel values.
\<close>

record bitmap =
  bm_width :: int
  bm_height :: int
  value_count :: int
  pixels :: "int \<times> int \<Rightarrow> int"

definition Bitmap :: "int \<Rightarrow> int \<Rightarrow> int \<Rightarrow> bitmap" where
  "Bitmap w h n = \<lparr>bm_width = w, bm_height = h, value_count = n, pixels = (\<lambda>p. 0)\<rparr>"

definition bitmap_set :: "bitmap \<Rightarrow> int \<Rightarrow> int \<Rightarrow> int \<Rightarrow> py_error + bitmap" where
  "bitmap_set b x y v =
     (if x < 0 \<or> bm_width b \<le> x \<or> y < 0 \<or> bm_height b \<le> y then Inl IndexError
      else if v < 0 \<or> value_count b \<le> v then Inl ValueError
      else Inr (b\<lparr>pixels := (pixels b)((x, y) := v)\<rparr>))"

text \<open>
  A \<open>for\<close> loop whose body may raise: the body runs on each element in order and the
  first exception ends the loop.
\<close>

fun for_each :: "'a list \<Rightarrow> ('a \<Rightarrow> 's \<Rightarrow> py_error + 's) \<Rightarrow> 's \<Rightarrow> py_error + 's" where
  "for_each [] body s = Inr s"
| "for_each (a # as) body s =
     (case body a s of Inl e \<Rightarrow> Inl e | Inr s' \<Rightarrow> for_each as body s')"

text \<open>\<open>range(n)\<close>, \<open>range(0, n, 2)\<close> and \<open>range(a, b, 2)\<close>.\<close>

definition py_range :: "int \<Rightarrow> int list" where
  "py_range n = [0..n - 1]"

definition py_range_step2 :: "int \<Rightarrow> int \<Rightarrow> int list" where
  "py_range_step2 a b = map (\<lambda>k. a + 2 * k) [0..(b - a - 1) div 2]"

text \<open>The screen of the device; every effect of the stand-alone programs hard-codes it.\<close>

definition width :: int where "width = 320"
definition height :: int where "height = 240"

section \<open>Palettes\<close>

text \<open>
  A \<open>displayio.Palette(n)\<close> holds \<open>n\<close> colours, black at first.  Each
  \<open>_init_*palette\<close> method is a loop \<open>for i in range(n): ...; self.palette[i] = (r, g, b)\<close>.
\<close>

type_synonym rgb = "int \<times> int \<times> int"

definition Palette :: "nat \<Rightarrow> rgb list" where
  "Palette n = replicate n (0, 0, 0)"

definition palette_fill :: "nat \<Rightarrow> (int \<Rightarrow> rgb) \<Rightarrow> rgb list" where
  "palette_fill n f = fold (\<lambda>i p. p[i := f (int i)]) [0..<n] (Palette n)"

definition clamp255 :: "int \<Rightarrow> int" where
  "clamp255 v = max 0 (min 255 v)"

text \<open>
  The rainbow palettes store \<open>int(127 + 127 * math.sin(angle))\<close>.  The float that
  \<open>int\<close> truncates is not the exact value of the expression: \<open>math.sin\<close> and the
  arithmetic round, and where the exact value is an integer the float may fall on
  either side of it (at the last index the angle is \<open>2\<pi>\<close>, the exact value is \<open>127\<close>,
  and a float sine of \<open>2\<pi>\<close> that is slightly negative yields \<open>126\<close>).  The deviation
  of the float from the exact value is therefore a parameter: a \<open>rounding\<close> gives it for
  each channel (\<open>0\<close>, \<open>1\<close>, \<open>2\<close> for red, green, blue) and each index, and
  \<open>float_error\<close> confines it to \<open>[-1/100, 1/100]\<close>, far more than double or single
  precision loses on an expression of this size.  \<open>no_rounding\<close> is exact evaluation.
\<close>

type_synonym rounding = "nat \<Rightarrow> int \<Rightarrow> real"

definition float_tolerance :: real where
  "float_tolerance = 1 / 100"

definition float_error :: "rounding \<Rightarrow> nat \<Rightarrow> int \<Rightarrow> real" where
  "float_error \<rho> c i = max (- float_tolerance) (min float_tolerance (\<rho> c i))"

definition no_rounding :: rounding where
  "no_rounding = (\<lambda>c i. 0)"

text \<open>\<open>PlasmaEffect._init_palette\<close> (also \<open>SimpleEffect._init_palette\<close>, the same text).\<close>

definition PlasmaEffect_rgb :: "rounding \<Rightarrow> int \<Rightarrow> rgb" where
  "PlasmaEffect_rgb \<rho> i =
     (let angle = (of_int i / 63) * 2 * pi;
          r = py_int (127 + 127 * sin angle + float_error \<rho> 0 i);
          g = py_int (127 + 127 * sin (angle + 2.094) + float_error \<rho> 1 i);
          b = py_int (127 + 127 * sin (angle + 4.188) + float_error \<rho> 2 i)
      in (r, g, b))"

definition PlasmaEffect_init_palette :: "rounding \<Rightarrow> rgb list" where
  "PlasmaEffect_init_palette \<rho> = palette_fill 64 (PlasmaEffect_rgb \<rho>)"

definition SimpleEffect_rgb :: "rounding \<Rightarrow> int \<Rightarrow> rgb" where
  "SimpleEffect_rgb \<rho> i =
     (let angle = (of_int i / 63) * 2 * pi;
          r = py_int (127 + 127 * sin angle + float_error \<rho> 0 i);
          g = py_int (127 + 127 * sin (angle + 2.094) + float_error \<rho> 1 i);
          b = py_int (127 + 127 * sin (angle + 4.188) + float_error \<rho> 2 i)
      in (r, g, b))"

definition SimpleEffect_init_palette :: "rounding \<Rightarrow> rgb list" where
  "SimpleEffect_init_palette \<rho> = palette_fill 64 (SimpleEffect_rgb \<rho>)"

text \<open>\<open>SpiralEffect._init_palette\<close>.\<close>

definition SpiralEffect_rgb :: "int \<Rightarrow> rgb" where
  "SpiralEffect_rgb i =
     (let t = of_int i / 31;
          r = py_int (50 + 205 * t * t);
          g = py_int (20 + 100 * sin (t * pi));
          b = py_int (255 - 100 * t)
      in (clamp255 r, clamp255 g, clamp255 b))"

definition SpiralEffect_init_palette :: "rgb list" where
  "SpiralEffect_init_palette = palette_fill 32 SpiralEffect_rgb"

text \<open>\<open>MatrixEffect._init_palette\<close>.\<close>

definition MatrixEffect_rgb :: "int \<Rightarrow> rgb" where
  "MatrixEffect_rgb i =
     (let intensity = of_int i / 15;
          r = 0;
          g = py_int (intensity * 255);
          b = py_int (intensity * 50)
      in (r, g, b))"

definition MatrixEffect_init_palette :: "rgb list" where
  "MatrixEffect_init_palette = palette_fill 16 MatrixEffect_rgb"

text \<open>\<open>JuliaFractalEffect._init_palette\<close>.\<close>

definition JuliaFractalEffect_rgb :: "int \<Rightarrow> rgb" where
  "JuliaFractalEffect_rgb i =
     (if i = 0 then (0, 0, 0)
      else
        let t = of_int i / 63;
            r = py_int (127 + 127 * sin (t * pi * 6));
            g = py_int (127 + 127 * sin (t * pi * 4 + 2));
            b = py_int (127 + 127 * sin (t * pi * 8 + 4));
            intensity = 0.7 + 0.3 * sin (t * pi * 12);
            r = py_int (of_int r * intensity);
            g = py_int (of_int g * intensity);
            b = py_int (of_int b * intensity)
        in (clamp255 r, clamp255 g, clamp255 b))"

definition JuliaFractalEffect_init_palette :: "rgb list" where
  "JuliaFractalEffect_init_palette = palette_fill 64 JuliaFractalEffect_rgb"

text \<open>\<open>FireEffect._init_fire_palette\<close>: five bands of the intensity \<open>i / 31\<close>.\<close>

definition FireEffect_rgb :: "int \<Rightarrow> rgb" where
  "FireEffect_rgb i =
     (let intensity = of_int i / 31 :: real;
          (r, g, b) =
            (if intensity < 0.3 then
               let t = intensity / 0.3 in (py_int (t * 128), 0, 0)
             else if intensity < 0.6 then
               let t = (intensity - 0.3) / 0.3 in (py_int (128 + t * 127), 0, 0)
             else if intensity < 0.8 then
               let t = (intensity - 0.6) / 0.2 in (255, py_int (t * 165), 0)
             else if intensity < 0.95 then
               let t = (intensity - 0.8) / 0.15 in (255, py_int (165 + t * 90), py_int (t * 100))
             else
               let t = (intensity - 0.95) / 0.05 in (255, 255, py_int (100 + t * 155)))
      in (clamp255 r, clamp255 g, clamp255 b))"

definition FireEffect_init_fire_palette :: "rgb list" where
  "FireEffect_init_fire_palette = palette_fill 32 FireEffect_rgb"

text \<open>\<open>StarfieldEffect._init_star_palette\<close>.\<close>

definition StarfieldEffect_rgb :: "int \<Rightarrow> rgb" where
  "StarfieldEffect_rgb i =
     (let intensity = of_int i / 15 :: real in
      if i = 0 then (0, 0, 0)
      else if intensity < 0.3 then
        (py_int (intensity * 100), py_int (intensity * 100), py_int (intensity * 255))
      else if intensity < 0.7 then
        let v = py_int (intensity * 255) in (v, v, v)
      else (255, 255, 255))"

definition StarfieldEffect_init_star_palette :: "rgb list" where
  "StarfieldEffect_init_star_palette = palette_fill 16 StarfieldEffect_rgb"

text \<open>\<open>SineWaveEffect._init_wave_palette\<close>.\<close>

definition SineWaveEffect_rgb :: "int \<Rightarrow> rgb" where
  "SineWaveEffect_rgb i =
     (let t = of_int i / 63 :: real;
          (r, g, b) =
            (if t < 0.2 then (0, py_int (t * 5 * 255), 255)
             else if t < 0.4 then
               let s = (t - 0.2) / 0.2 in (0, 255, py_int (255 * (1 - s)))
             else if t < 0.6 then
               let s = (t - 0.4) / 0.2 in (py_int (s * 255), 255, 0)
             else if t < 0.8 then
               let s = (t - 0.6) / 0.2 in (255, py_int (255 * (1 - s * 0.5)), 0)
             else
               let s = (t - 0.8) / 0.2 in (255, py_int (128 + s * 127), py_int (s * 255)))
      in (clamp255 r, clamp255 g, clamp255 b))"

definition SineWaveEffect_init_wave_palette :: "rgb list" where
  "SineWaveEffect_init_wave_palette = palette_fill 64 SineWaveEffect_rgb"

text \<open>
  \<open>StreamersEffect._init_streamer_palette\<close> and
  \<open>Kaleidoscope._init_kaleidoscope_palette\<close> rescale the three channels by
  \<open>255 / max(r, g, b)\<close> when that maximum is positive.
\<close>

definition boost :: "real \<Rightarrow> int \<Rightarrow> int \<Rightarrow> int \<Rightarrow> rgb" where
  "boost k r g b =
     (let max_val = max r (max g b) in
      if max_val > 0 then
        let scale = 255 / of_int max_val :: real
        in (py_int (of_int r * scale * k), py_int (of_int g * scale * k),
            py_int (of_int b * scale * k))
      else (r, g, b))"

definition StreamersEffect_rgb :: "int \<Rightarrow> rgb" where
  "StreamersEffect_rgb i =
     (if i = 0 then (0, 0, 0)
      else
        let t = of_int (i - 1) / 30;
            angle = t * 2 * 3.14159;
            r = py_int (127 + 127 * sin angle);
            g = py_int (127 + 127 * sin (angle + 2.094));
            b = py_int (127 + 127 * sin (angle + 4.188));
            (r, g, b) = boost 0.9 r g b
        in (clamp255 r, clamp255 g, clamp255 b))"

definition StreamersEffect_init_streamer_palette :: "rgb list" where
  "StreamersEffect_init_streamer_palette = palette_fill 32 StreamersEffect_rgb"

text \<open>
  \<open>PlasmaField._init_plasma_palette\<close>, with the deviation of the truncated floats as in
  \<open>PlasmaEffect._init_palette\<close>.
\<close>

definition PlasmaField_rgb :: "rounding \<Rightarrow> int \<Rightarrow> rgb" where
  "PlasmaField_rgb \<rho> i =
     (let angle = (of_int i / 255) * 2 * pi;
          r = py_int (127 + 127 * sin angle + float_error \<rho> 0 i);
          g = py_int (127 + 127 * sin (angle + 2.094) + float_error \<rho> 1 i);
          b = py_int (127 + 127 * sin (angle + 4.188) + float_error \<rho> 2 i)
      in (clamp255 r, clamp255 g, clamp255 b))"

definition PlasmaField_init_plasma_palette :: "rounding \<Rightarrow> rgb list" where
  "PlasmaField_init_plasma_palette \<rho> = palette_fill 256 (PlasmaField_rgb \<rho>)"

text \<open>\<open>Kaleidoscope._init_kaleidoscope_palette\<close>.\<close>

definition Kaleidoscope_rgb :: "int \<Rightarrow> rgb" where
  "Kaleidoscope_rgb i =
     (let angle = (of_int i / 255) * 4 * pi;
          r = py_int (127 + 127 * sin (angle * 1.3));
          g = py_int (127 + 127 * sin (angle * 0.8 + pi / 2));
          b = py_int (127 + 127 * sin (angle * 1.7 + pi));
          (r, g, b) = boost 0.8 r g b
      in (clamp255 r, clamp255 g, clamp255 b))"

definition Kaleidoscope_init_kaleidoscope_palette :: "rgb list" where
  "Kaleidoscope_init_kaleidoscope_palette = palette_fill 256 Kaleidoscope_rgb"

text \<open>\<open>Mandelbrot._init_mandelbrot_palette\<close>.\<close>

definition Mandelbrot_rgb :: "int \<Rightarrow> rgb" where
  "Mandelbrot_rgb i =
     (if i = 0 then (0, 0, 0)
      else
        let t = of_int i / 255;
            r = py_int (127 + 127 * sin (t * pi * 4));
            g = py_int (127 + 127 * sin (t * pi * 4 + 2.094));
            b = py_int (127 + 127 * sin (t * pi * 4 + 4.188));
            r = py_int (of_int r * (0.8 + 0.4 * sin (t * pi * 8)));
            g = py_int (of_int g * (0.8 + 0.4 * sin (t * pi * 6)));
            b = py_int (of_int b * (0.8 + 0.4 * sin (t * pi * 10)))
        in (clamp255 r, clamp255 g, clamp255 b))"

definition Mandelbrot_init_mandelbrot_palette :: "rgb list" where
  "Mandelbrot_init_mandelbrot_palette = palette_fill 256 Mandelbrot_rgb"

section \<open>Effects of the stand-alone program\<close>

text \<open>
  Each effect class becomes a record of its mutable fields, a constructor \<open>_new\<close>
  (\<open>__init__\<close>), \<open>_reset\<close> and \<open>_update\<close>.  The display handle, the tile grid and
  the group are external objects and are left out; \<open>reset\<close> assigns the group to the
  display and changes nothing else outside the fields below.  An update that raises
  returns the exception.
\<close>

definition then_do :: "py_error + 'a \<Rightarrow> ('a \<Rightarrow> py_error + 'b) \<Rightarrow> py_error + 'b" where
  "then_do m f = (case m of Inl e \<Rightarrow> Inl e | Inr a \<Rightarrow> f a)"

subsection \<open>PlasmaEffect\<close>

record PlasmaEffect =
  pl_palette :: "rgb list"
  pl_bitmap :: bitmap
  pl_time :: real

definition PlasmaEffect_reset :: "PlasmaEffect \<Rightarrow> PlasmaEffect" where
  "PlasmaEffect_reset s = s\<lparr>pl_time := 0\<rparr>"

definition PlasmaEffect_new :: "rounding \<Rightarrow> PlasmaEffect" where
  "PlasmaEffect_new \<rho> =
     PlasmaEffect_reset
       \<lparr>pl_palette = PlasmaEffect_init_palette \<rho>,
        pl_bitmap = Bitmap (width div 2) (height div 2) 64,
        pl_time = 0\<rparr>"

definition PlasmaEffect_color_idx :: "real \<Rightarrow> int \<Rightarrow> int \<Rightarrow> int" where
  "PlasmaEffect_color_idx t x y =
     (let val = sin (of_int x * 0.2 + t) + sin (of_int y * 0.15 + t * 0.8)
      in py_int ((val + 2.0) * 15.5) mod 64)"

definition PlasmaEffect_update :: "PlasmaEffect \<Rightarrow> py_error + PlasmaEffect" where
  "PlasmaEffect_update s =
     (let t = pl_time s + 0.1 in
      then_do
        (for_each (py_range (height div 2)) (\<lambda>y.
           for_each (py_range (width div 2)) (\<lambda>x b.
             bitmap_set b x y (PlasmaEffect_color_idx t x y)))
           (pl_bitmap s))
        (\<lambda>b. Inr (s\<lparr>pl_time := t, pl_bitmap := b\<rparr>)))"

subsection \<open>SpiralEffect\<close>

record SpiralEffect =
  sp_palette :: "rgb list"
  sp_bitmap :: bitmap
  sp_time :: real
  sp_rotation :: real

definition center_x :: int where "center_x = (width div 2) div 2"
definition center_y :: int where "center_y = (height div 2) div 2"

definition SpiralEffect_reset :: "SpiralEffect \<Rightarrow> SpiralEffect" where
  "SpiralEffect_reset s = s\<lparr>sp_time := 0, sp_rotation := 0\<rparr>"

definition SpiralEffect_new :: SpiralEffect where
  "SpiralEffect_new =
     SpiralEffect_reset
       \<lparr>sp_palette = SpiralEffect_init_palette,
        sp_bitmap = Bitmap (width div 2) (height div 2) 32,
        sp_time = 0, sp_rotation = 0\<rparr>"

definition SpiralEffect_color_idx :: "real \<Rightarrow> real \<Rightarrow> int \<Rightarrow> int \<Rightarrow> int" where
  "SpiralEffect_color_idx t rot x y =
     (let dx = x - center_x;
          dy = y - center_y;
          distance = sqrt (of_int (dx * dx + dy * dy));
          angle = atan2 (of_int dy) (of_int dx);
          spiral_value = sin (distance * 0.3 - t * 3 + angle * 2 + rot);
          radial = cos (distance * 0.1 + t);
          combined = (spiral_value + radial) / 2.0
      in py_int ((combined + 1.0) * 15.5) mod 32)"

definition SpiralEffect_update :: "SpiralEffect \<Rightarrow> py_error + SpiralEffect" where
  "SpiralEffect_update s =
     (let t = sp_time s + 0.08;
          rot = sp_rotation s + 0.05 in
      then_do
        (for_each (py_range (height div 2)) (\<lambda>y.
           for_each (py_range (width div 2)) (\<lambda>x b.
             bitmap_set b x y (SpiralEffect_color_idx t rot x y)))
           (sp_bitmap s))
        (\<lambda>b. Inr (s\<lparr>sp_time := t, sp_rotation := rot, sp_bitmap := b\<rparr>)))"

subsection \<open>MatrixEffect\<close>

record MatrixEffect =
  mx_palette :: "rgb list"
  mx_bitmap :: bitmap
  mx_drop_positions :: "real list"
  mx_drop_speeds :: "int list"
  mx_drop_active :: "bool list"
  mx_time :: real

definition columns :: int where "columns = 20"
definition rows :: int where "rows = 15"

definition MatrixEffect_reset :: "MatrixEffect \<Rightarrow> MatrixEffect" where
  "MatrixEffect_reset s = s\<lparr>mx_time := 0\<rparr>"

text \<open>The body of the loop \<open>for i in range(self.columns)\<close> of the constructor.\<close>

fun MatrixEffect_init_drop :: "nat \<Rightarrow> MatrixEffect \<times> rng \<Rightarrow> MatrixEffect \<times> rng" where
  "MatrixEffect_init_drop i (s, g) =
     (let (p, g1) = randint (- 10) rows g;
          (v, g2) = choice [1, 2, 3] g1;
          (a, g3) = choice [True, False] g2
      in (s\<lparr>mx_drop_positions := (mx_drop_positions s)[i := of_int p],
            mx_drop_speeds := (mx_drop_speeds s)[i := v],
            mx_drop_active := (mx_drop_active s)[i := a]\<rparr>, g3))"

definition MatrixEffect_new :: "rng \<Rightarrow> MatrixEffect \<times> rng" where
  "MatrixEffect_new g =
     (let s0 = \<lparr>mx_palette = MatrixEffect_init_palette,
                mx_bitmap = Bitmap columns rows 16,
                mx_drop_positions = replicate (nat columns) 0,
                mx_drop_speeds = replicate (nat columns) 1,
                mx_drop_active = replicate (nat columns) True,
                mx_time = 0\<rparr>;
          (s1, g1) = fold MatrixEffect_init_drop [0..<nat columns] (s0, g)
      in (MatrixEffect_reset s1, g1))"

definition MatrixEffect_trail :: "int \<Rightarrow> int \<Rightarrow> int \<Rightarrow> bitmap \<Rightarrow> py_error + bitmap" where
  "MatrixEffect_trail col drop_y trail b =
     (let y = drop_y - trail in
      if 0 \<le> y \<and> y < rows then
        let brightness = max 0 (15 - trail * 2);
            brightness = (if trail = 0 then 15 else brightness)
        in bitmap_set b col y brightness
      else Inr b)"

fun MatrixEffect_column :: "int \<Rightarrow> MatrixEffect \<times> rng \<Rightarrow> py_error + MatrixEffect \<times> rng" where
  "MatrixEffect_column col (s, g) =
     (let c = nat col in
      if mx_drop_active s ! c then
        let drop_y = py_int (mx_drop_positions s ! c) in
        then_do (for_each (py_range 8) (MatrixEffect_trail col drop_y) (mx_bitmap s)) (\<lambda>b.
          let s1 = s\<lparr>mx_bitmap := b,
                     mx_drop_positions := (mx_drop_positions s)
                       [c := mx_drop_positions s ! c + of_int (mx_drop_speeds s ! c) * 0.3]\<rparr>
          in if mx_drop_positions s1 ! c > of_int (rows + 5) then
               let (p, g1) = randint (- 15) (- 5) g;
                   (v, g2) = choice [1, 2, 3] g1;
                   (a, g3) = choice [True, True, True, False] g2
               in Inr (s1\<lparr>mx_drop_positions := (mx_drop_positions s1)[c := of_int p],
                          mx_drop_speeds := (mx_drop_speeds s1)[c := v],
                          mx_drop_active := (mx_drop_active s1)[c := a]\<rparr>, g3)
             else Inr (s1, g))
      else
        let (k, g1) = randint 0 100 g in
        if k < 5 then
          let (p, g2) = randint (- 15) (- 5) g1
          in Inr (s\<lparr>mx_drop_active := (mx_drop_active s)[c := True],
                     mx_drop_positions := (mx_drop_positions s)[c := of_int p]\<rparr>, g2)
        else Inr (s, g1))"

definition MatrixEffect_update :: "MatrixEffect \<Rightarrow> rng \<Rightarrow> py_error + MatrixEffect \<times> rng" where
  "MatrixEffect_update s g =
     (let t = mx_time s + 0.1 in
      then_do
        (for_each (py_range rows) (\<lambda>y.
           for_each (py_range columns) (\<lambda>x b. bitmap_set b x y 0))
           (mx_bitmap s))
        (\<lambda>b. for_each (py_range columns) MatrixEffect_column
                (s\<lparr>mx_time := t, mx_bitmap := b\<rparr>, g)))"

subsection \<open>Escape-time iteration\<close>

text \<open>
  \<open>JuliaFractalEffect._julia_iteration\<close> and \<open>Mandelbrot._mandelbrot_iteration\<close> run
  the same loop up to the names of the variables: \<open>for i in range(max_iterations)\<close>,
  return \<open>i\<close> as soon as \<open>x*x + y*y > 4.0\<close>, otherwise replace \<open>(x, y)\<close> by
  \<open>(x*x - y*y + cx, 2*x*y + cy)\<close>; return \<open>0\<close> when the range is exhausted.  The
  first argument counts the iterations still to run, the second is the loop variable.
\<close>

fun escape_loop :: "nat \<Rightarrow> int \<Rightarrow> real \<Rightarrow> real \<Rightarrow> real \<Rightarrow> real \<Rightarrow> int" where
  "escape_loop 0 i cx cy x y = 0"
| "escape_loop (Suc k) i cx cy x y =
     (if x * x + y * y > 4 then i
      else escape_loop k (i + 1) cx cy (x * x - y * y + cx) (2 * x * y + cy))"

text \<open>
  Both fractals paint a 2 by 2 block per computed pixel, guarding the right and lower
  neighbours against the edge of the bitmap.
\<close>

definition fill_block :: "int \<Rightarrow> int \<Rightarrow> int \<Rightarrow> int \<Rightarrow> int \<Rightarrow> bitmap \<Rightarrow> py_error + bitmap" where
  "fill_block w h x y color_index b =
     then_do (bitmap_set b x y color_index) (\<lambda>b.
     then_do (if x + 1 < w then bitmap_set b (x + 1) y color_index else Inr b) (\<lambda>b.
       if y + 1 < h then
         then_do (bitmap_set b x (y + 1) color_index) (\<lambda>b.
           if x + 1 < w then bitmap_set b (x + 1) (y + 1) color_index else Inr b)
       else Inr b))"

subsection \<open>JuliaFractalEffect\<close>

record JuliaFractalEffect =
  ju_palette :: "rgb list"
  ju_bitmap :: bitmap
  ju_zoom :: real
  ju_center_x :: real
  ju_center_y :: real
  ju_max_iterations :: int
  ju_c_real :: real
  ju_c_imag :: real
  ju_time :: real
  ju_color_offset :: real

definition JuliaFractalEffect_reset :: "JuliaFractalEffect \<Rightarrow> JuliaFractalEffect" where
  "JuliaFractalEffect_reset s = s\<lparr>ju_time := 0, ju_color_offset := 0\<rparr>"

definition JuliaFractalEffect_new :: JuliaFractalEffect where
  "JuliaFractalEffect_new =
     JuliaFractalEffect_reset
       \<lparr>ju_palette = JuliaFractalEffect_init_palette,
        ju_bitmap = Bitmap (width div 2) (height div 2) 64,
        ju_zoom = 1.5, ju_center_x = - 0.7, ju_center_y = 0.0, ju_max_iterations = 20,
        ju_c_real = - 0.4, ju_c_imag = 0.6, ju_time = 0, ju_color_offset = 0\<rparr>"

text \<open>The point of the complex plane that \<open>_julia_iteration\<close> starts from.\<close>

definition JuliaFractalEffect_point :: "JuliaFractalEffect \<Rightarrow> int \<Rightarrow> int \<Rightarrow> real \<times> real" where
  "JuliaFractalEffect_point s x y =
     ((of_int x / of_int (width div 2) - 0.5) * 4.0 / ju_zoom s + ju_center_x s,
      (of_int y / of_int (height div 2) - 0.5) * 4.0 / ju_zoom s + ju_center_y s)"

definition julia_iteration :: "JuliaFractalEffect \<Rightarrow> int \<Rightarrow> int \<Rightarrow> py_error + int" where
  "julia_iteration s x y =
     (if ju_zoom s = 0 then Inl ZeroDivisionError
      else
        let (zx, zy) = JuliaFractalEffect_point s x y
        in Inr (escape_loop (nat (ju_max_iterations s)) 0 (ju_c_real s) (ju_c_imag s) zx zy))"

definition JuliaFractalEffect_color_index :: "JuliaFractalEffect \<Rightarrow> int \<Rightarrow> int" where
  "JuliaFractalEffect_color_index s iterations =
     (if iterations = 0 then 0
      else py_int (py_fmod (of_int iterations + ju_color_offset s) 63) + 1)"

text \<open>The assignments of \<open>update\<close> before the pixel loops.\<close>

definition JuliaFractalEffect_animate :: "JuliaFractalEffect \<Rightarrow> JuliaFractalEffect" where
  "JuliaFractalEffect_animate s =
     (let t = ju_time s + 0.05 in
      s\<lparr>ju_time := t,
        ju_color_offset := ju_color_offset s + 1.0,
        ju_c_real := - 0.4 + 0.3 * sin (t * 0.5),
        ju_c_imag := 0.6 + 0.2 * cos (t * 0.7),
        ju_zoom := 1.5 + 0.3 * sin (t * 0.3)\<rparr>)"

definition JuliaFractalEffect_pixel :: "JuliaFractalEffect \<Rightarrow> int \<Rightarrow> int \<Rightarrow> bitmap \<Rightarrow> py_error + bitmap" where
  "JuliaFractalEffect_pixel s x y b =
     then_do (julia_iteration s x y) (\<lambda>iterations.
       fill_block (width div 2) (height div 2) x y
         (JuliaFractalEffect_color_index s iterations) b)"

definition JuliaFractalEffect_update :: "JuliaFractalEffect \<Rightarrow> py_error + JuliaFractalEffect" where
  "JuliaFractalEffect_update s =
     (let s1 = JuliaFractalEffect_animate s in
      then_do
        (for_each (py_range_step2 0 (height div 2)) (\<lambda>y.
           for_each (py_range_step2 0 (width div 2)) (\<lambda>x. JuliaFractalEffect_pixel s1 x y))
           (ju_bitmap s1))
        (\<lambda>b. Inr (s1\<lparr>ju_bitmap := b\<rparr>)))"

subsection \<open>FireEffect\<close>

record FireEffect =
  fi_palette :: "rgb list"
  fi_bitmap :: bitmap
  fi_fire_buffer :: "int list list"
  fi_cooling_map :: "int list list"
  fi_time :: real

definition fire_width :: nat where "fire_width = 80"
definition fire_height :: nat where "fire_height = 60"

text \<open>\<open>buffer[y][x]\<close> and \<open>buffer[y][x] = v\<close> on a list of rows.\<close>

definition grid_get :: "int list list \<Rightarrow> nat \<Rightarrow> nat \<Rightarrow> int" where
  "grid_get buf y x = buf ! y ! x"

definition grid_set :: "int list list \<Rightarrow> nat \<Rightarrow> nat \<Rightarrow> int \<Rightarrow> int list list" where
  "grid_set buf y x v = buf[y := (buf ! y)[x := v]]"

definition init_fire_source :: "int list list \<Rightarrow> int list list" where
  "init_fire_source buf = fold (\<lambda>x buf. grid_set buf (fire_height - 1) x 31) [0..<fire_width] buf"

definition FireEffect_reset :: "FireEffect \<Rightarrow> FireEffect" where
  "FireEffect_reset s = s\<lparr>fi_time := 0, fi_fire_buffer := init_fire_source (fi_fire_buffer s)\<rparr>"

definition FireEffect_new :: FireEffect where
  "FireEffect_new =
     (let s = \<lparr>fi_palette = FireEffect_init_fire_palette,
               fi_bitmap = Bitmap (int fire_width) (int fire_height) 32,
               fi_fire_buffer = replicate fire_height (replicate fire_width 0),
               fi_cooling_map = replicate fire_height (replicate fire_width 0),
               fi_time = 0\<rparr>
      in FireEffect_reset (s\<lparr>fi_fire_buffer := init_fire_source (fi_fire_buffer s)\<rparr>))"

text \<open>
  The two inner loops over \<open>dx in [-1, 0, 1]\<close> and \<open>dy in [0, 1]\<close>: the sum and the
  number of the neighbours that lie in the grid.
\<close>

definition fire_neighbours :: "int list list \<Rightarrow> nat \<Rightarrow> nat \<Rightarrow> int \<times> int" where
  "fire_neighbours buf x y =
     fold (\<lambda>(dx, dy) (heat_sum, heat_count).
             let nx = int x + dx; ny = int y + dy in
             if 0 \<le> nx \<and> nx < int fire_width \<and> 0 \<le> ny \<and> ny < int fire_height
             then (heat_sum + grid_get buf (nat ny) (nat nx), heat_count + 1)
             else (heat_sum, heat_count))
          [(- 1, 0), (- 1, 1), (0, 0), (0, 1), (1, 0), (1, 1)] (0, 0)"

fun fire_cell :: "nat \<Rightarrow> nat \<Rightarrow> int list list \<times> rng \<Rightarrow> int list list \<times> rng" where
  "fire_cell y x (buf, g) =
     (let (heat_sum, heat_count) = fire_neighbours buf x y in
      if heat_count > 0 then
        let avg_heat = of_int heat_sum / of_int heat_count :: real;
            (cooling, g1) = randint 1 3 g;
            new_heat = max 0 (py_int (avg_heat - of_int cooling));
            (k, g2) = randint 0 10 g1;
            (new_heat, g3) =
              (if k < 3 then let (d, g3) = randint 0 2 g2 in (max 0 (new_heat - d), g3)
               else (new_heat, g2))
        in (grid_set buf y x (min 31 new_heat), g3)
      else (grid_set buf y x 0, g))"

fun fire_source_cell :: "nat \<Rightarrow> int list list \<times> rng \<Rightarrow> int list list \<times> rng" where
  "fire_source_cell x (buf, g) =
     (let (r, g1) = randint (- 3) 3 g;
          base_heat = 28 + r
      in (grid_set buf (fire_height - 1) x (max 20 (min 31 base_heat)), g1))"

definition update_fire_simulation :: "int list list \<times> rng \<Rightarrow> int list list \<times> rng" where
  "update_fire_simulation bg =
     fold fire_source_cell [0..<fire_width]
       (fold (\<lambda>y. fold (fire_cell y) [0..<fire_width]) (rev [0..<fire_height - 1]) bg)"

definition FireEffect_update :: "FireEffect \<Rightarrow> rng \<Rightarrow> py_error + FireEffect \<times> rng" where
  "FireEffect_update s g =
     (let t = fi_time s + 0.1;
          (buf, g1) = update_fire_simulation (fi_fire_buffer s, g) in
      then_do
        (for_each (py_range (int fire_height)) (\<lambda>y.
           for_each (py_range (int fire_width)) (\<lambda>x b.
             bitmap_set b x y (grid_get buf (nat y) (nat x))))
           (fi_bitmap s))
        (\<lambda>b. Inr (s\<lparr>fi_time := t, fi_fire_buffer := buf, fi_bitmap := b\<rparr>, g1)))"

subsection \<open>StarfieldEffect\<close>

record star =
  st_x :: real
  st_y :: real
  st_z :: real
  st_brightness :: int
  st_speed :: real

record StarfieldEffect =
  sf_palette :: "rgb list"
  sf_bitmap :: bitmap
  sf_stars :: "star list"
  sf_time :: real

definition num_stars :: nat where "num_stars = 150"

text \<open>
  One star as \<open>_init_stars\<close> (distance up to \<open>100\<close>, depth from \<open>1\<close>) and \<open>_reset_star\<close>
  (distance up to \<open>5\<close>, depth from \<open>30\<close>) draw it; the draws are made in the order of the
  source.
\<close>

definition draw_star :: "real \<Rightarrow> real \<Rightarrow> rng \<Rightarrow> star \<times> rng" where
  "draw_star max_distance min_z g =
     (let (angle, g1) = uniform 0 (2 * 3.14159) g;
          (distance, g2) = uniform 1 max_distance g1;
          (z, g3) = uniform min_z 50 g2;
          (brightness, g4) = randint 5 15 g3;
          (speed, g5) = uniform 0.5 2.0 g4
      in (\<lparr>st_x = of_int center_x + distance * cos angle,
           st_y = of_int center_y + distance * sin angle,
           st_z = z, st_brightness = brightness, st_speed = speed\<rparr>, g5))"

fun init_stars_step :: "nat \<Rightarrow> star list \<times> rng \<Rightarrow> star list \<times> rng" where
  "init_stars_step i (stars, g) = (let (st, g1) = draw_star 100 1 g in (stars @ [st], g1))"

definition init_stars :: "rng \<Rightarrow> star list \<times> rng" where
  "init_stars g = fold init_stars_step [0..<num_stars] ([], g)"

definition reset_star :: "rng \<Rightarrow> star \<times> rng" where
  "reset_star g = draw_star 5 30 g"

definition StarfieldEffect_reset :: "StarfieldEffect \<Rightarrow> rng \<Rightarrow> StarfieldEffect \<times> rng" where
  "StarfieldEffect_reset s g =
     (let (stars, g1) = init_stars g in (s\<lparr>sf_time := 0, sf_stars := stars\<rparr>, g1))"

definition StarfieldEffect_new :: "rng \<Rightarrow> StarfieldEffect \<times> rng" where
  "StarfieldEffect_new g =
     (let (stars, g1) = init_stars g
      in StarfieldEffect_reset
           \<lparr>sf_palette = StarfieldEffect_init_star_palette,
            sf_bitmap = Bitmap (width div 2) (height div 2) 16,
            sf_stars = stars, sf_time = 0\<rparr> g1)"

text \<open>
  The writes of a \<open>try\<close> block, in order: the first one that raises ends the block, and
  the writes made before it stay.
\<close>

fun write_seq :: "bitmap \<Rightarrow> (int \<times> int) list \<Rightarrow> int \<Rightarrow> bitmap \<times> py_error option" where
  "write_seq b [] v = (b, None)"
| "write_seq b ((x, y) # ps) v =
     (case bitmap_set b x y v of Inl e \<Rightarrow> (b, Some e) | Inr b' \<Rightarrow> write_seq b' ps v)"

definition star_writes :: "int \<Rightarrow> int \<Rightarrow> real \<Rightarrow> (int \<times> int) list" where
  "star_writes screen_x screen_y size_factor =
     (screen_x, screen_y) #
     (if size_factor > 1.5 then
        (if screen_x + 1 < width div 2 then [(screen_x + 1, screen_y)] else []) @
        (if screen_y + 1 < height div 2 then
           (screen_x, screen_y + 1) #
           (if screen_x + 1 < width div 2 then [(screen_x + 1, screen_y + 1)] else [])
         else [])
      else [])"

fun StarfieldEffect_star :: "real \<Rightarrow> nat \<Rightarrow> StarfieldEffect \<times> rng \<Rightarrow> py_error + StarfieldEffect \<times> rng" where
  "StarfieldEffect_star warp_factor i (s, g) =
     (let st = sf_stars s ! i;
          dx = st_x st - of_int center_x;
          dy = st_y st - of_int center_y;
          st = st\<lparr>st_x := st_x st + dx * 0.02 * st_speed st * warp_factor,
                  st_y := st_y st + dy * 0.02 * st_speed st * warp_factor,
                  st_z := st_z st - 0.5 * st_speed st * warp_factor\<rparr>;
          screen_x = py_int (st_x st);
          screen_y = py_int (st_y st)
      in if screen_x < 0 \<or> screen_x \<ge> width div 2 \<or> screen_y < 0 \<or> screen_y \<ge> height div 2
            \<or> st_z st < 1 then
           let (st', g1) = reset_star g in Inr (s\<lparr>sf_stars := (sf_stars s)[i := st']\<rparr>, g1)
         else
           let size_factor = max 0.1 (30.0 / st_z st);
               brightness = py_int (of_int (st_brightness st) * size_factor);
               brightness = max 1 (min 15 brightness)
           in case write_seq (sf_bitmap s) (star_writes screen_x screen_y size_factor) brightness of
                (b, None) \<Rightarrow> Inr (s\<lparr>sf_stars := (sf_stars s)[i := st], sf_bitmap := b\<rparr>, g)
              | (b, Some IndexError) \<Rightarrow>
                  let (st', g1) = reset_star g
                  in Inr (s\<lparr>sf_stars := (sf_stars s)[i := st'], sf_bitmap := b\<rparr>, g1)
              | (b, Some e) \<Rightarrow> Inl e)"

definition StarfieldEffect_update :: "StarfieldEffect \<Rightarrow> rng \<Rightarrow> py_error + StarfieldEffect \<times> rng" where
  "StarfieldEffect_update s g =
     (let t = sf_time s + 0.1;
          warp_factor = 1.0 + 0.5 * sin (t * 0.3) in
      then_do
        (for_each (py_range (height div 2)) (\<lambda>y.
           for_each (py_range (width div 2)) (\<lambda>x b. bitmap_set b x y 0))
           (sf_bitmap s))
        (\<lambda>b. for_each [0..<length (sf_stars s)] (StarfieldEffect_star warp_factor)
                (s\<lparr>sf_time := t, sf_bitmap := b\<rparr>, g)))"

subsection \<open>SineWaveEffect\<close>

record wave_source =
  ws_x :: real
  ws_y :: real
  ws_freq :: real
  ws_amplitude :: real
  ws_phase :: real

record SineWaveEffect =
  sw_palette :: "rgb list"
  sw_bitmap :: bitmap
  sw_wave_sources :: "wave_source list"
  sw_time :: real
  sw_color_shift :: real

definition SineWaveEffect_reset :: "SineWaveEffect \<Rightarrow> SineWaveEffect" where
  "SineWaveEffect_reset s = s\<lparr>sw_time := 0, sw_color_shift := 0\<rparr>"

definition SineWaveEffect_new :: SineWaveEffect where
  "SineWaveEffect_new =
     SineWaveEffect_reset
       \<lparr>sw_palette = SineWaveEffect_init_wave_palette,
        sw_bitmap = Bitmap (width div 2) (height div 2) 64,
        sw_wave_sources =
          [\<lparr>ws_x = 40, ws_y = 30, ws_freq = 0.2, ws_amplitude = 1.0, ws_phase = 0.0\<rparr>,
           \<lparr>ws_x = 120, ws_y = 30, ws_freq = 0.15, ws_amplitude = 0.8, ws_phase = 1.57\<rparr>,
           \<lparr>ws_x = 80, ws_y = 90, ws_freq = 0.25, ws_amplitude = 0.9, ws_phase = 3.14\<rparr>,
           \<lparr>ws_x = 40, ws_y = 90, ws_freq = 0.18, ws_amplitude = 0.7, ws_phase = 4.71\<rparr>],
        sw_time = 0, sw_color_shift = 0\<rparr>"

definition calculate_wave_interference :: "wave_source list \<Rightarrow> real \<Rightarrow> int \<Rightarrow> int \<Rightarrow> real" where
  "calculate_wave_interference sources t x y =
     fold (\<lambda>source total_amplitude.
             let dx = of_int x - ws_x source;
                 dy = of_int y - ws_y source;
                 distance = sqrt (dx * dx + dy * dy);
                 wave_value = ws_amplitude source
                   * sin (ws_freq source * distance + ws_phase source + t * 2);
                 attenuation = 1.0 / (1.0 + distance * 0.01)
             in total_amplitude + wave_value * attenuation)
          sources 0.0"

definition move_wave_source :: "real \<Rightarrow> nat \<times> wave_source \<Rightarrow> wave_source" where
  "move_wave_source t = (\<lambda>(i, source).
     let angle = t * 0.3 + of_nat i * 1.57;
         radius = 20 + 15 * sin (t * 0.2 + of_nat i);
         base_freq = 0.1 + of_nat i * 0.05
     in source\<lparr>ws_x := of_int center_x + radius * cos angle,
               ws_y := of_int center_y + radius * sin angle,
               ws_freq := base_freq + 0.05 * sin (t * 0.4 + of_nat i)\<rparr>)"

definition SineWaveEffect_color_index :: "wave_source list \<Rightarrow> real \<Rightarrow> real \<Rightarrow> int \<Rightarrow> int \<Rightarrow> int" where
  "SineWaveEffect_color_index sources t color_shift x y =
     (let wave_amplitude = calculate_wave_interference sources t x y;
          color_value = (wave_amplitude + 2.0) / 4.0;
          color_index = py_int (py_fmod (color_value * 63 + color_shift) 64)
      in max 0 (min 63 color_index))"

definition SineWaveEffect_update :: "SineWaveEffect \<Rightarrow> py_error + SineWaveEffect" where
  "SineWaveEffect_update s =
     (let t = sw_time s + 0.08;
          color_shift = sw_color_shift s + 0.5;
          sources = map (move_wave_source t) (enumerate 0 (sw_wave_sources s)) in
      then_do
        (for_each (py_range (height div 2)) (\<lambda>y.
           for_each (py_range (width div 2)) (\<lambda>x b.
             bitmap_set b x y (SineWaveEffect_color_index sources t color_shift x y)))
           (sw_bitmap s))
        (\<lambda>b. Inr (s\<lparr>sw_time := t, sw_color_shift := color_shift,
                     sw_wave_sources := sources, sw_bitmap := b\<rparr>)))"

subsection \<open>StreamersEffect\<close>

record streamer =
  sr_x_start :: real
  sr_y_base :: int
  sr_amplitude :: real
  sr_frequency :: real
  sr_speed :: real
  sr_phase :: real
  sr_color :: int
  sr_thickness :: int
  sr_direction :: int
  sr_wave_speed :: real

record StreamersEffect =
  se_palette :: "rgb list"
  se_bitmap :: bitmap
  se_streamers :: "streamer list"
  se_time :: real

definition num_streamers :: nat where "num_streamers = 8"

definition draw_streamer :: "rng \<Rightarrow> streamer \<times> rng" where
  "draw_streamer g =
     (let (x_start, g1) = randint (- 20) (width div 2 + 20) g;
          (y_base, g2) = randint 10 (height div 2 - 10) g1;
          (amplitude, g3) = uniform 5 25 g2;
          (frequency, g4) = uniform 0.05 0.15 g3;
          (speed, g5) = uniform 0.5 2.0 g4;
          (phase, g6) = uniform 0 6.28 g5;
          (color, g7) = randint 1 31 g6;
          (thickness, g8) = randint 1 3 g7;
          (direction, g9) = choice [- 1, 1] g8;
          (wave_speed, g10) = uniform 0.02 0.08 g9
      in (\<lparr>sr_x_start = of_int x_start, sr_y_base = y_base, sr_amplitude = amplitude,
           sr_frequency = frequency, sr_speed = speed, sr_phase = phase, sr_color = color,
           sr_thickness = thickness, sr_direction = direction, sr_wave_speed = wave_speed\<rparr>,
          g10))"

fun init_streamers_step :: "nat \<Rightarrow> streamer list \<times> rng \<Rightarrow> streamer list \<times> rng" where
  "init_streamers_step i (streamers, g) =
     (let (sr, g1) = draw_streamer g in (streamers @ [sr], g1))"

definition init_streamers :: "rng \<Rightarrow> streamer list \<times> rng" where
  "init_streamers g = fold init_streamers_step [0..<num_streamers] ([], g)"

definition StreamersEffect_reset :: "StreamersEffect \<Rightarrow> rng \<Rightarrow> StreamersEffect \<times> rng" where
  "StreamersEffect_reset s g =
     (let (streamers, g1) = init_streamers g
      in (s\<lparr>se_time := 0, se_streamers := streamers\<rparr>, g1))"

definition StreamersEffect_new :: "rng \<Rightarrow> StreamersEffect \<times> rng" where
  "StreamersEffect_new g =
     (let (streamers, g1) = init_streamers g
      in StreamersEffect_reset
           \<lparr>se_palette = StreamersEffect_init_streamer_palette,
            se_bitmap = Bitmap (width div 2) (height div 2) 32,
            se_streamers = streamers, se_time = 0\<rparr> g1)"

text \<open>The movement of one streamer in \<open>update\<close>, with the respawn at the far side.\<close>

definition move_streamer :: "streamer \<Rightarrow> rng \<Rightarrow> streamer \<times> rng" where
  "move_streamer sr g =
     (let sr = sr\<lparr>sr_x_start := sr_x_start sr + sr_speed sr * of_int (sr_direction sr)\<rparr>;
          sr = sr\<lparr>sr_phase := sr_phase sr + sr_wave_speed sr\<rparr>
      in if (sr_direction sr > 0 \<and> sr_x_start sr > of_int (width div 2 + 50))
            \<or> (sr_direction sr < 0 \<and> sr_x_start sr < - 50) then
           let (x_start, g1) =
                 (if sr_direction sr > 0 then randint (- 50) (- 20) g
                  else randint (width div 2 + 20) (width div 2 + 50) g);
               (y_base, g2) = randint 10 (height div 2 - 10) g1;
               (amplitude, g3) = uniform 5 25 g2;
               (frequency, g4) = uniform 0.05 0.15 g3;
               (speed, g5) = uniform 0.5 2.0 g4;
               (color, g6) = randint 1 31 g5;
               (thickness, g7) = randint 1 3 g6;
               (wave_speed, g8) = uniform 0.02 0.08 g7
           in (sr\<lparr>sr_x_start := of_int x_start, sr_y_base := y_base,
                   sr_amplitude := amplitude, sr_frequency := frequency, sr_speed := speed,
                   sr_color := color, sr_thickness := thickness, sr_wave_speed := wave_speed\<rparr>,
               g8)
         else (sr, g))"

text \<open>
  \<open>_draw_wavy_streamer\<close>: the state of the loop over \<open>x\<close> is the bitmap and the
  previous point (\<open>None\<close> before the first visible column).
\<close>

fun streamer_thick :: "streamer \<Rightarrow> int \<Rightarrow> int \<Rightarrow> (int \<times> int) option \<Rightarrow> int \<Rightarrow> bitmap \<Rightarrow> py_error + bitmap" where
  "streamer_thick sr x y prev thickness b =
     (let py = y + thickness - sr_thickness sr div 2 in
      if 0 \<le> py \<and> py < height div 2 then
        then_do (bitmap_set b x py (sr_color sr)) (\<lambda>b.
          case prev of
            None \<Rightarrow> Inr b
          | Some (prev_x, prev_y) \<Rightarrow>
              if \<bar>x - prev_x\<bar> \<le> 2 \<and> \<bar>py - prev_y\<bar> \<le> 4 then
                let mid_y = (py + prev_y) div 2 in
                if 0 \<le> mid_y \<and> mid_y < height div 2 \<and> 0 \<le> prev_x \<and> prev_x < width div 2
                then bitmap_set b prev_x mid_y (sr_color sr)
                else Inr b
              else Inr b)
      else Inr b)"

fun streamer_column :: "streamer \<Rightarrow> int \<Rightarrow> bitmap \<times> (int \<times> int) option \<Rightarrow> py_error + bitmap \<times> (int \<times> int) option" where
  "streamer_column sr x (b, prev) =
     (if 0 \<le> x \<and> x < width div 2 then
        let wave_offset = sr_amplitude sr
              * sin ((of_int x - sr_x_start sr) * sr_frequency sr + sr_phase sr);
            y = py_int (of_int (sr_y_base sr) + wave_offset)
        in then_do (for_each (py_range (sr_thickness sr)) (streamer_thick sr x y prev) b)
             (\<lambda>b. Inr (b, Some (x, y)))
      else Inr (b, prev))"

definition draw_wavy_streamer :: "streamer \<Rightarrow> bitmap \<Rightarrow> py_error + bitmap" where
  "draw_wavy_streamer sr b =
     (let start_x = max (- 10) (min (width div 2 + 10) (py_int (sr_x_start sr) - 30));
          end_x = max (- 10) (min (width div 2 + 10) (py_int (sr_x_start sr) + 60))
      in then_do (for_each (py_range_step2 start_x end_x) (streamer_column sr) (b, None))
           (\<lambda>(b, prev). Inr b))"

fun StreamersEffect_streamer :: "nat \<Rightarrow> StreamersEffect \<times> rng \<Rightarrow> py_error + StreamersEffect \<times> rng" where
  "StreamersEffect_streamer i (s, g) =
     (let (sr, g1) = move_streamer (se_streamers s ! i) g
      in then_do (draw_wavy_streamer sr (se_bitmap s))
           (\<lambda>b. Inr (s\<lparr>se_streamers := (se_streamers s)[i := sr], se_bitmap := b\<rparr>, g1)))"

definition StreamersEffect_update :: "StreamersEffect \<Rightarrow> rng \<Rightarrow> py_error + StreamersEffect \<times> rng" where
  "StreamersEffect_update s g =
     (let t = se_time s + 0.1 in
      then_do
        (for_each (py_range (height div 2)) (\<lambda>y.
           for_each (py_range (width div 2)) (\<lambda>x b. bitmap_set b x y 0))
           (se_bitmap s))
        (\<lambda>b. for_each [0..<length (se_streamers s)] StreamersEffect_streamer
                (s\<lparr>se_time := t, se_bitmap := b\<rparr>, g)))"

subsection \<open>ColorMatrixEffect\<close>

text \<open>
  The text rain draws \<open>Label\<close> objects instead of bitmap pixels and has no palette
  object.  Its constructor and \<open>reset\<close> are modelled; a label is the record of what it
  was created with and its age.
\<close>

record label =
  lb_text :: char
  lb_color :: rgb
  lb_x :: int
  lb_y :: int
  lb_matrix_age :: int

record ColorMatrixEffect =
  cm_group :: "label list"
  cm_drop_positions :: "real list"
  cm_drop_speeds :: "real list"
  cm_drop_active :: "bool list"
  cm_drop_colors :: "rgb list"
  cm_active_labels :: "label list"
  cm_time :: real

definition char_width :: int where "char_width = 9"
definition char_height :: int where "char_height = 12"
definition text_columns :: int where "text_columns = width div char_width"
definition text_rows :: int where "text_rows = height div char_height"

definition colors :: "rgb list" where
  "colors = [(0, 255, 0), (0, 255, 255), (255, 0, 255), (255, 255, 0),
             (255, 0, 0), (0, 0, 255), (255, 128, 0), (128, 0, 255)]"

text \<open>\<open>self.group.remove(label_obj)\<close> for each active label, then \<open>clear()\<close>.\<close>

definition ColorMatrixEffect_reset :: "ColorMatrixEffect \<Rightarrow> ColorMatrixEffect" where
  "ColorMatrixEffect_reset s =
     s\<lparr>cm_time := 0,
       cm_group := fold remove1 (cm_active_labels s) (cm_group s),
       cm_active_labels := []\<rparr>"

fun ColorMatrixEffect_init_drop :: "nat \<Rightarrow> ColorMatrixEffect \<times> rng \<Rightarrow> ColorMatrixEffect \<times> rng" where
  "ColorMatrixEffect_init_drop i (s, g) =
     (let (p, g1) = randint (- 20) text_rows g;
          (v, g2) = choice [0.5, 1, 1.5, 2] g1;
          (a, g3) = choice [True, False] g2;
          (c, g4) = choice colors g3
      in (s\<lparr>cm_drop_positions := (cm_drop_positions s)[i := of_int p],
            cm_drop_speeds := (cm_drop_speeds s)[i := v],
            cm_drop_active := (cm_drop_active s)[i := a],
            cm_drop_colors := (cm_drop_colors s)[i := c]\<rparr>, g4))"

definition ColorMatrixEffect_new :: "rng \<Rightarrow> ColorMatrixEffect \<times> rng" where
  "ColorMatrixEffect_new g =
     (let s0 = \<lparr>cm_group = [],
                cm_drop_positions = replicate (nat text_columns) 0,
                cm_drop_speeds = replicate (nat text_columns) 1,
                cm_drop_active = replicate (nat text_columns) True,
                cm_drop_colors = replicate (nat text_columns) (0, 255, 0),
                cm_active_labels = [],
                cm_time = 0\<rparr>;
          (s1, g1) = fold ColorMatrixEffect_init_drop [0..<nat text_columns] (s0, g)
      in (ColorMatrixEffect_reset s1, g1))"

section \<open>Effects of the framework\<close>

text \<open>
  The three framework effects take the size of their bitmap from the display they are
  given.  Their speed, scale and symmetry fields are set once by the constructor and
  never assigned again; they appear as constants.
\<close>

subsection \<open>PlasmaField\<close>

record PlasmaField =
  pf_width :: int
  pf_height :: int
  pf_palette :: "rgb list"
  pf_bitmap :: bitmap
  pf_time :: real
  pf_center_x :: int
  pf_center_y :: int

definition plasma_speed :: real where "plasma_speed = 0.08"
definition plasma_scale :: real where "plasma_scale = 16.0"

definition PlasmaField_new :: "rounding \<Rightarrow> int \<Rightarrow> int \<Rightarrow> PlasmaField" where
  "PlasmaField_new \<rho> w h =
     \<lparr>pf_width = w, pf_height = h,
      pf_palette = PlasmaField_init_plasma_palette \<rho>,
      pf_bitmap = Bitmap w h 256,
      pf_time = 0,
      pf_center_x = w div 2, pf_center_y = h div 2\<rparr>"

definition PlasmaField_reset :: "PlasmaField \<Rightarrow> PlasmaField" where
  "PlasmaField_reset s = s\<lparr>pf_time := 0\<rparr>"

definition PlasmaField_color_index :: "PlasmaField \<Rightarrow> real \<Rightarrow> int \<Rightarrow> int \<Rightarrow> int" where
  "PlasmaField_color_index s t x y =
     (let val1 = sin ((of_int x + t * 50) / plasma_scale);
          val2 = sin ((of_int y + t * 30) / plasma_scale);
          val3 = sin ((of_int (x + y) + t * 40) / plasma_scale);
          val4 = sin (sqrt (of_int ((x - pf_center_x s)\<^sup>2 + (y - pf_center_y s)\<^sup>2))
                        / plasma_scale + t * 20);
          plasma_value = (val1 + val2 + val3 + val4) / 4.0;
          color_index = py_int ((plasma_value + 1.0) * 127.5)
      in max 0 (min 255 color_index))"

definition PlasmaField_update :: "PlasmaField \<Rightarrow> py_error + PlasmaField" where
  "PlasmaField_update s =
     (let t = pf_time s + plasma_speed in
      then_do
        (for_each (py_range (pf_height s)) (\<lambda>y.
           for_each (py_range (pf_width s)) (\<lambda>x b.
             bitmap_set b x y (PlasmaField_color_index s t x y)))
           (pf_bitmap s))
        (\<lambda>b. Inr (s\<lparr>pf_time := t, pf_bitmap := b\<rparr>)))"

subsection \<open>Kaleidoscope\<close>

record Kaleidoscope =
  ka_width :: int
  ka_height :: int
  ka_palette :: "rgb list"
  ka_bitmap :: bitmap
  ka_time :: real
  ka_color_shift :: real
  ka_center_x :: int
  ka_center_y :: int

definition rotation_speed :: real where "rotation_speed = 0.02"
definition symmetry_order :: int where "symmetry_order = 6"

definition Kaleidoscope_new :: "int \<Rightarrow> int \<Rightarrow> Kaleidoscope" where
  "Kaleidoscope_new w h =
     \<lparr>ka_width = w, ka_height = h,
      ka_palette = Kaleidoscope_init_kaleidoscope_palette,
      ka_bitmap = Bitmap w h 256,
      ka_time = 0, ka_color_shift = 0,
      ka_center_x = w div 2, ka_center_y = h div 2\<rparr>"

definition Kaleidoscope_reset :: "Kaleidoscope \<Rightarrow> Kaleidoscope" where
  "Kaleidoscope_reset s = s\<lparr>ka_time := 0, ka_color_shift := 0\<rparr>"

definition get_kaleidoscope_value :: "Kaleidoscope \<Rightarrow> real \<Rightarrow> int \<Rightarrow> int \<Rightarrow> real" where
  "get_kaleidoscope_value s t x y =
     (let dx = x - ka_center_x s;
          dy = y - ka_center_y s;
          radius = sqrt (of_int (dx * dx + dy * dy));
          angle = atan2 (of_int dy) (of_int dx);
          angle = angle + t;
          segment_angle = (2 * pi) / of_int symmetry_order;
          angle_in_segment = py_fmod angle segment_angle;
          segment_num = py_int (py_floordiv angle segment_angle) mod (2 * symmetry_order);
          angle_in_segment =
            (if segment_num mod 2 = 1 then segment_angle - angle_in_segment
             else angle_in_segment);
          mirrored_x = radius * cos angle_in_segment;
          mirrored_y = radius * sin angle_in_segment;
          pattern1 = sin (mirrored_x * 0.1 + t * 2);
          pattern2 = cos (mirrored_y * 0.08 + t * 1.5);
          pattern3 = sin ((mirrored_x + mirrored_y) * 0.06 + t);
          pattern4 = cos (radius * 0.05 + t * 0.8);
          combined = (pattern1 + pattern2 + pattern3 + pattern4) / 4.0;
          radial = sin (radius * 0.02 + t * 0.5)
      in (combined + radial) / 2.0)"

definition Kaleidoscope_color_index :: "Kaleidoscope \<Rightarrow> real \<Rightarrow> real \<Rightarrow> int \<Rightarrow> int \<Rightarrow> int" where
  "Kaleidoscope_color_index s t color_shift x y =
     (let pattern_value = get_kaleidoscope_value s t x y;
          color_base = (pattern_value + 1.0) * 127.5;
          color_index = py_int (py_fmod (color_base + color_shift) 256)
      in max 0 (min 255 color_index))"

definition Kaleidoscope_update :: "Kaleidoscope \<Rightarrow> py_error + Kaleidoscope" where
  "Kaleidoscope_update s =
     (let t = ka_time s + rotation_speed;
          color_shift = ka_color_shift s + 0.5 in
      then_do
        (for_each (py_range (ka_height s)) (\<lambda>y.
           for_each (py_range (ka_width s)) (\<lambda>x b.
             bitmap_set b x y (Kaleidoscope_color_index s t color_shift x y)))
           (ka_bitmap s))
        (\<lambda>b. Inr (s\<lparr>ka_time := t, ka_color_shift := color_shift, ka_bitmap := b\<rparr>)))"

subsection \<open>Mandelbrot\<close>

record Mandelbrot =
  md_width :: int
  md_height :: int
  md_palette :: "rgb list"
  md_bitmap :: bitmap
  md_zoom :: real
  md_center_x :: real
  md_center_y :: real
  md_max_iterations :: int
  md_time :: real
  md_color_offset :: real
  md_frame_count :: int

definition zoom_speed :: real where "zoom_speed = 1.02"
definition zoom_center_x :: real where "zoom_center_x = - 0.235125"
definition zoom_center_y :: real where "zoom_center_y = 0.827215"
definition zoom_cycle_time :: int where "zoom_cycle_time = 200"

definition Mandelbrot_new :: "int \<Rightarrow> int \<Rightarrow> Mandelbrot" where
  "Mandelbrot_new w h =
     \<lparr>md_width = w, md_height = h,
      md_palette = Mandelbrot_init_mandelbrot_palette,
      md_bitmap = Bitmap w h 256,
      md_zoom = 1.0, md_center_x = - 0.5, md_center_y = 0.0, md_max_iterations = 32,
      md_time = 0, md_color_offset = 0, md_frame_count = 0\<rparr>"

definition Mandelbrot_reset :: "Mandelbrot \<Rightarrow> Mandelbrot" where
  "Mandelbrot_reset s = s\<lparr>md_time := 0, md_zoom := 1.0, md_frame_count := 0, md_color_offset := 0\<rparr>"

definition mandelbrot_iteration :: "int \<Rightarrow> real \<Rightarrow> real \<Rightarrow> int" where
  "mandelbrot_iteration max_iterations cx cy = escape_loop (nat max_iterations) 0 cx cy 0 0"

definition screen_to_complex :: "Mandelbrot \<Rightarrow> int \<Rightarrow> int \<Rightarrow> py_error + real \<times> real" where
  "screen_to_complex s screen_x screen_y =
     (if md_height s = 0 \<or> md_zoom s = 0 \<or> md_width s = 0 then Inl ZeroDivisionError
      else
        let aspect_ratio = of_int (md_width s) / of_int (md_height s) :: real;
            plane_width = 4.0 / md_zoom s;
            plane_height = plane_width / aspect_ratio;
            cx = md_center_x s + (of_int screen_x / of_int (md_width s) - 0.5) * plane_width;
            cy = md_center_y s + (of_int screen_y / of_int (md_height s) - 0.5) * plane_height
        in Inr (cx, cy))"

definition Mandelbrot_color_index :: "Mandelbrot \<Rightarrow> int \<Rightarrow> int" where
  "Mandelbrot_color_index s iterations =
     (if iterations = 0 then 0
      else py_int (py_fmod (of_int iterations + md_color_offset s) 255) + 1)"

text \<open>The assignments of \<open>update\<close> before the pixel loops.\<close>

definition Mandelbrot_animate :: "Mandelbrot \<Rightarrow> Mandelbrot" where
  "Mandelbrot_animate s =
     (let s = s\<lparr>md_time := md_time s + 0.1, md_frame_count := md_frame_count s + 1\<rparr>;
          s = (if md_frame_count s < zoom_cycle_time then
                 s\<lparr>md_zoom := md_zoom s * zoom_speed,
                   md_center_x := md_center_x s + (zoom_center_x - md_center_x s) * 0.01,
                   md_center_y := md_center_y s + (zoom_center_y - md_center_y s) * 0.01\<rparr>
               else
                 s\<lparr>md_frame_count := 0, md_zoom := 1.0,
                   md_center_x := - 0.5, md_center_y := 0.0\<rparr>)
      in s\<lparr>md_color_offset := md_color_offset s + 2.0\<rparr>)"

definition Mandelbrot_pixel :: "Mandelbrot \<Rightarrow> int \<Rightarrow> int \<Rightarrow> bitmap \<Rightarrow> py_error + bitmap" where
  "Mandelbrot_pixel s x y b =
     then_do (screen_to_complex s x y) (\<lambda>(cx, cy).
       let iterations = mandelbrot_iteration (md_max_iterations s) cx cy
       in fill_block (md_width s) (md_height s) x y (Mandelbrot_color_index s iterations) b)"

definition Mandelbrot_update :: "Mandelbrot \<Rightarrow> py_error + Mandelbrot" where
  "Mandelbrot_update s =
     (let s1 = Mandelbrot_animate s in
      then_do
        (for_each (py_range_step2 0 (md_height s1)) (\<lambda>y.
           for_each (py_range_step2 0 (md_width s1)) (\<lambda>x. Mandelbrot_pixel s1 x y))
           (md_bitmap s1))
        (\<lambda>b. Inr (s1\<lparr>md_bitmap := b\<rparr>)))"

section \<open>All bitmap generators\<close>

datatype effect =
    EPlasma PlasmaEffect
  | ESpiral SpiralEffect
  | EMatrix MatrixEffect
  | EJulia JuliaFractalEffect
  | EFire FireEffect
  | EStarfield StarfieldEffect
  | ESineWave SineWaveEffect
  | EStreamers StreamersEffect
  | EPlasmaField PlasmaField
  | EKaleidoscope Kaleidoscope
  | EMandelbrot Mandelbrot

fun effect_update :: "effect \<Rightarrow> rng \<Rightarrow> py_error + effect \<times> rng" where
  "effect_update (EPlasma s) g = then_do (PlasmaEffect_update s) (\<lambda>s'. Inr (EPlasma s', g))"
| "effect_update (ESpiral s) g = then_do (SpiralEffect_update s) (\<lambda>s'. Inr (ESpiral s', g))"
| "effect_update (EMatrix s) g = then_do (MatrixEffect_update s g) (\<lambda>(s', g'). Inr (EMatrix s', g'))"
| "effect_update (EJulia s) g = then_do (JuliaFractalEffect_update s) (\<lambda>s'. Inr (EJulia s', g))"
| "effect_update (EFire s) g = then_do (FireEffect_update s g) (\<lambda>(s', g'). Inr (EFire s', g'))"
| "effect_update (EStarfield s) g =
     then_do (StarfieldEffect_update s g) (\<lambda>(s', g'). Inr (EStarfield s', g'))"
| "effect_update (ESineWave s) g = then_do (SineWaveEffect_update s) (\<lambda>s'. Inr (ESineWave s', g))"
| "effect_update (EStreamers s) g =
     then_do (StreamersEffect_update s g) (\<lambda>(s', g'). Inr (EStreamers s', g'))"
| "effect_update (EPlasmaField s) g = then_do (PlasmaField_update s) (\<lambda>s'. Inr (EPlasmaField s', g))"
| "effect_update (EKaleidoscope s) g =
     then_do (Kaleidoscope_update s) (\<lambda>s'. Inr (EKaleidoscope s', g))"
| "effect_update (EMandelbrot s) g = then_do (Mandelbrot_update s) (\<lambda>s'. Inr (EMandelbrot s', g))"

fun effect_reset :: "effect \<Rightarrow> rng \<Rightarrow> effect \<times> rng" where
  "effect_reset (EPlasma s) g = (EPlasma (PlasmaEffect_reset s), g)"
| "effect_reset (ESpiral s) g = (ESpiral (SpiralEffect_reset s), g)"
| "effect_reset (EMatrix s) g = (EMatrix (MatrixEffect_reset s), g)"
| "effect_reset (EJulia s) g = (EJulia (JuliaFractalEffect_reset s), g)"
| "effect_reset (EFire s) g = (EFire (FireEffect_reset s), g)"
| "effect_reset (EStarfield s) g = (let (s', g') = StarfieldEffect_reset s g in (EStarfield s', g'))"
| "effect_reset (ESineWave s) g = (ESineWave (SineWaveEffect_reset s), g)"
| "effect_reset (EStreamers s) g = (let (s', g') = StreamersEffect_reset s g in (EStreamers s', g'))"
| "effect_reset (EPlasmaField s) g = (EPlasmaField (PlasmaField_reset s), g)"
| "effect_reset (EKaleidoscope s) g = (EKaleidoscope (Kaleidoscope_reset s), g)"
| "effect_reset (EMandelbrot s) g = (EMandelbrot (Mandelbrot_reset s), g)"

fun effect_bitmap :: "effect \<Rightarrow> bitmap" where
  "effect_bitmap (EPlasma s) = pl_bitmap s"
| "effect_bitmap (ESpiral s) = sp_bitmap s"
| "effect_bitmap (EMatrix s) = mx_bitmap s"
| "effect_bitmap (EJulia s) = ju_bitmap s"
| "effect_bitmap (EFire s) = fi_bitmap s"
| "effect_bitmap (EStarfield s) = sf_bitmap s"
| "effect_bitmap (ESineWave s) = sw_bitmap s"
| "effect_bitmap (EStreamers s) = se_bitmap s"
| "effect_bitmap (EPlasmaField s) = pf_bitmap s"
| "effect_bitmap (EKaleidoscope s) = ka_bitmap s"
| "effect_bitmap (EMandelbrot s) = md_bitmap s"

fun effect_palette :: "effect \<Rightarrow> rgb list" where
  "effect_palette (EPlasma s) = pl_palette s"
| "effect_palette (ESpiral s) = sp_palette s"
| "effect_palette (EMatrix s) = mx_palette s"
| "effect_palette (EJulia s) = ju_palette s"
| "effect_palette (EFire s) = fi_palette s"
| "effect_palette (EStarfield s) = sf_palette s"
| "effect_palette (ESineWave s) = sw_palette s"
| "effect_palette (EStreamers s) = se_palette s"
| "effect_palette (EPlasmaField s) = pf_palette s"
| "effect_palette (EKaleidoscope s) = ka_palette s"
| "effect_palette (EMandelbrot s) = md_palette s"

text \<open>The elapsed-time accumulator of an effect.\<close>

fun effect_time :: "effect \<Rightarrow> real" where
  "effect_time (EPlasma s) = pl_time s"
| "effect_time (ESpiral s) = sp_time s"
| "effect_time (EMatrix s) = mx_time s"
| "effect_time (EJulia s) = ju_time s"
| "effect_time (EFire s) = fi_time s"
| "effect_time (EStarfield s) = sf_time s"
| "effect_time (ESineWave s) = sw_time s"
| "effect_time (EStreamers s) = se_time s"
| "effect_time (EPlasmaField s) = pf_time s"
| "effect_time (EKaleidoscope s) = ka_time s"
| "effect_time (EMandelbrot s) = md_time s"

text \<open>The other counters that \<open>reset\<close> assigns: rotation, colour offset or shift, frame count.\<close>

fun effect_counters :: "effect \<Rightarrow> real list" where
  "effect_counters (ESpiral s) = [sp_rotation s]"
| "effect_counters (EJulia s) = [ju_color_offset s]"
| "effect_counters (ESineWave s) = [sw_color_shift s]"
| "effect_counters (EKaleidoscope s) = [ka_color_shift s]"
| "effect_counters (EMandelbrot s) = [md_color_offset s, of_int (md_frame_count s)]"
| "effect_counters e = []"

text \<open>The palette size \<open>N\<close> of each effect: the size its palette and bitmap are created with.\<close>

fun palette_size :: "effect \<Rightarrow> int" where
  "palette_size (EPlasma s) = 64"
| "palette_size (ESpiral s) = 32"
| "palette_size (EMatrix s) = 16"
| "palette_size (EJulia s) = 64"
| "palette_size (EFire s) = 32"
| "palette_size (EStarfield s) = 16"
| "palette_size (ESineWave s) = 64"
| "palette_size (EStreamers s) = 32"
| "palette_size (EPlasmaField s) = 256"
| "palette_size (EKaleidoscope s) = 256"
| "palette_size (EMandelbrot s) = 256"

text \<open>
  A bitmap of the given size whose pixels all hold one of its \<open>n\<close> pixel values: what
  \<open>Bitmap\<close> creates and every accepted write keeps.
\<close>

definition bitmap_ok :: "int \<Rightarrow> int \<Rightarrow> int \<Rightarrow> bitmap \<Rightarrow> bool" where
  "bitmap_ok w h n b =
     (bm_width b = w \<and> bm_height b = h \<and> value_count b = n \<and>
      (\<forall>x y. 0 \<le> x \<and> x < w \<and> 0 \<le> y \<and> y < h \<longrightarrow> 0 \<le> pixels b (x, y) \<and> pixels b (x, y) < n))"

definition grid_shape :: "int list list \<Rightarrow> bool" where
  "grid_shape buf = (length buf = fire_height \<and> (\<forall>row \<in> set buf. length row = fire_width))"

text \<open>
  The shape every constructor establishes and every update and reset keeps: the bitmap
  has the size and value count it was created with, the per-column lists of the matrix
  rain and the heat grid have their lengths, a streamer's colour is one that
  \<open>randint(1, 31)\<close> returns, the Mandelbrot zoom is positive.
\<close>

fun effect_ok :: "effect \<Rightarrow> bool" where
  "effect_ok (EPlasma s) = bitmap_ok (width div 2) (height div 2) 64 (pl_bitmap s)"
| "effect_ok (ESpiral s) = bitmap_ok (width div 2) (height div 2) 32 (sp_bitmap s)"
| "effect_ok (EMatrix s) =
     (bitmap_ok columns rows 16 (mx_bitmap s) \<and>
      length (mx_drop_positions s) = nat columns \<and>
      length (mx_drop_speeds s) = nat columns \<and>
      length (mx_drop_active s) = nat columns)"
| "effect_ok (EJulia s) = bitmap_ok (width div 2) (height div 2) 64 (ju_bitmap s)"
| "effect_ok (EFire s) =
     (bitmap_ok (int fire_width) (int fire_height) 32 (fi_bitmap s) \<and>
      grid_shape (fi_fire_buffer s))"
| "effect_ok (EStarfield s) = bitmap_ok (width div 2) (height div 2) 16 (sf_bitmap s)"
| "effect_ok (ESineWave s) = bitmap_ok (width div 2) (height div 2) 64 (sw_bitmap s)"
| "effect_ok (EStreamers s) =
     (bitmap_ok (width div 2) (height div 2) 32 (se_bitmap s) \<and>
      (\<forall>sr \<in> set (se_streamers s). 1 \<le> sr_color sr \<and> sr_color sr \<le> 31))"
| "effect_ok (EPlasmaField s) = bitmap_ok (pf_width s) (pf_height s) 256 (pf_bitmap s)"
| "effect_ok (EKaleidoscope s) = bitmap_ok (ka_width s) (ka_height s) 256 (ka_bitmap s)"
| "effect_ok (EMandelbrot s) =
     (bitmap_ok (md_width s) (md_height s) 256 (md_bitmap s) \<and> 0 < md_zoom s)"

section \<open>Schedulers\<close>

text \<open>
  Both schedulers hold a list of effect objects and call \<open>reset()\<close> and \<open>update()\<close> on
  the current one.  They are modelled over any type of effects \<open>'e\<close> and any shared
  state \<open>'w\<close> the effects thread (the random source): \<open>reset\<close> and \<open>upd\<close> are the two
  methods.  \<open>current_effect\<close> always is \<open>effects[current_effect_index]\<close>.  The lines the
  schedulers print when they switch are kept as the list of the numbers printed.
\<close>

subsection \<open>ScreensaverManager: timed scrolling\<close>

record 'e ScreensaverManager =
  sm_auto_scroll_time :: real
  sm_last_scroll_time :: real
  sm_effects :: "'e list"
  sm_current_effect_index :: int
  sm_console :: "int list"

definition ScreensaverManager_new :: "'e list \<Rightarrow> real \<Rightarrow> 'e ScreensaverManager" where
  "ScreensaverManager_new effects now =
     \<lparr>sm_auto_scroll_time = 10.0, sm_last_scroll_time = now,
      sm_effects = effects, sm_current_effect_index = 0, sm_console = []\<rparr>"

fun next_effect :: "('e \<Rightarrow> 'w \<Rightarrow> 'e \<times> 'w) \<Rightarrow> 'e ScreensaverManager \<times> 'w
    \<Rightarrow> py_error + 'e ScreensaverManager \<times> 'w" where
  "next_effect reset (s, w) =
     (if sm_effects s = [] then Inl ZeroDivisionError
      else
        let i = (sm_current_effect_index s + 1) mod int (length (sm_effects s));
            (e, w') = reset (sm_effects s ! nat i) w
        in Inr (s\<lparr>sm_current_effect_index := i,
                   sm_effects := (sm_effects s)[nat i := e],
                   sm_console := sm_console s @ [i]\<rparr>, w'))"

fun handle_auto_scroll :: "('e \<Rightarrow> 'w \<Rightarrow> 'e \<times> 'w) \<Rightarrow> real \<Rightarrow> 'e ScreensaverManager \<times> 'w
    \<Rightarrow> py_error + 'e ScreensaverManager \<times> 'w" where
  "handle_auto_scroll reset current_time (s, w) =
     (if current_time - sm_last_scroll_time s \<ge> sm_auto_scroll_time s then
        then_do (next_effect reset (s, w))
          (\<lambda>(s', w'). Inr (s'\<lparr>sm_last_scroll_time := current_time\<rparr>, w'))
      else Inr (s, w))"

definition ScreensaverManager_update :: "('e \<Rightarrow> 'w \<Rightarrow> 'e \<times> 'w) \<Rightarrow> ('e \<Rightarrow> 'w \<Rightarrow> py_error + 'e \<times> 'w)
    \<Rightarrow> real \<Rightarrow> 'e ScreensaverManager \<times> 'w \<Rightarrow> py_error + 'e ScreensaverManager \<times> 'w" where
  "ScreensaverManager_update reset upd current_time sw =
     then_do (handle_auto_scroll reset current_time sw) (\<lambda>(s, w).
       let i = nat (sm_current_effect_index s) in
       then_do (upd (sm_effects s ! i) w) (\<lambda>(e, w').
         Inr (s\<lparr>sm_effects := (sm_effects s)[i := e]\<rparr>, w')))"

text \<open>The main loop, one call of \<open>update\<close> per clock reading.\<close>

definition ScreensaverManager_run :: "('e \<Rightarrow> 'w \<Rightarrow> 'e \<times> 'w) \<Rightarrow> ('e \<Rightarrow> 'w \<Rightarrow> py_error + 'e \<times> 'w)
    \<Rightarrow> real list \<Rightarrow> 'e ScreensaverManager \<times> 'w \<Rightarrow> py_error + 'e ScreensaverManager \<times> 'w" where
  "ScreensaverManager_run reset upd readings sw =
     for_each readings (ScreensaverManager_update reset upd) sw"

text \<open>
  The timed rule in the specification's words, on the index, the time of the last
  transition and the list of the indices switched to: a tick at least \<open>interval\<close>
  after the last transition moves the index to \<open>(index + 1) mod count\<close>, once, and
  becomes the last transition; any other tick changes nothing.
\<close>

fun auto_advance_spec :: "real \<Rightarrow> int \<Rightarrow> int \<times> real \<times> int list \<Rightarrow> real list
    \<Rightarrow> int \<times> real \<times> int list" where
  "auto_advance_spec interval count (index, last_transition, visited) [] =
     (index, last_transition, visited)"
| "auto_advance_spec interval count (index, last_transition, visited) (now # readings) =
     (if now - last_transition \<ge> interval
      then auto_advance_spec interval count
             ((index + 1) mod count, now, visited @ [(index + 1) mod count]) readings
      else auto_advance_spec interval count (index, last_transition, visited) readings)"

subsection \<open>PyPortalScreensaver: touch and timed advance\<close>

record 'e PyPortalScreensaver =
  ps_last_touch_time :: real
  ps_touch_debounce :: real
  ps_effects :: "'e list"
  ps_current_effect_index :: int
  ps_auto_advance_time :: real
  ps_last_advance_time :: real
  ps_frame_time :: real
  ps_last_frame_time :: real
  ps_console :: "int list"

definition PyPortalScreensaver_new :: "'e list \<Rightarrow> real \<Rightarrow> 'e PyPortalScreensaver" where
  "PyPortalScreensaver_new effects now =
     \<lparr>ps_last_touch_time = 0, ps_touch_debounce = 0.5,
      ps_effects = effects, ps_current_effect_index = 0,
      ps_auto_advance_time = 30.0, ps_last_advance_time = now,
      ps_frame_time = 1.0 / 15.0, ps_last_frame_time = 0, ps_console = []\<rparr>"

text \<open>
  One call of \<open>update\<close> reads the clock up to four times: in \<open>update\<close> itself, in
  \<open>handle_touch\<close>, and in each call of \<open>advance_effect\<close> (from the touch handler and
  from the timed advance).  A tick carries these readings and the touch sample.
\<close>

record tick =
  tk_update :: real
  tk_touch :: real
  tk_advance_touch :: real
  tk_advance_auto :: real
  touch_value :: bool

definition tick_monotonic :: "tick \<Rightarrow> bool" where
  "tick_monotonic tk =
     (tk_update tk \<le> tk_touch tk \<and> tk_touch tk \<le> tk_advance_touch tk
      \<and> tk_advance_touch tk \<le> tk_advance_auto tk)"

text \<open>A tick on which the clock does not move.\<close>

definition tick_at :: "real \<Rightarrow> bool \<Rightarrow> tick" where
  "tick_at now touched =
     \<lparr>tk_update = now, tk_touch = now, tk_advance_touch = now, tk_advance_auto = now,
      touch_value = touched\<rparr>"

fun advance_effect :: "('e \<Rightarrow> 'w \<Rightarrow> 'e \<times> 'w) \<Rightarrow> real \<Rightarrow> 'e PyPortalScreensaver \<times> 'w
    \<Rightarrow> py_error + 'e PyPortalScreensaver \<times> 'w" where
  "advance_effect reset now (s, w) =
     (if ps_effects s = [] then Inl ZeroDivisionError
      else
        let i = (ps_current_effect_index s + 1) mod int (length (ps_effects s));
            (e, w') = reset (ps_effects s ! nat i) w
        in Inr (s\<lparr>ps_current_effect_index := i,
                   ps_effects := (ps_effects s)[nat i := e],
                   ps_last_advance_time := now,
                   ps_console := ps_console s @ [i + 1]\<rparr>, w'))"

fun handle_touch :: "('e \<Rightarrow> 'w \<Rightarrow> 'e \<times> 'w) \<Rightarrow> tick \<Rightarrow> 'e PyPortalScreensaver \<times> 'w
    \<Rightarrow> py_error + 'e PyPortalScreensaver \<times> 'w" where
  "handle_touch reset tk (s, w) =
     (let current_time = tk_touch tk in
      if touch_value tk \<and> (current_time - ps_last_touch_time s) > ps_touch_debounce s then
        then_do (advance_effect reset (tk_advance_touch tk) (s, w))
          (\<lambda>(s', w'). Inr (s'\<lparr>ps_last_touch_time := current_time\<rparr>, w'))
      else Inr (s, w))"

definition PyPortalScreensaver_update :: "('e \<Rightarrow> 'w \<Rightarrow> 'e \<times> 'w) \<Rightarrow> ('e \<Rightarrow> 'w \<Rightarrow> py_error + 'e \<times> 'w)
    \<Rightarrow> tick \<Rightarrow> 'e PyPortalScreensaver \<times> 'w \<Rightarrow> py_error + 'e PyPortalScreensaver \<times> 'w" where
  "PyPortalScreensaver_update reset upd tk sw =
     (let current_time = tk_update tk in
      then_do (handle_touch reset tk sw) (\<lambda>(s, w).
      then_do (if (current_time - ps_last_advance_time s) > ps_auto_advance_time s
               then advance_effect reset (tk_advance_auto tk) (s, w) else Inr (s, w)) (\<lambda>(s, w).
        if (current_time - ps_last_frame_time s) \<ge> ps_frame_time s then
          let i = nat (ps_current_effect_index s) in
          then_do (upd (ps_effects s ! i) w) (\<lambda>(e, w').
            Inr (s\<lparr>ps_effects := (ps_effects s)[i := e],
                    ps_last_frame_time := current_time\<rparr>, w'))
        else Inr (s, w))))"

definition PyPortalScreensaver_run :: "('e \<Rightarrow> 'w \<Rightarrow> 'e \<times> 'w) \<Rightarrow> ('e \<Rightarrow> 'w \<Rightarrow> py_error + 'e \<times> 'w)
    \<Rightarrow> tick list \<Rightarrow> 'e PyPortalScreensaver \<times> 'w \<Rightarrow> py_error + 'e PyPortalScreensaver \<times> 'w" where
  "PyPortalScreensaver_run reset upd ticks sw =
     for_each ticks (PyPortalScreensaver_update reset upd) sw"

text \<open>
  The number of effect transitions a run makes: the lines \<open>advance_effect\<close> printed
  during it; \<open>None\<close> when the run ends in an exception.
\<close>

definition transitions :: "('e \<Rightarrow> 'w \<Rightarrow> 'e \<times> 'w) \<Rightarrow> ('e \<Rightarrow> 'w \<Rightarrow> py_error + 'e \<times> 'w)
    \<Rightarrow> tick list \<Rightarrow> 'e PyPortalScreensaver \<times> 'w \<Rightarrow> nat option" where
  "transitions reset upd ticks sw =
     (case PyPortalScreensaver_run reset upd ticks sw of
        Inl e \<Rightarrow> None
      | Inr (s', w') \<Rightarrow> Some (length (ps_console s') - length (ps_console (fst sw))))"

text \<open>
  A touch held down: every tick samples the touch as true, and each comes more than
  the debounce interval \<open>d\<close> after the one before (the first one after \<open>last\<close>).
\<close>

fun held_touch :: "real \<Rightarrow> real \<Rightarrow> tick list \<Rightarrow> bool" where
  "held_touch d last_touch [] = True"
| "held_touch d last_touch (tk # ticks) =
     (touch_value tk \<and> tick_monotonic tk \<and> tk_touch tk - last_touch > d
      \<and> held_touch d (tk_touch tk) ticks)"

text \<open>Effect methods that never raise: the effects of a scheduler whose runs complete.\<close>

definition never_raises :: "('e \<Rightarrow> 'w \<Rightarrow> py_error + 'e \<times> 'w) \<Rightarrow> bool" where
  "never_raises upd = (\<forall>e w. \<exists>e' w'. upd e w = Inr (e', w'))"

text \<open>An effect whose \<open>reset\<close> and \<open>update\<close> do nothing, for concrete runs of the schedulers.\<close>

definition idle_reset :: "nat \<Rightarrow> nat \<Rightarrow> nat \<times> nat" where
  "idle_reset e w = (e, w)"

definition idle_update :: "nat \<Rightarrow> nat \<Rightarrow> py_error + nat \<times> nat" where
  "idle_update e w = Inr (e, w)"

section \<open>The specification's notions\<close>

text \<open>
  The orbit of \<open>z \<mapsto> z\<^sup>2 + c\<close> from a starting point, and escape: the point has
  escaped at step \<open>k\<close> when \<open>|z\<^sub>k|\<^sup>2 > 4\<close>, and it escapes within \<open>n\<close> iterations when
  that happens at some step below \<open>n\<close>.
\<close>

fun orbit :: "real \<Rightarrow> real \<Rightarrow> real \<times> real \<Rightarrow> nat \<Rightarrow> real \<times> real" where
  "orbit cx cy z 0 = z"
| "orbit cx cy z (Suc k) =
     (let (x, y) = orbit cx cy z k in (x * x - y * y + cx, 2 * x * y + cy))"

definition escaped_at :: "real \<Rightarrow> real \<Rightarrow> real \<times> real \<Rightarrow> nat \<Rightarrow> bool" where
  "escaped_at cx cy z k = (let (x, y) = orbit cx cy z k in x * x + y * y > 4)"

definition escapes_within :: "nat \<Rightarrow> real \<Rightarrow> real \<Rightarrow> real \<times> real \<Rightarrow> bool" where
  "escapes_within n cx cy z = (\<exists>k < n. escaped_at cx cy z k)"

text \<open>
  The rainbow scheme in the specification's words: channel angle \<open>(i / N) \<cdot> 2\<pi>\<close>, phase
  shifts \<open>2\<pi> / 3\<close> and \<open>4\<pi> / 3\<close>, channel \<open>round(127 + 127 \<cdot> sin(angle))\<close> clamped to
  \<open>[0, 255]\<close>.
\<close>

definition rainbow_spec :: "nat \<Rightarrow> int \<Rightarrow> rgb" where
  "rainbow_spec N i =
     (let angle = (of_int i / of_nat N) * 2 * pi
      in (clamp255 (round (127 + 127 * sin angle)),
          clamp255 (round (127 + 127 * sin (angle + 2 * pi / 3))),
          clamp255 (round (127 + 127 * sin (angle + 4 * pi / 3)))))"

text \<open>
  The exact value that a channel of the rainbow palettes of the code approximates:
  channel angle \<open>(i / (N - 1)) \<cdot> 2\<pi>\<close>, phase shifts \<open>0\<close>, \<open>2.094\<close> and \<open>4.188\<close> for
  the channels \<open>0\<close>, \<open>1\<close> and \<open>2\<close>, value \<open>127 + 127 \<cdot> sin(angle)\<close>.
\<close>

definition rainbow_value :: "nat \<Rightarrow> nat \<Rightarrow> int \<Rightarrow> real" where
  "rainbow_value N c i =
     127 + 127 * sin ((of_int i / of_nat (N - 1)) * 2 * pi
                      + (if c = 0 then 0 else if c = 1 then 2.094 else 4.188))"

text \<open>
  An integer \<open>n\<close> is the truncation of a float that approximates \<open>v\<close>: it is a channel
  value, it lies between \<open>v - 1\<close> and \<open>v\<close> up to the tolerance, and it is the integer
  part of \<open>v\<close> itself wherever \<open>v\<close> is farther than the tolerance from the integers.
\<close>

definition truncated_float :: "real \<Rightarrow> int \<Rightarrow> bool" where
  "truncated_float v n =
     (0 \<le> n \<and> n \<le> 255
      \<and> v - 1 - float_tolerance \<le> of_int n \<and> of_int n \<le> v + float_tolerance
      \<and> (float_tolerance \<le> frac v \<and> frac v < 1 - float_tolerance \<longrightarrow> n = \<lfloor>v\<rfloor>))"

definition rainbow_entry :: "nat \<Rightarrow> int \<Rightarrow> rgb \<Rightarrow> bool" where
  "rainbow_entry N i e =
     (case e of (r, g, b) \<Rightarrow>
        truncated_float (rainbow_value N 0 i) r
      \<and> truncated_float (rainbow_value N 1 i) g
      \<and> truncated_float (rainbow_value N 2 i) b)"

text \<open>
  Every palette-construction function of the repository; the rainbow palettes are taken
  at a rounding.
\<close>

datatype palette_kind =
    PlasmaPalette | SimplePalette | SpiralPalette | MatrixPalette | JuliaPalette | FirePalette
  | StarPalette | WavePalette | StreamerPalette | PlasmaFieldPalette | KaleidoscopePalette
  | MandelbrotPalette

fun palette_of :: "rounding \<Rightarrow> palette_kind \<Rightarrow> rgb list" where
  "palette_of \<rho> PlasmaPalette = PlasmaEffect_init_palette \<rho>"
| "palette_of \<rho> SimplePalette = SimpleEffect_init_palette \<rho>"
| "palette_of \<rho> SpiralPalette = SpiralEffect_init_palette"
| "palette_of \<rho> MatrixPalette = MatrixEffect_init_palette"
| "palette_of \<rho> JuliaPalette = JuliaFractalEffect_init_palette"
| "palette_of \<rho> FirePalette = FireEffect_init_fire_palette"
| "palette_of \<rho> StarPalette = StarfieldEffect_init_star_palette"
| "palette_of \<rho> WavePalette = SineWaveEffect_init_wave_palette"
| "palette_of \<rho> StreamerPalette = StreamersEffect_init_streamer_palette"
| "palette_of \<rho> PlasmaFieldPalette = PlasmaField_init_plasma_palette \<rho>"
| "palette_of \<rho> KaleidoscopePalette = Kaleidoscope_init_kaleidoscope_palette"
| "palette_of \<rho> MandelbrotPalette = Mandelbrot_init_mandelbrot_palette"

definition channel_ok :: "rgb \<Rightarrow> bool" where
  "channel_ok c = (case c of (r, g, b) \<Rightarrow>
     0 \<le> r \<and> r \<le> 255 \<and> 0 \<le> g \<and> g \<le> 255 \<and> 0 \<le> b \<and> b \<le> 255)"

text \<open>The fire simulation run for a number of ticks.\<close>

fun fire_ticks :: "nat \<Rightarrow> int list list \<times> rng \<Rightarrow> int list list \<times> rng" where
  "fire_ticks 0 bg = bg"
| "fire_ticks (Suc n) bg = update_fire_simulation (fire_ticks n bg)"

text \<open>
  The cells of a set of grid positions all hold heat between \<open>lo\<close> and \<open>hi\<close>, in a grid
  of the right shape.
\<close>

definition heat_in :: "int \<Rightarrow> int \<Rightarrow> (nat \<times> nat) set \<Rightarrow> int list list \<times> rng \<Rightarrow> bool" where
  "heat_in lo hi S bg =
     (grid_shape (fst bg) \<and> (\<forall>(y, x) \<in> S. lo \<le> grid_get (fst bg) y x \<and> grid_get (fst bg) y x \<le> hi))"

text \<open>A streamer whose colour is one that \<open>randint(1, 31)\<close> returns.\<close>

definition streamer_ok :: "streamer \<Rightarrow> bool" where
  "streamer_ok sr = (1 \<le> sr_color sr \<and> sr_color sr \<le> 31)"

text \<open>The random source that always draws \<open>0\<close>, for concrete runs.\<close>

definition zero_rng :: rng where
  "zero_rng = (\<lambda>n. 0)"

text \<open>
  The random source after \<open>n\<close> draws, and a source whose draws are all different:
  draw \<open>n\<close> is \<open>1 / (n + 2)\<close>.
\<close>

definition rng_drop :: "nat \<Rightarrow> rng \<Rightarrow> rng" where
  "rng_drop n g = (\<lambda>k. g (k + n))"

definition harmonic_rng :: rng where
  "harmonic_rng n = 1 / (of_nat n + 2)"

text \<open>
  A run of the fire simulation on the source that always draws \<open>0\<close>: the grid keeps its
  shape, the source stays as it is, and the cell \<open>p\<close> holds \<open>c\<close> as long as it is not
  among the cells \<open>S\<close> written so far.
\<close>

definition cell_kept :: "nat \<times> nat \<Rightarrow> int \<Rightarrow> (nat \<times> nat) set \<Rightarrow> int list list \<times> rng \<Rightarrow> bool" where
  "cell_kept p c S bg =
     (grid_shape (fst bg) \<and> snd bg = zero_rng
      \<and> (p \<notin> S \<longrightarrow> grid_get (fst bg) (fst p) (snd p) = c))"

section \<open>Proofs\<close>

subsection \<open>The escape test at two known points\<close>

lemma escape_loop_origin: "escape_loop k i 0 0 0 0 = 0"
  by (induction k arbitrary: i) simp_all

lemma orbit_origin: "orbit 0 0 (0, 0) k = (0, 0)"
  by (induction k) simp_all

text \<open>
  Claim C6, as stated, at \<open>max_iterations = 1\<close>: the loop of \<open>_mandelbrot_iteration\<close>
  tests only the starting point \<open>z = 0\<close>, so for \<open>c = (2, 2)\<close> it falls through to
  \<open>return 0\<close>, the result for a point that did not escape, and the point has indeed
  not escaped at step \<open>0\<close>.
\<close>

theorem C6_counterexample:
  "mandelbrot_iteration 1 2 2 = 0 \<and> \<not> escaped_at 2 2 (0, 0) 0"
  by (simp add: mandelbrot_iteration_def escaped_at_def)

text \<open>
  Claim C6, amended: for every positive \<open>max_iterations\<close> the iteration at
  \<open>c = (0, 0)\<close> returns \<open>0\<close> and the point never escapes; for every
  \<open>max_iterations\<close> of at least \<open>2\<close> the iteration at \<open>c = (2, 2)\<close> returns \<open>1\<close>, the
  step at which the point has escaped (it has not at step \<open>0\<close>).
\<close>

theorem C6_mandelbrot_known_points:
  "(0 < n \<longrightarrow> mandelbrot_iteration n 0 0 = 0 \<and> \<not> escapes_within (nat n) 0 0 (0, 0))
   \<and> (2 \<le> n \<longrightarrow> mandelbrot_iteration n 2 2 = 1
                 \<and> \<not> escaped_at 2 2 (0, 0) 0 \<and> escaped_at 2 2 (0, 0) 1)"
proof -
  have a: "mandelbrot_iteration n 0 0 = 0"
    by (simp add: mandelbrot_iteration_def escape_loop_origin)
  have b: "\<not> escapes_within (nat n) 0 0 (0, 0)"
    by (simp add: escapes_within_def escaped_at_def orbit_origin)
  have c: "mandelbrot_iteration n 2 2 = 1" if "2 \<le> n"
  proof -
    from that have "nat n = Suc (Suc (nat n - 2))" by simp
    then have "escape_loop (nat n) 0 2 2 0 0 = escape_loop (Suc (Suc (nat n - 2))) 0 2 2 0 0"
      by simp
    then show ?thesis by (simp add: mandelbrot_iteration_def)
  qed
  have d: "\<not> escaped_at 2 2 (0, 0) 0 \<and> escaped_at 2 2 (0, 0) 1"
    by (simp add: escaped_at_def)
  from a b c d show ?thesis by blast
qed

theorem C6_witness:
  "mandelbrot_iteration 32 0 0 = 0 \<and> mandelbrot_iteration 32 2 2 = 1"
  using C6_mandelbrot_known_points [of 32] by simp

subsection \<open>Escape-time colouring\<close>

lemma py_fmod_range: "0 < b \<Longrightarrow> 0 \<le> py_fmod a b \<and> py_fmod a b < b"
  using floor_divide_lower [of b a] floor_divide_upper [of b a]
  by (simp add: py_fmod_def algebra_simps)

lemma py_int_nonneg: "0 \<le> v \<Longrightarrow> 0 \<le> py_int v"
  by (simp add: py_int_def)

lemma py_int_less: "0 \<le> v \<Longrightarrow> v < of_int n \<Longrightarrow> py_int v < n"
  by (simp add: py_int_def floor_less_iff)

lemma orbit_shift:
  "orbit cx cy (x, y) (Suc k) = orbit cx cy (x * x - y * y + cx, 2 * x * y + cy) k"
  by (induction k) (simp_all add: Let_def split: prod.splits)

lemma escapes_within_Suc:
  "escapes_within (Suc n) cx cy (x, y) \<longleftrightarrow>
     x * x + y * y > 4 \<or> escapes_within n cx cy (x * x - y * y + cx, 2 * x * y + cy)"
proof -
  have "(\<exists>k < Suc n. escaped_at cx cy (x, y) k) \<longleftrightarrow>
        escaped_at cx cy (x, y) 0 \<or> (\<exists>k < n. escaped_at cx cy (x, y) (Suc k))"
    by (metis less_Suc_eq_0_disj)
  then show ?thesis
    unfolding escapes_within_def escaped_at_def orbit_shift by simp
qed

lemma escape_loop_zero_iff:
  "0 < i \<Longrightarrow> escape_loop n i cx cy x y = 0 \<longleftrightarrow> \<not> escapes_within n cx cy (x, y)"
proof (induction n arbitrary: i x y)
  case 0
  then show ?case by (simp add: escapes_within_def)
next
  case (Suc n)
  have "0 < i + 1" using Suc.prems by simp
  from Suc.IH [OF this] Suc.prems show ?case
    by (simp add: escapes_within_Suc)
qed

lemma mandelbrot_iteration_zero_iff:
  "mandelbrot_iteration n cx cy = 0 \<longleftrightarrow> \<not> escapes_within (nat n) cx cy (0, 0)"
proof (cases "nat n")
  case 0
  then show ?thesis by (simp add: mandelbrot_iteration_def escapes_within_def)
next
  case (Suc k)
  then show ?thesis
    using escape_loop_zero_iff [of 1 k cx cy cx cy]
    by (simp add: mandelbrot_iteration_def escapes_within_Suc)
qed

lemma Mandelbrot_color_index_zero_iff:
  "Mandelbrot_color_index s (mandelbrot_iteration (md_max_iterations s) cx cy) = 0
     \<longleftrightarrow> \<not> escapes_within (nat (md_max_iterations s)) cx cy (0, 0)"
proof -
  have "0 \<le> py_int (py_fmod v 255)" for v
    using py_fmod_range [of 255 v] by (simp add: py_int_nonneg)
  then have "py_int (py_fmod v 255) + 1 \<noteq> 0" for v
    by (smt (verit))
  then show ?thesis
    by (simp add: Mandelbrot_color_index_def mandelbrot_iteration_zero_iff)
qed

lemma escape_loop_first:
  "x * x + y * y > 4 \<Longrightarrow> 0 < n \<Longrightarrow> escape_loop n i cx cy x y = i"
  by (cases n) simp_all

lemma julia_zoom_bounds:
  "1.2 \<le> ju_zoom (JuliaFractalEffect_animate s) \<and> ju_zoom (JuliaFractalEffect_animate s) \<le> 1.8"
proof -
  have "\<exists>v. - 1 \<le> v \<and> v \<le> 1 \<and> ju_zoom (JuliaFractalEffect_animate s) = 1.5 + 0.3 * v"
    by (rule exI [of _ "sin ((ju_time s + 0.05) * 0.3)"])
       (simp add: JuliaFractalEffect_animate_def Let_def)
  then obtain v where "- 1 \<le> v" "v \<le> 1" "ju_zoom (JuliaFractalEffect_animate s) = 1.5 + 0.3 * v"
    by blast
  then show ?thesis by simp
qed

lemma julia_corner_escaped:
  assumes "ju_center_x s = - 0.7" "ju_center_y s = 0" "1.2 \<le> ju_zoom s" "ju_zoom s \<le> 1.8"
    and p: "JuliaFractalEffect_point s 0 0 = (zx, zy)"
  shows "zx * zx + zy * zy > 4"
proof -
  define a where "a = 2 / ju_zoom s"
  have z: "0 < ju_zoom s" using assms by simp
  have a: "10 / 9 \<le> a" unfolding a_def using assms z by (simp add: field_simps)
  then have 1: "(10 / 9) * (10 / 9) \<le> a * a" by (intro mult_mono) simp_all
  have "10 / 9 + 0.7 \<le> a + 0.7" using a by simp
  then have 2: "(10 / 9 + 0.7) * (10 / 9 + 0.7) \<le> (a + 0.7) * (a + 0.7)"
    using a by (intro mult_mono) simp_all
  have "JuliaFractalEffect_point s 0 0 = (- (a + 0.7), - a)"
    unfolding a_def using assms(1,2) by (simp add: JuliaFractalEffect_point_def)
  with p have zx: "zx = - (a + 0.7)" and zy: "zy = - a" by simp_all
  have 3: "zx * zx = (a + 0.7) * (a + 0.7)" "zy * zy = a * a"
    by (simp_all add: zx zy algebra_simps)
  have 4: "(4 :: real) < (10 / 9) * (10 / 9) + (10 / 9 + 0.7) * (10 / 9 + 0.7)" by simp
  show ?thesis unfolding 3 using 1 2 4 by linarith
qed

text \<open>
  Claim C3: index \<open>0\<close> is written exactly for the points that do not escape.  The
  Mandelbrot generator does so (\<open>Mandelbrot_color_index_zero_iff\<close>: its orbit starts
  at \<open>0\<close>, which never is outside the radius).  The Julia generator does not: the
  loop returns \<open>i = 0\<close> for a point that is outside the radius from the start, and
  \<open>update\<close> reads that \<open>0\<close> as "did not escape".  On the first frame after
  construction the pixel \<open>(0, 0)\<close> is such a point: it has escaped at step \<open>0\<close>,
  \<open>_julia_iteration\<close> returns \<open>0\<close> and the colour index written is \<open>0\<close>.
\<close>

theorem C3_julia_corner_pixel:
  "let s = JuliaFractalEffect_animate JuliaFractalEffect_new in
     escaped_at (ju_c_real s) (ju_c_imag s) (JuliaFractalEffect_point s 0 0) 0
     \<and> julia_iteration s 0 0 = Inr 0
     \<and> JuliaFractalEffect_color_index s 0 = 0"
proof -
  define s where "s = JuliaFractalEffect_animate JuliaFractalEffect_new"
  have zb: "1.2 \<le> ju_zoom s" "ju_zoom s \<le> 1.8"
    using julia_zoom_bounds [of JuliaFractalEffect_new] by (simp_all add: s_def)
  have f: "ju_center_x s = - 0.7" "ju_center_y s = 0" "ju_max_iterations s = 20"
    by (simp_all add: s_def JuliaFractalEffect_animate_def JuliaFractalEffect_new_def
        JuliaFractalEffect_reset_def Let_def)
  obtain zx zy where p: "JuliaFractalEffect_point s 0 0 = (zx, zy)" by fastforce
  have esc: "zx * zx + zy * zy > 4"
    using julia_corner_escaped [OF f(1,2) zb p] .
  have 1: "escaped_at (ju_c_real s) (ju_c_imag s) (JuliaFractalEffect_point s 0 0) 0"
    using esc by (simp add: escaped_at_def p)
  have "escape_loop (nat 20) 0 (ju_c_real s) (ju_c_imag s) zx zy = 0"
    using esc by (simp add: escape_loop_first)
  then have 2: "julia_iteration s 0 0 = Inr 0"
    using zb by (simp add: julia_iteration_def p f)
  have 3: "JuliaFractalEffect_color_index s 0 = 0"
    by (simp add: JuliaFractalEffect_color_index_def)
  from 1 2 3 show ?thesis unfolding s_def Let_def by blast
qed

subsection \<open>Timed scrolling\<close>

lemma for_each_inv:
  assumes "I s"
    and "\<And>a s. a \<in> set xs \<Longrightarrow> I s \<Longrightarrow> \<exists>s'. body a s = Inr s' \<and> I s'"
  shows "\<exists>s'. for_each xs body s = Inr s' \<and> I s'"
  using assms
proof (induction xs arbitrary: s)
  case Nil
  then show ?case by simp
next
  case (Cons a xs)
  from Cons.prems obtain s1 where s1: "body a s = Inr s1" "I s1" by (meson list.set_intros(1))
  have "\<exists>s'. for_each xs body s1 = Inr s' \<and> I s'"
    by (rule Cons.IH [OF s1(2)]) (simp add: Cons.prems(2))
  then show ?case by (simp add: s1)
qed

lemma next_effect_step:
  assumes "sm_effects s \<noteq> []"
  shows "\<exists>s' w'. next_effect reset (s, w) = Inr (s', w')
    \<and> sm_current_effect_index s' = (sm_current_effect_index s + 1) mod int (length (sm_effects s))
    \<and> length (sm_effects s') = length (sm_effects s)
    \<and> sm_auto_scroll_time s' = sm_auto_scroll_time s
    \<and> sm_last_scroll_time s' = sm_last_scroll_time s
    \<and> sm_console s' = sm_console s @ [sm_current_effect_index s']"
  using assms by (simp add: Let_def split: prod.splits)

lemma ScreensaverManager_update_step:
  assumes "sm_effects s \<noteq> []" and "never_raises upd"
  shows "\<exists>s' w'. ScreensaverManager_update reset upd now (s, w) = Inr (s', w')
    \<and> length (sm_effects s') = length (sm_effects s)
    \<and> sm_auto_scroll_time s' = sm_auto_scroll_time s
    \<and> (sm_current_effect_index s', sm_last_scroll_time s', sm_console s') =
        (if now - sm_last_scroll_time s \<ge> sm_auto_scroll_time s
         then ((sm_current_effect_index s + 1) mod int (length (sm_effects s)), now,
               sm_console s @ [(sm_current_effect_index s + 1) mod int (length (sm_effects s))])
         else (sm_current_effect_index s, sm_last_scroll_time s, sm_console s))"
proof -
  obtain s1 w1 where h: "handle_auto_scroll reset now (s, w) = Inr (s1, w1)"
    and f: "length (sm_effects s1) = length (sm_effects s)"
      "sm_auto_scroll_time s1 = sm_auto_scroll_time s"
      "(sm_current_effect_index s1, sm_last_scroll_time s1, sm_console s1) =
        (if now - sm_last_scroll_time s \<ge> sm_auto_scroll_time s
         then ((sm_current_effect_index s + 1) mod int (length (sm_effects s)), now,
               sm_console s @ [(sm_current_effect_index s + 1) mod int (length (sm_effects s))])
         else (sm_current_effect_index s, sm_last_scroll_time s, sm_console s))"
  proof (cases "now - sm_last_scroll_time s \<ge> sm_auto_scroll_time s")
    case True
    from next_effect_step [OF assms(1), of reset w] obtain s0 w0 where
      n: "next_effect reset (s, w) = Inr (s0, w0)"
      "sm_current_effect_index s0 = (sm_current_effect_index s + 1) mod int (length (sm_effects s))"
      "length (sm_effects s0) = length (sm_effects s)"
      "sm_auto_scroll_time s0 = sm_auto_scroll_time s"
      "sm_console s0 = sm_console s @ [sm_current_effect_index s0]"
      by blast
    show ?thesis
      by (rule that [of "s0\<lparr>sm_last_scroll_time := now\<rparr>" w0])
         (use True n in \<open>simp_all add: then_do_def del: next_effect.simps\<close>)
  next
    case False
    show ?thesis by (rule that [of s w]) (use False in simp_all)
  qed
  from assms(2) obtain e w2 where
    u: "upd (sm_effects s1 ! nat (sm_current_effect_index s1)) w1 = Inr (e, w2)"
    unfolding never_raises_def by blast
  show ?thesis
    using h u f
    by (simp add: ScreensaverManager_update_def then_do_def Let_def del: handle_auto_scroll.simps)
qed

lemma ScreensaverManager_run_spec:
  assumes "sm_effects s \<noteq> []" and "never_raises upd"
  shows "\<exists>s' w'. ScreensaverManager_run reset upd readings (s, w) = Inr (s', w')
    \<and> length (sm_effects s') = length (sm_effects s)
    \<and> sm_auto_scroll_time s' = sm_auto_scroll_time s
    \<and> (sm_current_effect_index s', sm_last_scroll_time s', sm_console s') =
        auto_advance_spec (sm_auto_scroll_time s) (int (length (sm_effects s)))
          (sm_current_effect_index s, sm_last_scroll_time s, sm_console s) readings"
  using assms(1)
proof (induction readings arbitrary: s w)
  case Nil
  then show ?case by (simp add: ScreensaverManager_run_def)
next
  case (Cons now readings)
  from ScreensaverManager_update_step [OF Cons.prems assms(2), of reset now w]
  obtain s1 w1 where
    u: "ScreensaverManager_update reset upd now (s, w) = Inr (s1, w1)"
    and f: "length (sm_effects s1) = length (sm_effects s)"
      "sm_auto_scroll_time s1 = sm_auto_scroll_time s"
      "(sm_current_effect_index s1, sm_last_scroll_time s1, sm_console s1) =
        (if now - sm_last_scroll_time s \<ge> sm_auto_scroll_time s
         then ((sm_current_effect_index s + 1) mod int (length (sm_effects s)), now,
               sm_console s @ [(sm_current_effect_index s + 1) mod int (length (sm_effects s))])
         else (sm_current_effect_index s, sm_last_scroll_time s, sm_console s))"
    by blast
  have ne: "sm_effects s1 \<noteq> []" using f(1) Cons.prems by auto
  from Cons.IH [OF ne, of w1] obtain s' w' where
    r: "ScreensaverManager_run reset upd readings (s1, w1) = Inr (s', w')"
    and g: "length (sm_effects s') = length (sm_effects s1)"
      "sm_auto_scroll_time s' = sm_auto_scroll_time s1"
      "(sm_current_effect_index s', sm_last_scroll_time s', sm_console s') =
        auto_advance_spec (sm_auto_scroll_time s1) (int (length (sm_effects s1)))
          (sm_current_effect_index s1, sm_last_scroll_time s1, sm_console s1) readings"
    by blast
  have "ScreensaverManager_run reset upd (now # readings) (s, w) = Inr (s', w')"
    using u r by (simp add: ScreensaverManager_run_def)
  moreover have "(sm_current_effect_index s', sm_last_scroll_time s', sm_console s') =
        auto_advance_spec (sm_auto_scroll_time s) (int (length (sm_effects s)))
          (sm_current_effect_index s, sm_last_scroll_time s, sm_console s) (now # readings)"
    using g(3) f by (auto split: if_splits)
  ultimately show ?case using f g by auto
qed

text \<open>
  Claim C4: the manager is constructed with \<open>auto_scroll_time = 10\<close> and there is no
  touch input.  Along every run (any list of clock readings, one per call of
  \<open>update\<close>) the run completes, and the index, the time of the last transition and the
  indices switched to are those of the timed rule: a tick at least \<open>10\<close> seconds after
  the last transition advances the index once, to \<open>(index + 1) mod count\<close>, and no
  other tick changes it; an advance from the last effect gives index \<open>0\<close>.
\<close>

theorem C4_auto_advance:
  assumes "effects \<noteq> []" and "never_raises upd"
  shows "\<exists>s' w'. ScreensaverManager_run reset upd readings (ScreensaverManager_new effects t0, w)
           = Inr (s', w')
    \<and> (sm_current_effect_index s', sm_last_scroll_time s', sm_console s') =
        auto_advance_spec 10 (int (length effects)) (0, t0, []) readings
    \<and> (\<forall>now s w. sm_effects s = effects \<and> sm_auto_scroll_time s = 10
          \<and> now - sm_last_scroll_time s \<ge> 10
          \<and> sm_current_effect_index s = int (length effects) - 1
        \<longrightarrow> (\<exists>s1 w1. ScreensaverManager_update reset upd now (s, w) = Inr (s1, w1)
               \<and> sm_current_effect_index s1 = 0))"
proof -
  have ne: "sm_effects (ScreensaverManager_new effects t0) \<noteq> []"
    using assms(1) by (simp add: ScreensaverManager_new_def)
  from ScreensaverManager_run_spec [OF ne assms(2), of reset readings w]
  have a: "\<exists>s' w'. ScreensaverManager_run reset upd readings (ScreensaverManager_new effects t0, w)
           = Inr (s', w')
    \<and> (sm_current_effect_index s', sm_last_scroll_time s', sm_console s') =
        auto_advance_spec 10 (int (length effects)) (0, t0, []) readings"
    by (auto simp: ScreensaverManager_new_def)
  have b: "\<exists>s1 w1. ScreensaverManager_update reset upd now (s, w) = Inr (s1, w1)
               \<and> sm_current_effect_index s1 = 0"
    if "sm_effects s = effects \<and> sm_auto_scroll_time s = 10
          \<and> now - sm_last_scroll_time s \<ge> 10
          \<and> sm_current_effect_index s = int (length effects) - 1" for now s and w :: 'b
  proof -
    have "sm_effects s \<noteq> []" using that assms(1) by simp
    from ScreensaverManager_update_step [OF this assms(2), of reset now w] that
    show ?thesis by auto
  qed
  from a b show ?thesis by blast
qed

theorem C4_witness:
  "\<exists>s' w'. ScreensaverManager_run idle_reset idle_update [3, 10, 12, 20, 31]
       (ScreensaverManager_new [0, 1] 0, 0) = Inr (s', w')
     \<and> (sm_current_effect_index s', sm_last_scroll_time s', sm_console s') = (1, 31, [1, 0, 1])"
proof -
  have 1: "[0 :: nat, 1] \<noteq> []" by simp
  have 2: "never_raises idle_update" by (simp add: never_raises_def idle_update_def)
  from C4_auto_advance [OF 1 2, of idle_reset "[3, 10, 12, 20, 31]" 0 0]
  obtain s' w' where
    "ScreensaverManager_run idle_reset idle_update [3, 10, 12, 20, 31]
       (ScreensaverManager_new [0, 1] 0, 0) = Inr (s', w')"
    "(sm_current_effect_index s', sm_last_scroll_time s', sm_console s') =
        auto_advance_spec 10 (int (length [0 :: nat, 1])) (0, 0, []) [3, 10, 12, 20, 31]"
    by blast
  then show ?thesis by simp
qed


subsection \<open>Touch and debounce\<close>

lemma advance_effect_step:
  assumes "ps_effects s \<noteq> []"
  shows "\<exists>s' w'. advance_effect reset now (s, w) = Inr (s', w')
    \<and> ps_current_effect_index s' = (ps_current_effect_index s + 1) mod int (length (ps_effects s))
    \<and> ps_console s' = ps_console s @ [ps_current_effect_index s' + 1]
    \<and> ps_last_advance_time s' = now
    \<and> ps_last_touch_time s' = ps_last_touch_time s
    \<and> ps_last_frame_time s' = ps_last_frame_time s
    \<and> ps_frame_time s' = ps_frame_time s
    \<and> length (ps_effects s') = length (ps_effects s)
    \<and> ps_touch_debounce s' = ps_touch_debounce s
    \<and> ps_auto_advance_time s' = ps_auto_advance_time s"
  using assms by (simp add: Let_def split: prod.splits)

lemma frame_step:
  assumes "never_raises upd"
  shows "\<exists>s' w'.
    (if (now - ps_last_frame_time s) \<ge> ps_frame_time s then
          let i = nat (ps_current_effect_index s) in
          then_do (upd (ps_effects s ! i) w) (\<lambda>(e, w').
            Inr (s\<lparr>ps_effects := (ps_effects s)[i := e],
                    ps_last_frame_time := now\<rparr>, w'))
        else Inr (s, w)) = Inr (s', w')
    \<and> ps_current_effect_index s' = ps_current_effect_index s
    \<and> ps_console s' = ps_console s
    \<and> ps_last_advance_time s' = ps_last_advance_time s
    \<and> ps_last_touch_time s' = ps_last_touch_time s
    \<and> length (ps_effects s') = length (ps_effects s)
    \<and> ps_touch_debounce s' = ps_touch_debounce s
    \<and> ps_auto_advance_time s' = ps_auto_advance_time s"
proof -
  from assms obtain e w2 where
    "upd (ps_effects s ! nat (ps_current_effect_index s)) w = Inr (e, w2)"
    unfolding never_raises_def by blast
  then show ?thesis by (simp add: then_do_def Let_def)
qed

lemma update_touch_accepted:
  assumes ne: "ps_effects s \<noteq> []" and nr: "never_raises upd"
    and touch: "touch_value tk" "tk_touch tk - ps_last_touch_time s > ps_touch_debounce s"
    and mono: "tk_update tk \<le> tk_advance_touch tk" and auto: "0 \<le> ps_auto_advance_time s"
  shows "\<exists>s' w'. PyPortalScreensaver_update reset upd tk (s, w) = Inr (s', w')
    \<and> ps_current_effect_index s' = (ps_current_effect_index s + 1) mod int (length (ps_effects s))
    \<and> ps_console s' = ps_console s @ [ps_current_effect_index s' + 1]
    \<and> ps_last_advance_time s' = tk_advance_touch tk
    \<and> ps_last_touch_time s' = tk_touch tk
    \<and> length (ps_effects s') = length (ps_effects s)
    \<and> ps_touch_debounce s' = ps_touch_debounce s
    \<and> ps_auto_advance_time s' = ps_auto_advance_time s"
proof -
  from advance_effect_step [OF ne, of reset "tk_advance_touch tk" w] obtain s0 w0 where
    a: "advance_effect reset (tk_advance_touch tk) (s, w) = Inr (s0, w0)"
    and f: "ps_current_effect_index s0 = (ps_current_effect_index s + 1) mod int (length (ps_effects s))"
      "ps_console s0 = ps_console s @ [ps_current_effect_index s0 + 1]"
      "ps_last_advance_time s0 = tk_advance_touch tk"
      "length (ps_effects s0) = length (ps_effects s)"
      "ps_touch_debounce s0 = ps_touch_debounce s"
      "ps_auto_advance_time s0 = ps_auto_advance_time s"
    by blast
  define s1 where "s1 = s0\<lparr>ps_last_touch_time := tk_touch tk\<rparr>"
  have h: "handle_touch reset tk (s, w) = Inr (s1, w0)"
    using touch a by (simp add: then_do_def s1_def del: advance_effect.simps)
  have quiet: "\<not> (tk_update tk - ps_last_advance_time s1) > ps_auto_advance_time s1"
    using mono auto f by (simp add: s1_def)
  from frame_step [OF nr, where now = "tk_update tk" and s = s1 and w = w0] obtain s' w' where
    "(if (tk_update tk - ps_last_frame_time s1) \<ge> ps_frame_time s1 then
          let i = nat (ps_current_effect_index s1) in
          then_do (upd (ps_effects s1 ! i) w0) (\<lambda>(e, w').
            Inr (s1\<lparr>ps_effects := (ps_effects s1)[i := e],
                    ps_last_frame_time := tk_update tk\<rparr>, w'))
        else Inr (s1, w0)) = Inr (s', w')"
    and g: "ps_current_effect_index s' = ps_current_effect_index s1"
      "ps_console s' = ps_console s1"
      "ps_last_advance_time s' = ps_last_advance_time s1"
      "ps_last_touch_time s' = ps_last_touch_time s1"
      "length (ps_effects s') = length (ps_effects s1)"
      "ps_touch_debounce s' = ps_touch_debounce s1"
      "ps_auto_advance_time s' = ps_auto_advance_time s1"
    by blast
  then have "PyPortalScreensaver_update reset upd tk (s, w) = Inr (s', w')"
    using h quiet
    by (simp add: PyPortalScreensaver_update_def then_do_def Let_def
        del: handle_touch.simps advance_effect.simps)
  then show ?thesis using f g by (simp add: s1_def)
qed

lemma update_quiet:
  assumes nr: "never_raises upd"
    and touch: "\<not> (touch_value tk \<and> tk_touch tk - ps_last_touch_time s > ps_touch_debounce s)"
    and auto: "\<not> (tk_update tk - ps_last_advance_time s) > ps_auto_advance_time s"
  shows "\<exists>s' w'. PyPortalScreensaver_update reset upd tk (s, w) = Inr (s', w')
    \<and> ps_current_effect_index s' = ps_current_effect_index s
    \<and> ps_console s' = ps_console s
    \<and> ps_last_advance_time s' = ps_last_advance_time s
    \<and> ps_last_touch_time s' = ps_last_touch_time s
    \<and> length (ps_effects s') = length (ps_effects s)
    \<and> ps_touch_debounce s' = ps_touch_debounce s
    \<and> ps_auto_advance_time s' = ps_auto_advance_time s"
proof -
  have h: "handle_touch reset tk (s, w) = Inr (s, w)"
    using touch by auto
  from frame_step [OF nr, where now = "tk_update tk" and s = s and w = w] obtain s' w' where
    "(if (tk_update tk - ps_last_frame_time s) \<ge> ps_frame_time s then
          let i = nat (ps_current_effect_index s) in
          then_do (upd (ps_effects s ! i) w) (\<lambda>(e, w').
            Inr (s\<lparr>ps_effects := (ps_effects s)[i := e],
                    ps_last_frame_time := tk_update tk\<rparr>, w'))
        else Inr (s, w)) = Inr (s', w')"
    and g: "ps_current_effect_index s' = ps_current_effect_index s"
      "ps_console s' = ps_console s"
      "ps_last_advance_time s' = ps_last_advance_time s"
      "ps_last_touch_time s' = ps_last_touch_time s"
      "length (ps_effects s') = length (ps_effects s)"
      "ps_touch_debounce s' = ps_touch_debounce s"
      "ps_auto_advance_time s' = ps_auto_advance_time s"
    by blast
  then have "PyPortalScreensaver_update reset upd tk (s, w) = Inr (s', w')"
    using h auto
    by (simp add: PyPortalScreensaver_update_def then_do_def Let_def
        del: handle_touch.simps advance_effect.simps)
  then show ?thesis using g by simp
qed

lemma held_touch_run:
  assumes nr: "never_raises upd"
  shows "ps_effects s \<noteq> [] \<Longrightarrow> 0 \<le> ps_auto_advance_time s
    \<Longrightarrow> held_touch (ps_touch_debounce s) (ps_last_touch_time s) ticks
    \<Longrightarrow> \<exists>s' w'. PyPortalScreensaver_run reset upd ticks (s, w) = Inr (s', w')
        \<and> ps_console s' = ps_console s @ drop (length (ps_console s)) (ps_console s')
        \<and> length (ps_console s') = length (ps_console s) + length ticks"
proof (induction ticks arbitrary: s w)
  case Nil
  then show ?case by (simp add: PyPortalScreensaver_run_def)
next
  case (Cons tk ticks)
  from Cons.prems(3) have t: "touch_value tk" "tick_monotonic tk"
    "tk_touch tk - ps_last_touch_time s > ps_touch_debounce s"
    and rest: "held_touch (ps_touch_debounce s) (tk_touch tk) ticks"
    by simp_all
  have m: "tk_update tk \<le> tk_advance_touch tk"
    using t(2) by (simp add: tick_monotonic_def)
  from update_touch_accepted [OF Cons.prems(1) nr t(1) t(3) m Cons.prems(2), of reset w]
  obtain s1 w1 where
    u: "PyPortalScreensaver_update reset upd tk (s, w) = Inr (s1, w1)"
    and f: "ps_console s1 = ps_console s @ [ps_current_effect_index s1 + 1]"
      "ps_last_touch_time s1 = tk_touch tk"
      "length (ps_effects s1) = length (ps_effects s)"
      "ps_touch_debounce s1 = ps_touch_debounce s"
      "ps_auto_advance_time s1 = ps_auto_advance_time s"
    by blast
  have ne: "ps_effects s1 \<noteq> []" using f(3) Cons.prems(1) by auto
  have au: "0 \<le> ps_auto_advance_time s1" using f(5) Cons.prems(2) by simp
  have hd: "held_touch (ps_touch_debounce s1) (ps_last_touch_time s1) ticks"
    using rest f by simp
  from Cons.IH [OF ne au hd, of w1] obtain s' w' where
    r: "PyPortalScreensaver_run reset upd ticks (s1, w1) = Inr (s', w')"
    and g: "ps_console s' = ps_console s1 @ drop (length (ps_console s1)) (ps_console s')"
      "length (ps_console s') = length (ps_console s1) + length ticks"
    by blast
  have "PyPortalScreensaver_run reset upd (tk # ticks) (s, w) = Inr (s', w')"
    using u r by (simp add: PyPortalScreensaver_run_def)
  moreover have "length (ps_console s') = length (ps_console s) + length (tk # ticks)"
    using g(2) f(1) by simp
  moreover have "ps_console s' = ps_console s @ drop (length (ps_console s)) (ps_console s')"
    using g(1) f(1) by (metis append.assoc append_eq_conv_conj)
  ultimately show ?case by blast
qed

text \<open>
  Claim C10: touch handling is level-sampled.  In any state of the scheduler (nothing
  in it records an earlier touch sample), a tick whose touch sample is true and whose
  clock reading is more than the debounce interval after the last accepted touch makes
  a transition: the index advances, the switch is printed, the touch time is recorded.
  So a touch held down, sampled as true on ticks each more than the debounce interval
  after the previous one, makes one transition per tick, with no release in between.
\<close>

theorem C10_level_sampled:
  assumes "ps_effects s \<noteq> []" and "never_raises upd" and "0 \<le> ps_auto_advance_time s"
  shows "(touch_value tk \<and> tick_monotonic tk
            \<and> tk_touch tk - ps_last_touch_time s > ps_touch_debounce s
          \<longrightarrow> (\<exists>s' w'. PyPortalScreensaver_update reset upd tk (s, w) = Inr (s', w')
                \<and> ps_current_effect_index s'
                    = (ps_current_effect_index s + 1) mod int (length (ps_effects s))
                \<and> ps_console s' = ps_console s @ [ps_current_effect_index s' + 1]
                \<and> ps_last_touch_time s' = tk_touch tk))
       \<and> (held_touch (ps_touch_debounce s) (ps_last_touch_time s) ticks
          \<longrightarrow> transitions reset upd ticks (s, w) = Some (length ticks))"
proof -
  have a: "\<exists>s' w'. PyPortalScreensaver_update reset upd tk (s, w) = Inr (s', w')
                \<and> ps_current_effect_index s'
                    = (ps_current_effect_index s + 1) mod int (length (ps_effects s))
                \<and> ps_console s' = ps_console s @ [ps_current_effect_index s' + 1]
                \<and> ps_last_touch_time s' = tk_touch tk"
    if "touch_value tk \<and> tick_monotonic tk
            \<and> tk_touch tk - ps_last_touch_time s > ps_touch_debounce s"
  proof -
    have m: "tk_update tk \<le> tk_advance_touch tk"
      using that by (simp add: tick_monotonic_def)
    from update_touch_accepted [OF assms(1,2) _ _ m assms(3), of reset w] that
    show ?thesis by blast
  qed
  have b: "transitions reset upd ticks (s, w) = Some (length ticks)"
    if "held_touch (ps_touch_debounce s) (ps_last_touch_time s) ticks"
  proof -
    from held_touch_run [OF assms(2) assms(1) assms(3) that, of reset w] obtain s' w' where
      "PyPortalScreensaver_run reset upd ticks (s, w) = Inr (s', w')"
      "length (ps_console s') = length (ps_console s) + length ticks"
      by blast
    then show ?thesis by (simp add: transitions_def)
  qed
  from a b show ?thesis by blast
qed

theorem C10_witness:
  "transitions idle_reset idle_update
     [tick_at 1 True, tick_at 1.6 True, tick_at 2.2 True]
     (PyPortalScreensaver_new [0, 1, 2] 1, 0) = Some 3"
proof -
  have 1: "ps_effects (PyPortalScreensaver_new [0 :: nat, 1, 2] 1) \<noteq> []"
    by (simp add: PyPortalScreensaver_new_def)
  have 2: "never_raises idle_update" by (simp add: never_raises_def idle_update_def)
  have 3: "0 \<le> ps_auto_advance_time (PyPortalScreensaver_new [0 :: nat, 1, 2] 1)"
    by (simp add: PyPortalScreensaver_new_def)
  have 4: "held_touch (ps_touch_debounce (PyPortalScreensaver_new [0 :: nat, 1, 2] 1))
             (ps_last_touch_time (PyPortalScreensaver_new [0 :: nat, 1, 2] 1))
             [tick_at 1 True, tick_at 1.6 True, tick_at 2.2 True]"
    by (simp add: PyPortalScreensaver_new_def tick_at_def tick_monotonic_def)
  from C10_level_sampled [OF 1 2 3, of _ idle_reset 0
      "[tick_at 1 True, tick_at 1.6 True, tick_at 2.2 True]"] 4
  show ?thesis by simp
qed


lemma quiet_run:
  assumes nr: "never_raises upd"
    and ks: "\<forall>k \<in> set ks. tk_update k \<le> tk_touch k \<and> tk_touch k - t1 < d"
    and s: "ps_last_touch_time s = t1" "t1 \<le> ps_last_advance_time s"
      "ps_touch_debounce s = d" "d \<le> ps_auto_advance_time s"
  shows "\<exists>s' w'. PyPortalScreensaver_run reset upd ks (s, w) = Inr (s', w')
    \<and> ps_console s' = ps_console s \<and> ps_last_touch_time s' = t1
    \<and> ps_current_effect_index s' = ps_current_effect_index s"
proof -
  define I where "I = (\<lambda>(s' :: 'a PyPortalScreensaver, w' :: 'b).
     ps_console s' = ps_console s \<and> ps_last_touch_time s' = t1
     \<and> ps_current_effect_index s' = ps_current_effect_index s
     \<and> ps_last_advance_time s' = ps_last_advance_time s
     \<and> ps_touch_debounce s' = d \<and> ps_auto_advance_time s' = ps_auto_advance_time s)"
  have init: "I (s, w)" using s by (simp add: I_def)
  have step: "\<exists>sw'. PyPortalScreensaver_update reset upd k sw = Inr sw' \<and> I sw'"
    if "k \<in> set ks" "I sw" for k sw
  proof -
    obtain s0 w0 where sw: "sw = (s0, w0)" by fastforce
    from that(2) have i: "ps_console s0 = ps_console s" "ps_last_touch_time s0 = t1"
      "ps_current_effect_index s0 = ps_current_effect_index s"
      "ps_last_advance_time s0 = ps_last_advance_time s"
      "ps_touch_debounce s0 = d" "ps_auto_advance_time s0 = ps_auto_advance_time s"
      by (simp_all add: I_def sw)
    from ks that(1) have k: "tk_update k \<le> tk_touch k" "tk_touch k - t1 < d" by simp_all
    have q1: "\<not> (touch_value k \<and> tk_touch k - ps_last_touch_time s0 > ps_touch_debounce s0)"
      using k i by simp
    have q2: "\<not> (tk_update k - ps_last_advance_time s0) > ps_auto_advance_time s0"
      using k i s by simp
    from update_quiet [OF nr q1 q2, of reset w0] i show ?thesis
      by (auto simp: I_def sw)
  qed
  from for_each_inv [of I "(s, w)" ks "PyPortalScreensaver_update reset upd", OF init step]
  show ?thesis by (auto simp: PyPortalScreensaver_run_def I_def)
qed

text \<open>
  Claim C5, as stated, for a pair of rising edges that both come within the debounce
  window of an earlier accepted touch.  The scheduler is constructed at clock \<open>1\<close>;
  a touch at \<open>2.0\<close> is accepted and released at \<open>2.05\<close>, which leaves the state shown.
  The rising edges at \<open>2.1\<close> and \<open>2.3\<close> (released at \<open>2.2\<close>) differ by \<open>0.2 < 0.5\<close>,
  and the scheduler makes no transition for the pair, not one.
\<close>

theorem C5_counterexample:
  "PyPortalScreensaver_run idle_reset idle_update [tick_at 2 True, tick_at 2.05 False]
       (PyPortalScreensaver_new [0, 1, 2] 1, 0)
     = Inr (\<lparr>ps_last_touch_time = 2, ps_touch_debounce = 0.5, ps_effects = [0, 1, 2],
             ps_current_effect_index = 1, ps_auto_advance_time = 30,
             ps_last_advance_time = 2, ps_frame_time = 1 / 15, ps_last_frame_time = 2,
             ps_console = [2]\<rparr>, 0)
   \<and> transitions idle_reset idle_update
       [tick_at 2.1 True, tick_at 2.2 False, tick_at 2.3 True]
       (\<lparr>ps_last_touch_time = 2, ps_touch_debounce = 0.5, ps_effects = [0, 1, 2],
         ps_current_effect_index = 1, ps_auto_advance_time = 30,
         ps_last_advance_time = 2, ps_frame_time = 1 / 15, ps_last_frame_time = 2,
         ps_console = [2]\<rparr>, 0) = Some 0"
  by (simp add: transitions_def PyPortalScreensaver_run_def PyPortalScreensaver_update_def
      PyPortalScreensaver_new_def tick_at_def idle_reset_def idle_update_def then_do_def Let_def)

text \<open>
  Claim C5, amended: when a touch is accepted (sample true, more than \<open>0.5\<close> s after
  the last accepted touch), every later tick whose clock reading is less than \<open>0.5\<close> s
  after it, whatever its touch sample, makes no transition: a second rising edge in
  the window is ignored, the run makes exactly one transition, and the recorded touch
  time stays that of the first edge.
\<close>

theorem C5_debounce:
  assumes "ps_effects s \<noteq> []" and "never_raises upd"
    and "ps_touch_debounce s = 0.5" and "ps_auto_advance_time s = 30"
    and "touch_value k1" and "tick_monotonic k1"
    and "tk_touch k1 - ps_last_touch_time s > 0.5"
    and "\<forall>k \<in> set ks. tk_update k \<le> tk_touch k \<and> tk_touch k - tk_touch k1 < 0.5"
  shows "transitions reset upd (k1 # ks) (s, w) = Some 1
    \<and> (\<exists>s' w'. PyPortalScreensaver_run reset upd (k1 # ks) (s, w) = Inr (s', w')
          \<and> ps_last_touch_time s' = tk_touch k1
          \<and> ps_current_effect_index s'
              = (ps_current_effect_index s + 1) mod int (length (ps_effects s)))"
proof -
  have m: "tk_update k1 \<le> tk_advance_touch k1" "tk_touch k1 \<le> tk_advance_touch k1"
    using assms(6) by (simp_all add: tick_monotonic_def)
  have t: "tk_touch k1 - ps_last_touch_time s > ps_touch_debounce s" using assms by simp
  have au: "0 \<le> ps_auto_advance_time s" using assms by simp
  from update_touch_accepted [OF assms(1,2) assms(5) t m(1) au, of reset w]
  obtain s1 w1 where
    u: "PyPortalScreensaver_update reset upd k1 (s, w) = Inr (s1, w1)"
    and f: "ps_current_effect_index s1
              = (ps_current_effect_index s + 1) mod int (length (ps_effects s))"
      "ps_console s1 = ps_console s @ [ps_current_effect_index s1 + 1]"
      "ps_last_advance_time s1 = tk_advance_touch k1"
      "ps_last_touch_time s1 = tk_touch k1"
      "ps_touch_debounce s1 = ps_touch_debounce s"
      "ps_auto_advance_time s1 = ps_auto_advance_time s"
    by blast
  have q: "\<exists>s' w'. PyPortalScreensaver_run reset upd ks (s1, w1) = Inr (s', w')
    \<and> ps_console s' = ps_console s1 \<and> ps_last_touch_time s' = tk_touch k1
    \<and> ps_current_effect_index s' = ps_current_effect_index s1"
    by (rule quiet_run [OF assms(2) assms(8)]) (use f m assms in simp_all)
  then obtain s' w' where
    r: "PyPortalScreensaver_run reset upd ks (s1, w1) = Inr (s', w')"
    and g: "ps_console s' = ps_console s1" "ps_last_touch_time s' = tk_touch k1"
      "ps_current_effect_index s' = ps_current_effect_index s1"
    by blast
  have run: "PyPortalScreensaver_run reset upd (k1 # ks) (s, w) = Inr (s', w')"
    using u r by (simp add: PyPortalScreensaver_run_def)
  then have "transitions reset upd (k1 # ks) (s, w) = Some 1"
    using g f by (simp add: transitions_def)
  with run g f show ?thesis by simp
qed

theorem C5_witness:
  "transitions idle_reset idle_update
     [tick_at 2 True, tick_at 2.05 False, tick_at 2.1 True, tick_at 2.2 False, tick_at 2.3 True]
     (PyPortalScreensaver_new [0, 1, 2] 1, 0) = Some 1"
proof -
  have 1: "ps_effects (PyPortalScreensaver_new [0 :: nat, 1, 2] 1) \<noteq> []"
    by (simp add: PyPortalScreensaver_new_def)
  have 2: "never_raises idle_update" by (simp add: never_raises_def idle_update_def)
  have 3: "ps_touch_debounce (PyPortalScreensaver_new [0 :: nat, 1, 2] 1) = 0.5"
    "ps_auto_advance_time (PyPortalScreensaver_new [0 :: nat, 1, 2] 1) = 30"
    by (simp_all add: PyPortalScreensaver_new_def)
  have 4: "touch_value (tick_at 2 True)" "tick_monotonic (tick_at 2 True)"
    "tk_touch (tick_at 2 True) - ps_last_touch_time (PyPortalScreensaver_new [0 :: nat, 1, 2] 1) > 0.5"
    by (simp_all add: PyPortalScreensaver_new_def tick_at_def tick_monotonic_def)
  have 5: "\<forall>k \<in> set [tick_at 2.05 False, tick_at 2.1 True, tick_at 2.2 False, tick_at 2.3 True].
      tk_update k \<le> tk_touch k \<and> tk_touch k - tk_touch (tick_at 2 True) < 0.5"
    by (simp add: tick_at_def)
  from C5_debounce [OF 1 2 3 4 5, of idle_reset 0]
  show ?thesis by simp
qed

subsection \<open>Palettes\<close>

lemma length_palette_loop [simp]:
  "length (fold (\<lambda>i p. p[i := f (int i)]) [0..<k] p) = length p"
  by (induction k) simp_all

lemma palette_loop:
  "i < length p \<Longrightarrow> fold (\<lambda>i p. p[i := f (int i)]) [0..<k] p ! i
         = (if i < k then f (int i) else p ! i)"
  by (induction k) (auto simp: nth_list_update less_Suc_eq)

lemma length_palette_fill: "length (palette_fill n f) = n"
  by (simp add: palette_fill_def Palette_def)

lemma nth_palette_fill: "i < n \<Longrightarrow> palette_fill n f ! i = f (int i)"
  using palette_loop [of i "Palette n" f n] by (simp add: palette_fill_def Palette_def)

lemma py_int_bounds:
  assumes "0 \<le> v" "v \<le> of_int n"
  shows "0 \<le> py_int v \<and> py_int v \<le> n"
proof -
  have "\<lfloor>v\<rfloor> \<le> n" using assms(2) by (simp add: floor_le_iff)
  then show ?thesis using assms(1) by (simp add: py_int_def)
qed

lemma clamp255_ok [simp]: "0 \<le> clamp255 v" "clamp255 v \<le> 255"
  by (simp_all add: clamp255_def)

lemma clamp255_id: "0 \<le> v \<Longrightarrow> v \<le> 255 \<Longrightarrow> clamp255 v = v"
  by (simp add: clamp255_def)

lemma channel_ok_clamped [simp]: "channel_ok (clamp255 r, clamp255 g, clamp255 b)"
  by (simp add: channel_ok_def clamp255_def)

lemma float_error_bounds:
  "- (1 / 100) \<le> float_error \<rho> c i" "float_error \<rho> c i \<le> 1 / 100"
  by (simp_all add: float_error_def float_tolerance_def)

lemma float_error_none [simp]: "float_error no_rounding c i = 0"
  by (simp add: float_error_def no_rounding_def float_tolerance_def)

text \<open>The truncation of a float within the tolerance of a value in \<open>[0, 254]\<close>.\<close>

lemma py_int_truncated:
  assumes "0 \<le> v" "v \<le> 254" "- (1 / 100) \<le> e" "e \<le> 1 / 100"
  shows "truncated_float v (py_int (v + e))"
proof (cases "0 \<le> v + e")
  case True
  have 1: "of_int \<lfloor>v + e\<rfloor> \<le> v + e" "v + e < of_int \<lfloor>v + e\<rfloor> + 1" by linarith+
  have 2: "0 \<le> \<lfloor>v + e\<rfloor>" using True by simp
  have "\<lfloor>v + e\<rfloor> < 255" using assms by (simp add: floor_less_iff)
  then have 3: "\<lfloor>v + e\<rfloor> \<le> 255" by simp
  have 4: "\<lfloor>v + e\<rfloor> = \<lfloor>v\<rfloor>" if "1 / 100 \<le> frac v" "frac v < 1 - 1 / 100"
  proof (rule floor_unique)
    have "v = of_int \<lfloor>v\<rfloor> + frac v" by (simp add: frac_def)
    then show "of_int \<lfloor>v\<rfloor> \<le> v + e" "v + e < of_int \<lfloor>v\<rfloor> + 1"
      using that assms(3,4) by linarith+
  qed
  have 5: "v - 1 - 1 / 100 \<le> of_int \<lfloor>v + e\<rfloor>" "of_int \<lfloor>v + e\<rfloor> \<le> v + 1 / 100"
    using 1 assms(3,4) by linarith+
  show ?thesis
    unfolding truncated_float_def float_tolerance_def py_int_def using True 2 3 4 5 by simp
next
  case False
  then have "- 1 < v + e" "v + e \<le> 0" using assms by linarith+
  then have c: "\<lceil>v + e\<rceil> = 0" by (simp add: ceiling_eq_iff)
  have "frac v = v" using False assms by (simp add: frac_eq)
  then have "\<not> 1 / 100 \<le> frac v" using False assms by linarith
  then show ?thesis
    using False c assms by (simp add: truncated_float_def py_int_def float_tolerance_def)
qed

lemma sin_channel_float:
  "truncated_float (127 + 127 * sin a) (py_int (127 + 127 * sin a + float_error \<rho> c i))"
proof -
  have "- 1 \<le> sin a" "sin a \<le> 1" by simp_all
  then have "0 \<le> 127 + 127 * sin a" "127 + 127 * sin a \<le> 254" by linarith+
  then show ?thesis using float_error_bounds by (rule py_int_truncated)
qed

lemma sin_channel_rounded:
  "0 \<le> py_int (127 + 127 * sin a + float_error \<rho> c i)
   \<and> py_int (127 + 127 * sin a + float_error \<rho> c i) \<le> 255"
  using sin_channel_float [of a \<rho> c i] by (simp add: truncated_float_def)

lemma PlasmaEffect_rgb_ok: "channel_ok (PlasmaEffect_rgb \<rho> i)"
  by (simp add: PlasmaEffect_rgb_def Let_def channel_ok_def sin_channel_rounded)

lemma SimpleEffect_rgb_ok: "channel_ok (SimpleEffect_rgb \<rho> i)"
  by (simp add: SimpleEffect_rgb_def Let_def channel_ok_def sin_channel_rounded)

lemma SpiralEffect_rgb_ok: "channel_ok (SpiralEffect_rgb i)"
  by (simp add: SpiralEffect_rgb_def Let_def)

lemma scaled_channel:
  assumes "0 \<le> t" "t \<le> 1" "0 \<le> n"
  shows "0 \<le> py_int (t * of_int n) \<and> py_int (t * of_int n) \<le> n"
proof (rule py_int_bounds)
  show "0 \<le> t * of_int n" using assms by simp
  have "t * of_int n \<le> 1 * of_int n" using assms by (intro mult_right_mono) simp_all
  then show "t * of_int n \<le> of_int n" by simp
qed

lemma MatrixEffect_rgb_ok:
  assumes "0 \<le> i" "i \<le> 15"
  shows "channel_ok (MatrixEffect_rgb i)"
proof -
  define t :: real where "t = of_int i / 15"
  have t: "0 \<le> t" "t \<le> 1" using assms by (simp_all add: t_def)
  from scaled_channel [OF t, of 255] scaled_channel [OF t, of 50]
  show ?thesis by (simp add: MatrixEffect_rgb_def Let_def channel_ok_def t_def)
qed

lemma JuliaFractalEffect_rgb_ok: "channel_ok (JuliaFractalEffect_rgb i)"
  by (simp add: JuliaFractalEffect_rgb_def Let_def channel_ok_def)

lemma FireEffect_rgb_ok: "channel_ok (FireEffect_rgb i)"
  by (simp add: FireEffect_rgb_def Let_def split: prod.splits)

lemma StarfieldEffect_rgb_ok:
  assumes "0 \<le> i" "i \<le> 15"
  shows "channel_ok (StarfieldEffect_rgb i)"
proof -
  define t :: real where "t = of_int i / 15"
  have t: "0 \<le> t" "t \<le> 1" using assms by (simp_all add: t_def)
  from scaled_channel [OF t, of 255] scaled_channel [OF t, of 100]
  show ?thesis by (simp add: StarfieldEffect_rgb_def Let_def channel_ok_def t_def)
qed

lemma SineWaveEffect_rgb_ok: "channel_ok (SineWaveEffect_rgb i)"
  by (simp add: SineWaveEffect_rgb_def Let_def split: prod.splits)

lemma StreamersEffect_rgb_ok: "channel_ok (StreamersEffect_rgb i)"
  by (simp add: StreamersEffect_rgb_def Let_def channel_ok_def split: prod.splits)

lemma PlasmaField_rgb_ok: "channel_ok (PlasmaField_rgb \<rho> i)"
  by (simp add: PlasmaField_rgb_def Let_def)

lemma Kaleidoscope_rgb_ok: "channel_ok (Kaleidoscope_rgb i)"
  by (simp add: Kaleidoscope_rgb_def Let_def split: prod.splits)

lemma Mandelbrot_rgb_ok: "channel_ok (Mandelbrot_rgb i)"
  by (simp add: Mandelbrot_rgb_def Let_def channel_ok_def)

lemma palette_of_length:
  "length (palette_of \<rho> k) =
     (case k of PlasmaPalette \<Rightarrow> 64 | SimplePalette \<Rightarrow> 64 | SpiralPalette \<Rightarrow> 32
      | MatrixPalette \<Rightarrow> 16 | JuliaPalette \<Rightarrow> 64 | FirePalette \<Rightarrow> 32 | StarPalette \<Rightarrow> 16
      | WavePalette \<Rightarrow> 64 | StreamerPalette \<Rightarrow> 32 | PlasmaFieldPalette \<Rightarrow> 256
      | KaleidoscopePalette \<Rightarrow> 256 | MandelbrotPalette \<Rightarrow> 256)"
  by (cases k)
     (simp_all add: length_palette_fill PlasmaEffect_init_palette_def SimpleEffect_init_palette_def
       SpiralEffect_init_palette_def MatrixEffect_init_palette_def
       JuliaFractalEffect_init_palette_def FireEffect_init_fire_palette_def
       StarfieldEffect_init_star_palette_def SineWaveEffect_init_wave_palette_def
       StreamersEffect_init_streamer_palette_def PlasmaField_init_plasma_palette_def
       Kaleidoscope_init_kaleidoscope_palette_def Mandelbrot_init_mandelbrot_palette_def)

lemma palette_of_channels:
  assumes "i < length (palette_of \<rho> k)"
  shows "channel_ok (palette_of \<rho> k ! i)"
proof (cases k)
  case MatrixPalette
  then have "i < 16" using assms palette_of_length [of \<rho> k] by simp
  then show ?thesis
    using MatrixEffect_rgb_ok [of "int i"]
    by (simp add: MatrixPalette MatrixEffect_init_palette_def nth_palette_fill)
next
  case StarPalette
  then have "i < 16" using assms palette_of_length [of \<rho> k] by simp
  then show ?thesis
    using StarfieldEffect_rgb_ok [of "int i"]
    by (simp add: StarPalette StarfieldEffect_init_star_palette_def nth_palette_fill)
qed (use assms palette_of_length [of \<rho> k] in \<open>simp_all add: nth_palette_fill
       PlasmaEffect_init_palette_def SimpleEffect_init_palette_def
       SpiralEffect_init_palette_def
       JuliaFractalEffect_init_palette_def FireEffect_init_fire_palette_def
       SineWaveEffect_init_wave_palette_def
       StreamersEffect_init_streamer_palette_def PlasmaField_init_plasma_palette_def
       Kaleidoscope_init_kaleidoscope_palette_def Mandelbrot_init_mandelbrot_palette_def
       PlasmaEffect_rgb_ok SimpleEffect_rgb_ok SpiralEffect_rgb_ok JuliaFractalEffect_rgb_ok
       FireEffect_rgb_ok SineWaveEffect_rgb_ok StreamersEffect_rgb_ok PlasmaField_rgb_ok
       Kaleidoscope_rgb_ok Mandelbrot_rgb_ok\<close>)

lemma palette_of_black:
  assumes "k \<in> {JuliaPalette, MandelbrotPalette, FirePalette, StarPalette}"
  shows "palette_of \<rho> k ! 0 = (0, 0, 0)"
proof -
  have "JuliaFractalEffect_rgb 0 = (0, 0, 0)" by (simp add: JuliaFractalEffect_rgb_def)
  moreover have "Mandelbrot_rgb 0 = (0, 0, 0)" by (simp add: Mandelbrot_rgb_def)
  moreover have "FireEffect_rgb 0 = (0, 0, 0)"
    by (simp add: FireEffect_rgb_def py_int_def clamp255_def)
  moreover have "StarfieldEffect_rgb 0 = (0, 0, 0)" by (simp add: StarfieldEffect_rgb_def)
  ultimately show ?thesis
    using assms nth_palette_fill [of 0 64 JuliaFractalEffect_rgb]
      nth_palette_fill [of 0 256 Mandelbrot_rgb] nth_palette_fill [of 0 32 FireEffect_rgb]
      nth_palette_fill [of 0 16 StarfieldEffect_rgb]
    by (auto simp: JuliaFractalEffect_init_palette_def Mandelbrot_init_mandelbrot_palette_def
        FireEffect_init_fire_palette_def StarfieldEffect_init_star_palette_def)
qed

text \<open>
  Claim C8: every palette-construction function of the repository builds a non-empty
  palette in which each of the three channels of every entry lies in \<open>[0, 255]\<close>, and
  the fractal (Julia, Mandelbrot), fire and star palettes have pure black at index \<open>0\<close>.
  For the rainbow palettes this holds at every rounding \<open>\<rho>\<close> of the truncated floats.
\<close>

theorem C8_palette_channels:
  "0 < length (palette_of \<rho> k)
   \<and> (\<forall>i < length (palette_of \<rho> k). channel_ok (palette_of \<rho> k ! i))
   \<and> (k \<in> {JuliaPalette, MandelbrotPalette, FirePalette, StarPalette}
        \<longrightarrow> palette_of \<rho> k ! 0 = (0, 0, 0))"
proof -
  have "0 < length (palette_of \<rho> k)"
    by (cases k) (simp_all add: palette_of_length del: palette_of.simps)
  then show ?thesis using palette_of_channels palette_of_black by blast
qed

theorem C8_witness:
  "channel_ok (FireEffect_init_fire_palette ! 31) \<and> FireEffect_init_fire_palette ! 0 = (0, 0, 0)"
proof -
  have "(31 :: nat) < length (palette_of no_rounding FirePalette)"
    using palette_of_length [of no_rounding FirePalette] by simp
  moreover have "FirePalette \<in> {JuliaPalette, MandelbrotPalette, FirePalette, StarPalette}" by simp
  ultimately show ?thesis using C8_palette_channels [of no_rounding FirePalette] by simp
qed

subsection \<open>Rainbow palettes\<close>

lemma sin_cubic: "\<bar>sin x - x\<bar> \<le> \<bar>x\<bar> ^ 3 / 6" for x :: real
  using Maclaurin_sin_bound [of x 3]
  by (simp add: sin_coeff_def lessThan_Suc eval_nat_numeral fact_numeral)

lemma pi_less_32: "pi < 3.2"
proof (rule ccontr)
  assume "\<not> pi < 3.2"
  then have "(1.6 :: real) \<le> pi / 2" by simp
  then have "cos (pi / 2) \<le> cos (1.6 :: real)"
    using pi_gt_zero by (intro cos_monotone_0_pi_le) simp_all
  then have p: "0 \<le> cos (1.6 :: real)" by simp
  have "cos (1.6 :: real) = 1 - 2 * (sin 0.8)\<^sup>2" using cos_double_sin [of "0.8 :: real"] by simp
  moreover have "\<bar>sin (0.8 :: real) - 0.8\<bar> \<le> 9 / 100"
    using sin_cubic [of "0.8"] by (simp add: power3_eq_cube)
  then have "71 / 100 \<le> sin (0.8 :: real)" by linarith
  then have "(71 / 100)\<^sup>2 \<le> (sin (0.8 :: real))\<^sup>2" by (intro power_mono) simp_all
  ultimately have "cos (1.6 :: real) \<le> 1 - 2 * (71 / 100)\<^sup>2" by simp
  then show False using p by (simp add: power2_eq_square)
qed

lemma pi_ge_3: "3 \<le> pi"
  using sin_x_le_x [of "pi / 6"] pi_gt_zero by (simp add: sin_30)

text \<open>
  The exact red value at index \<open>128\<close> of the 256-colour palette: the angle is
  \<open>(128 / 255) \<cdot> 2\<pi> = \<pi> + \<pi> / 255\<close>, so the value is \<open>127 - 127 \<cdot> sin(\<pi> / 255)\<close>, about
  \<open>125.44\<close>.
\<close>

lemma red_128_value:
  "627 / 5 \<le> rainbow_value 256 0 128" "rainbow_value 256 0 128 \<le> 628 / 5"
proof -
  define x where "x = pi / 255"
  have x: "3 / 255 \<le> x" "x \<le> 32 / 2550" "0 \<le> x"
    using pi_ge_3 pi_less_32 by (simp_all add: x_def)
  have a: "128 / 255 * 2 * pi = x + pi" by (simp add: x_def field_simps)
  have "rainbow_value 256 0 128 = 127 + 127 * sin (128 / 255 * 2 * pi)"
    by (simp add: rainbow_value_def)
  then have v: "rainbow_value 256 0 128 = 127 - 127 * sin x"
    unfolding a by simp
  have u: "sin x \<le> x" using x(3) by (rule sin_x_le_x)
  have "\<bar>x\<bar> ^ 3 \<le> (32 / 2550) ^ 3" using x by (intro power_mono) simp_all
  then have "\<bar>sin x - x\<bar> \<le> (32 / 2550) ^ 3 / 6" using sin_cubic [of x] by linarith
  then have l: "x - (32 / 2550) ^ 3 / 6 \<le> sin x" by linarith
  show "627 / 5 \<le> rainbow_value 256 0 128" using u x(2) by (simp add: v)
  have "3 / 255 - (32 / 2550) ^ 3 / 6 \<le> sin x" using l x(1) by linarith
  then have "1 / 90 \<le> sin x" by (simp add: power3_eq_cube)
  then show "rainbow_value 256 0 128 \<le> 628 / 5" by (simp add: v)
qed

lemma red_128_frac:
  "\<lfloor>rainbow_value 256 0 128\<rfloor> = 125"
  "float_tolerance \<le> frac (rainbow_value 256 0 128)"
  "frac (rainbow_value 256 0 128) < 1 - float_tolerance"
proof -
  show f: "\<lfloor>rainbow_value 256 0 128\<rfloor> = 125"
    using red_128_value by (intro floor_unique) simp_all
  show "float_tolerance \<le> frac (rainbow_value 256 0 128)"
    "frac (rainbow_value 256 0 128) < 1 - float_tolerance"
    using red_128_value by (simp_all add: frac_def f float_tolerance_def)
qed

text \<open>What each rainbow generator stores, channel by channel.\<close>

lemma rainbow_rgb:
  "PlasmaEffect_rgb \<rho> i =
     (py_int (rainbow_value 64 0 i + float_error \<rho> 0 i),
      py_int (rainbow_value 64 1 i + float_error \<rho> 1 i),
      py_int (rainbow_value 64 2 i + float_error \<rho> 2 i))"
  "SimpleEffect_rgb \<rho> i =
     (py_int (rainbow_value 64 0 i + float_error \<rho> 0 i),
      py_int (rainbow_value 64 1 i + float_error \<rho> 1 i),
      py_int (rainbow_value 64 2 i + float_error \<rho> 2 i))"
  "PlasmaField_rgb \<rho> i =
     (clamp255 (py_int (rainbow_value 256 0 i + float_error \<rho> 0 i)),
      clamp255 (py_int (rainbow_value 256 1 i + float_error \<rho> 1 i)),
      clamp255 (py_int (rainbow_value 256 2 i + float_error \<rho> 2 i)))"
  by (simp_all add: PlasmaEffect_rgb_def SimpleEffect_rgb_def PlasmaField_rgb_def
      rainbow_value_def Let_def)

lemma rainbow_channel:
  "truncated_float (rainbow_value N c i) (py_int (rainbow_value N c i + float_error \<rho> c' i'))"
  unfolding rainbow_value_def by (rule sin_channel_float)

lemma rainbow_channel_clamped:
  "truncated_float (rainbow_value N c i)
     (clamp255 (py_int (rainbow_value N c i + float_error \<rho> c' i')))"
proof -
  have t: "truncated_float (rainbow_value N c i)
      (py_int (rainbow_value N c i + float_error \<rho> c' i'))" by (rule rainbow_channel)
  then have "clamp255 (py_int (rainbow_value N c i + float_error \<rho> c' i'))
      = py_int (rainbow_value N c i + float_error \<rho> c' i')"
    by (intro clamp255_id) (simp_all add: truncated_float_def)
  with t show ?thesis by simp
qed

lemma red_128_code: "fst (PlasmaField_init_plasma_palette \<rho> ! 128) = 125"
proof -
  have "0 \<le> rainbow_value 256 0 128 + float_error \<rho> 0 128"
    using red_128_value(1) float_error_bounds(1) [of \<rho> 0 128] by linarith
  moreover have "\<lfloor>rainbow_value 256 0 128 + float_error \<rho> 0 128\<rfloor> = 125"
    using red_128_value float_error_bounds [of \<rho> 0 128] by (intro floor_unique) simp_all
  ultimately have "py_int (rainbow_value 256 0 128 + float_error \<rho> 0 128) = 125"
    by (simp add: py_int_def)
  then show ?thesis
    by (simp add: PlasmaField_init_plasma_palette_def nth_palette_fill rainbow_rgb clamp255_def)
qed

text \<open>
  At the last index the angle is \<open>2\<pi>\<close> and the exact red value is the integer \<open>127\<close>:
  the palette holds \<open>126\<close> when the float falls below it, as it does with a float sine
  of \<open>2\<pi>\<close> that is slightly negative, and \<open>127\<close> otherwise.
\<close>

lemma red_last_code:
  "fst (PlasmaEffect_init_palette \<rho> ! 63) = (if float_error \<rho> 0 63 < 0 then 126 else 127)"
  "fst (SimpleEffect_init_palette \<rho> ! 63) = (if float_error \<rho> 0 63 < 0 then 126 else 127)"
  "fst (PlasmaField_init_plasma_palette \<rho> ! 255)
     = (if float_error \<rho> 0 255 < 0 then 126 else 127)"
proof -
  have t: "py_int (127 + e) = (if e < 0 then 126 else 127)"
    if "- (1 / 100) \<le> e" "e \<le> 1 / 100" for e :: real
  proof (cases "e < 0")
    case True
    then have "\<lfloor>127 + e\<rfloor> = 126" using that by (intro floor_unique) simp_all
    then show ?thesis using True that by (simp add: py_int_def)
  next
    case False
    then have "\<lfloor>127 + e\<rfloor> = 127" using that by (intro floor_unique) simp_all
    then show ?thesis using False that by (simp add: py_int_def)
  qed
  show "fst (PlasmaEffect_init_palette \<rho> ! 63) = (if float_error \<rho> 0 63 < 0 then 126 else 127)"
    using t [OF float_error_bounds, of \<rho> 0 63]
    by (simp add: PlasmaEffect_init_palette_def nth_palette_fill PlasmaEffect_rgb_def Let_def)
  show "fst (SimpleEffect_init_palette \<rho> ! 63) = (if float_error \<rho> 0 63 < 0 then 126 else 127)"
    using t [OF float_error_bounds, of \<rho> 0 63]
    by (simp add: SimpleEffect_init_palette_def nth_palette_fill SimpleEffect_rgb_def Let_def)
  show "fst (PlasmaField_init_plasma_palette \<rho> ! 255)
     = (if float_error \<rho> 0 255 < 0 then 126 else 127)"
    using t [OF float_error_bounds, of \<rho> 0 255]
    by (simp add: PlasmaField_init_plasma_palette_def nth_palette_fill PlasmaField_rgb_def
        Let_def clamp255_def)
qed

text \<open>
  Claim C9, as stated, at index \<open>128\<close> of the framework's 256-colour rainbow palette:
  the specification's angle \<open>(128 / 256) \<cdot> 2\<pi> = \<pi>\<close> gives the red channel
  \<open>round(127 + 127 \<cdot> sin(\<pi>)) = 127\<close>; the code's angle is \<open>(128 / 255) \<cdot> 2\<pi>\<close>, where
  \<open>127 + 127 \<cdot> sin(angle)\<close> is about \<open>125.44\<close>, and \<open>int\<close> truncates it to \<open>125\<close>.  The
  value is so far from the integers that the palette holds \<open>125\<close> at every rounding
  (\<open>red_128_code\<close>); the statement is made at exact evaluation.
\<close>

theorem C9_counterexample:
  "PlasmaField_init_plasma_palette no_rounding ! 128 \<noteq> rainbow_spec 256 128"
proof -
  have "fst (PlasmaField_init_plasma_palette no_rounding ! 128) = 125"
    by (rule red_128_code)
  moreover have "fst (rainbow_spec 256 128) = 127"
    by (simp add: rainbow_spec_def Let_def clamp255_def)
  ultimately show ?thesis by auto
qed

text \<open>
  Claim C9, amended: in the rainbow palettes of \<open>PlasmaEffect\<close> and \<open>SimpleEffect\<close>
  (\<open>N = 64\<close>) and of \<open>PlasmaField\<close> (\<open>N = 256\<close>), at every index \<open>i\<close> in \<open>[0, N - 1]\<close>
  and for each channel, with \<open>v = 127 + 127 \<cdot> sin(angle)\<close> at the channel angle
  \<open>(i / (N - 1)) \<cdot> 2\<pi>\<close> plus the phase shift \<open>0\<close>, \<open>2.094\<close> or \<open>4.188\<close>, the channel is the
  truncation towards zero of a float that approximates \<open>v\<close>: at every rounding of that
  float within the tolerance \<open>1/100\<close>, the channel is an integer of \<open>[0, 255]\<close> between
  \<open>v - 1 - 1/100\<close> and \<open>v + 1/100\<close>, and it is \<open>\<lfloor>v\<rfloor>\<close> wherever the fractional part of
  \<open>v\<close> lies in \<open>[1/100, 99/100)\<close>.
\<close>

theorem C9_rainbow_palettes:
  "(\<forall>i < 64. rainbow_entry 64 (int i) (PlasmaEffect_init_palette \<rho> ! i)
             \<and> rainbow_entry 64 (int i) (SimpleEffect_init_palette \<rho> ! i))
   \<and> (\<forall>i < 256. rainbow_entry 256 (int i) (PlasmaField_init_plasma_palette \<rho> ! i))"
  by (simp add: PlasmaEffect_init_palette_def SimpleEffect_init_palette_def
      PlasmaField_init_plasma_palette_def nth_palette_fill rainbow_rgb rainbow_entry_def
      rainbow_channel rainbow_channel_clamped)

theorem C9_witness:
  "(128 :: nat) < 256
   \<and> float_tolerance \<le> frac (rainbow_value 256 0 128)
   \<and> frac (rainbow_value 256 0 128) < 1 - float_tolerance
   \<and> \<lfloor>rainbow_value 256 0 128\<rfloor> = 125
   \<and> fst (PlasmaField_init_plasma_palette no_rounding ! 128) = 125"
proof -
  have "(128 :: nat) < 256
      \<longrightarrow> rainbow_entry 256 (int 128) (PlasmaField_init_plasma_palette no_rounding ! 128)"
    using C9_rainbow_palettes [of no_rounding] by blast
  then have "truncated_float (rainbow_value 256 0 128)
      (fst (PlasmaField_init_plasma_palette no_rounding ! 128))"
    by (simp add: rainbow_entry_def split: prod.splits)
  then have "fst (PlasmaField_init_plasma_palette no_rounding ! 128)
      = \<lfloor>rainbow_value 256 0 128\<rfloor>"
    using red_128_frac(2,3) by (simp add: truncated_float_def)
  then show ?thesis using red_128_frac by simp
qed

subsection \<open>Fire simulation\<close>

lemma fold_grow:
  assumes "\<And>a S s. a \<in> set xs \<Longrightarrow> Q S s \<Longrightarrow> Q (S \<union> K a) (f a s)" and "Q S s"
  shows "Q (S \<union> (\<Union>a \<in> set xs. K a)) (fold f xs s)"
  using assms
proof (induction xs arbitrary: S s)
  case Nil
  then show ?case by simp
next
  case (Cons a xs)
  have 1: "Q (S \<union> K a) (f a s)" using Cons.prems by simp
  have "Q ((S \<union> K a) \<union> (\<Union>a \<in> set xs. K a)) (fold f xs (f a s))"
    by (rule Cons.IH [OF _ 1]) (simp add: Cons.prems(1))
  then show ?case by (simp add: Un_assoc)
qed

lemma grid_shape_set: "grid_shape buf \<Longrightarrow> grid_shape (grid_set buf y x v)"
proof (cases "y < length buf")
  case True
  assume s: "grid_shape buf"
  then have "length ((buf ! y)[x := v]) = fire_width"
    using True by (simp add: grid_shape_def)
  moreover have "set (buf[y := (buf ! y)[x := v]]) \<subseteq> insert ((buf ! y)[x := v]) (set buf)"
    by (rule set_update_subset_insert)
  ultimately show ?thesis using s unfolding grid_shape_def grid_set_def by auto
next
  case False
  then have "buf[y := (buf ! y)[x := v]] = buf" by (intro list_update_beyond) simp
  then show "grid_shape buf \<Longrightarrow> grid_shape (grid_set buf y x v)"
    by (simp add: grid_set_def)
qed

lemma grid_get_set:
  assumes "grid_shape buf" "y < fire_height" "x < fire_width"
  shows "grid_get (grid_set buf y x v) y' x' = (if y' = y \<and> x' = x then v else grid_get buf y' x')"
  using assms unfolding grid_shape_def grid_set_def grid_get_def
  by (auto simp: nth_list_update)

lemma heat_in_write:
  assumes "heat_in lo hi S (buf, g)" "lo \<le> v" "v \<le> hi" "y < fire_height" "x < fire_width"
  shows "heat_in lo hi (S \<union> {(y, x)}) (grid_set buf y x v, g')"
  using assms unfolding heat_in_def
  by (auto simp: grid_shape_set grid_get_set)

lemma fire_cell_write:
  "\<exists>v g'. fire_cell y x (buf, g) = (grid_set buf y x v, g') \<and> 0 \<le> v \<and> v \<le> 31"
  by (auto simp: Let_def split: prod.splits)

lemma randint_bounds:
  assumes "a \<le> b" shows "a \<le> fst (randint a b g) \<and> fst (randint a b g) \<le> b"
proof -
  define u where "u = frac (g 0)"
  define m where "m = b - a + 1"
  have u: "0 \<le> u" "u < 1" by (simp_all add: u_def frac_lt_1)
  have n: "0 < (of_int m :: real)" using assms by (simp add: m_def)
  have 1: "0 \<le> u * of_int m" using u n by simp
  have "u * of_int m < 1 * of_int m"
    using u n by (intro mult_strict_right_mono) simp_all
  then have "\<lfloor>u * of_int m\<rfloor> < m" by (simp add: floor_less_iff)
  moreover have "0 \<le> \<lfloor>u * of_int m\<rfloor>" using 1 by simp
  moreover have "fst (randint a b g) = a + \<lfloor>u * of_int m\<rfloor>"
    by (simp add: randint_def rng_random_def u_def m_def Let_def)
  ultimately show ?thesis by (simp add: m_def)
qed

lemma fire_source_cell_write:
  "\<exists>v g'. fire_source_cell x (buf, g) = (grid_set buf (fire_height - 1) x v, g') \<and> 20 \<le> v \<and> v \<le> 31"
  by (auto simp: Let_def split: prod.splits)

lemma fire_cell_heat:
  assumes "heat_in lo hi S bg" "lo \<le> 0" "31 \<le> hi" "y < fire_height" "x < fire_width"
  shows "heat_in lo hi (S \<union> {(y, x)}) (fire_cell y x bg)"
proof -
  obtain buf g where bg: "bg = (buf, g)" by fastforce
  from fire_cell_write [of y x buf g] obtain v g' where
    "fire_cell y x (buf, g) = (grid_set buf y x v, g')" "0 \<le> v" "v \<le> 31" by blast
  then show ?thesis
    using heat_in_write [of lo hi S buf g v y x g'] assms by (simp add: bg)
qed

lemma fire_source_cell_heat:
  assumes "heat_in lo hi S bg" "lo \<le> 20" "31 \<le> hi" "x < fire_width"
  shows "heat_in lo hi (S \<union> {(fire_height - 1, x)}) (fire_source_cell x bg)"
proof -
  obtain buf g where bg: "bg = (buf, g)" by fastforce
  from fire_source_cell_write [of x buf g] obtain v g' where
    "fire_source_cell x (buf, g) = (grid_set buf (fire_height - 1) x v, g')" "20 \<le> v" "v \<le> 31"
    by blast
  then show ?thesis
    using heat_in_write [of lo hi S buf g v "fire_height - 1" x g'] assms
    by (simp add: bg fire_height_def)
qed

lemma fire_row_heat:
  assumes "heat_in lo hi S bg" "lo \<le> 0" "31 \<le> hi" "y < fire_height"
  shows "heat_in lo hi (S \<union> {y} \<times> {0..<fire_width}) (fold (fire_cell y) [0..<fire_width] bg)"
proof -
  have "heat_in lo hi (S \<union> (\<Union>x \<in> set [0..<fire_width]. {(y, x)}))
          (fold (fire_cell y) [0..<fire_width] bg)"
    by (rule fold_grow [where Q = "heat_in lo hi" and K = "\<lambda>x. {(y, x)}"], intro fire_cell_heat)
       (use assms in simp_all)
  moreover have "(\<Union>x \<in> set [0..<fire_width]. {(y, x)}) = {y} \<times> {0..<fire_width}" by auto
  ultimately show ?thesis by simp
qed

lemma fire_rows_heat:
  assumes "heat_in lo hi S bg" "lo \<le> 0" "31 \<le> hi"
  shows "heat_in lo hi (S \<union> {0..<fire_height - 1} \<times> {0..<fire_width})
           (fold (\<lambda>y. fold (fire_cell y) [0..<fire_width]) (rev [0..<fire_height - 1]) bg)"
proof -
  have "heat_in lo hi (S \<union> (\<Union>y \<in> set (rev [0..<fire_height - 1]). {y} \<times> {0..<fire_width}))
          (fold (\<lambda>y. fold (fire_cell y) [0..<fire_width]) (rev [0..<fire_height - 1]) bg)"
    by (rule fold_grow [where Q = "heat_in lo hi" and K = "\<lambda>y. {y} \<times> {0..<fire_width}"],
        intro fire_row_heat)
       (use assms in simp_all)
  moreover have "(\<Union>y \<in> set (rev [0..<fire_height - 1]). {y} \<times> {0..<fire_width})
      = {0..<fire_height - 1} \<times> {0..<fire_width}" by auto
  ultimately show ?thesis by simp
qed

lemma fire_source_heat:
  assumes "heat_in lo hi S bg" "lo \<le> 20" "31 \<le> hi"
  shows "heat_in lo hi (S \<union> {fire_height - 1} \<times> {0..<fire_width})
           (fold fire_source_cell [0..<fire_width] bg)"
proof -
  have "heat_in lo hi (S \<union> (\<Union>x \<in> set [0..<fire_width]. {(fire_height - 1, x)}))
          (fold fire_source_cell [0..<fire_width] bg)"
    by (rule fold_grow [where Q = "heat_in lo hi" and K = "\<lambda>x. {(fire_height - 1, x)}"],
        intro fire_source_cell_heat)
       (use assms in simp_all)
  moreover have "(\<Union>x \<in> set [0..<fire_width]. {(fire_height - 1, x)})
      = {fire_height - 1} \<times> {0..<fire_width}" by auto
  ultimately show ?thesis by simp
qed

lemma update_fire_simulation_heat:
  assumes "grid_shape (fst bg)"
  shows "heat_in 0 31 ({0..<fire_height} \<times> {0..<fire_width}) (update_fire_simulation bg)
       \<and> heat_in 20 31 ({fire_height - 1} \<times> {0..<fire_width}) (update_fire_simulation bg)"
proof -
  let ?mid = "fold (\<lambda>y. fold (fire_cell y) [0..<fire_width]) (rev [0..<fire_height - 1]) bg"
  have 0: "heat_in 0 31 {} bg" using assms by (simp add: heat_in_def)
  have 1: "heat_in 0 31 ({} \<union> {0..<fire_height - 1} \<times> {0..<fire_width}) ?mid"
    by (rule fire_rows_heat [OF 0]) simp_all
  have 2: "heat_in 0 31 (({} \<union> {0..<fire_height - 1} \<times> {0..<fire_width})
              \<union> {fire_height - 1} \<times> {0..<fire_width}) (update_fire_simulation bg)"
    unfolding update_fire_simulation_def by (rule fire_source_heat [OF 1]) simp_all
  have "({} \<union> {0..<fire_height - 1} \<times> {0..<fire_width}) \<union> {fire_height - 1} \<times> {0..<fire_width}
      = {0..<fire_height} \<times> {0..<fire_width}"
    by (auto simp: fire_height_def)
  with 2 have a: "heat_in 0 31 ({0..<fire_height} \<times> {0..<fire_width}) (update_fire_simulation bg)"
    by simp
  have "heat_in 20 31 {} ?mid" using 1 by (simp add: heat_in_def)
  then have "heat_in 20 31 ({} \<union> {fire_height - 1} \<times> {0..<fire_width}) (update_fire_simulation bg)"
    unfolding update_fire_simulation_def by (rule fire_source_heat) simp_all
  with a show ?thesis by simp
qed

lemma fire_ticks_shape: "grid_shape (fst bg) \<Longrightarrow> grid_shape (fst (fire_ticks n bg))"
proof (induction n)
  case 0
  then show ?case by simp
next
  case (Suc n)
  then show ?case using update_fire_simulation_heat [of "fire_ticks n bg"]
    by (simp add: heat_in_def)
qed

lemma FireEffect_update_buffer:
  "FireEffect_update s g = Inr (s', g')
     \<Longrightarrow> (fi_fire_buffer s', g') = update_fire_simulation (fi_fire_buffer s, g)"
  by (auto simp: FireEffect_update_def then_do_def Let_def split: prod.splits sum.splits)

text \<open>
  Claim C7: from a heat grid of the constructed shape, after any positive number of
  runs of \<open>_update_fire_simulation\<close>, with any draws of the random source, every cell of
  the bottom source row holds heat between the floor \<open>20\<close> and \<open>31\<close>, and every cell
  of the grid holds heat between \<open>0\<close> and \<open>31\<close>, the largest index of the palette.
\<close>

theorem C7_fire_heat_bounds:
  assumes "grid_shape buf" and "0 < n"
  shows "let buf' = fst (fire_ticks n (buf, g)) in
           grid_shape buf'
         \<and> (\<forall>x < fire_width. 20 \<le> grid_get buf' (fire_height - 1) x
                              \<and> grid_get buf' (fire_height - 1) x \<le> 31)
         \<and> (\<forall>y < fire_height. \<forall>x < fire_width. 0 \<le> grid_get buf' y x \<and> grid_get buf' y x \<le> 31)"
proof -
  from assms(2) obtain m where n: "n = Suc m" by (cases n) simp_all
  have "grid_shape (fst (fire_ticks m (buf, g)))" using assms(1) by (simp add: fire_ticks_shape)
  from update_fire_simulation_heat [OF this] show ?thesis
    by (auto simp: n heat_in_def Let_def)
qed

theorem C7_witness:
  "grid_shape (fi_fire_buffer FireEffect_new) \<and> (0 :: nat) < 3
   \<and> 20 \<le> grid_get (fst (fire_ticks 3 (fi_fire_buffer FireEffect_new, zero_rng))) (fire_height - 1) 0
   \<and> grid_get (fst (fire_ticks 3 (fi_fire_buffer FireEffect_new, zero_rng))) 0 0 \<le> 31"
proof -
  have s0: "grid_shape (replicate fire_height (replicate fire_width 0))"
    by (simp add: grid_shape_def)
  have "\<And>k buf. grid_shape buf \<Longrightarrow> grid_shape (fold (\<lambda>x buf. grid_set buf (fire_height - 1) x 31) [0..<k] buf)"
  proof -
    fix k buf show "grid_shape buf \<Longrightarrow> grid_shape (fold (\<lambda>x buf. grid_set buf (fire_height - 1) x 31) [0..<k] buf)"
      by (induction k) (simp_all add: grid_shape_set)
  qed
  then have src: "\<And>buf. grid_shape buf \<Longrightarrow> grid_shape (init_fire_source buf)"
    by (simp add: init_fire_source_def)
  have 1: "grid_shape (fi_fire_buffer FireEffect_new)"
    by (simp add: FireEffect_new_def FireEffect_reset_def Let_def src s0)
  have 2: "(0 :: nat) < 3" by simp
  have 3: "0 < fire_width" "0 < fire_height" by (simp_all add: fire_width_def fire_height_def)
  from C7_fire_heat_bounds [OF 1 2, of zero_rng] 1 3 show ?thesis by (simp add: Let_def)
qed

subsection \<open>Palette indices written by the generators\<close>

lemma in_py_range [simp]: "x \<in> set (py_range n) \<longleftrightarrow> 0 \<le> x \<and> x < n"
  by (auto simp: py_range_def)

lemma in_py_range_step2: "x \<in> set (py_range_step2 a b) \<Longrightarrow> a \<le> x \<and> x < b"
proof -
  assume "x \<in> set (py_range_step2 a b)"
  then obtain k where k: "x = a + 2 * k" "0 \<le> k" "k \<le> (b - a - 1) div 2"
    by (auto simp: py_range_step2_def)
  then have "2 * k \<le> b - a - 1" by linarith
  with k show ?thesis by simp
qed

lemma bitmap_set_ok:
  assumes "bitmap_ok w h n b" "0 \<le> x" "x < w" "0 \<le> y" "y < h" "0 \<le> v" "v < n"
  shows "\<exists>b'. bitmap_set b x y v = Inr b' \<and> bitmap_ok w h n b'"
  using assms by (auto simp: bitmap_set_def bitmap_ok_def)

lemma Bitmap_ok: "0 < n \<Longrightarrow> bitmap_ok w h n (Bitmap w h n)"
  by (simp add: bitmap_ok_def Bitmap_def)

lemma row_ok:
  assumes "bitmap_ok w h n b" "0 \<le> y" "y < h"
    and "\<And>x. 0 \<le> x \<Longrightarrow> x < w \<Longrightarrow> 0 \<le> f x \<and> f x < n"
  shows "\<exists>b'. for_each (py_range w) (\<lambda>x b. bitmap_set b x y (f x)) b = Inr b' \<and> bitmap_ok w h n b'"
  by (rule for_each_inv [where I = "bitmap_ok w h n", OF assms(1)])
     (use assms in \<open>simp add: bitmap_set_ok\<close>)

lemma paint_ok:
  assumes "bitmap_ok w h n b"
    and "\<And>x y. 0 \<le> x \<Longrightarrow> x < w \<Longrightarrow> 0 \<le> y \<Longrightarrow> y < h \<Longrightarrow> 0 \<le> f x y \<and> f x y < n"
  shows "\<exists>b'. for_each (py_range h) (\<lambda>y. for_each (py_range w) (\<lambda>x b. bitmap_set b x y (f x y))) b
            = Inr b' \<and> bitmap_ok w h n b'"
  by (rule for_each_inv [where I = "bitmap_ok w h n", OF assms(1)])
     (use assms(2) in \<open>simp add: row_ok\<close>)

lemma PlasmaEffect_color_idx_range:
  "0 \<le> PlasmaEffect_color_idx t x y \<and> PlasmaEffect_color_idx t x y < 64"
  by (simp add: PlasmaEffect_color_idx_def Let_def)

lemma SpiralEffect_color_idx_range:
  "0 \<le> SpiralEffect_color_idx t rot x y \<and> SpiralEffect_color_idx t rot x y < 32"
  by (simp add: SpiralEffect_color_idx_def Let_def)

lemma SineWaveEffect_color_index_range:
  "0 \<le> SineWaveEffect_color_index sources t shift x y
   \<and> SineWaveEffect_color_index sources t shift x y < 64"
  by (simp add: SineWaveEffect_color_index_def Let_def)

lemma PlasmaField_color_index_range:
  "0 \<le> PlasmaField_color_index s t x y \<and> PlasmaField_color_index s t x y < 256"
  by (simp add: PlasmaField_color_index_def Let_def)

lemma Kaleidoscope_color_index_range:
  "0 \<le> Kaleidoscope_color_index s t shift x y \<and> Kaleidoscope_color_index s t shift x y < 256"
  by (simp add: Kaleidoscope_color_index_def Let_def)

lemma fmod_index_range:
  assumes "0 < n"
  shows "1 \<le> py_int (py_fmod v (of_int n)) + 1 \<and> py_int (py_fmod v (of_int n)) + 1 < n + 1"
proof -
  have r: "0 \<le> py_fmod v (of_int n)" "py_fmod v (of_int n) < of_int n"
    using py_fmod_range [of "of_int n" v] assms by simp_all
  then show ?thesis using py_int_nonneg [OF r(1)] py_int_less [OF r] by simp
qed

lemma JuliaFractalEffect_color_index_range:
  "0 \<le> JuliaFractalEffect_color_index s it \<and> JuliaFractalEffect_color_index s it < 64"
  using fmod_index_range [of 63 "of_int it + ju_color_offset s"]
  by (simp add: JuliaFractalEffect_color_index_def)

lemma Mandelbrot_color_index_range:
  "0 \<le> Mandelbrot_color_index s it \<and> Mandelbrot_color_index s it < 256"
  using fmod_index_range [of 255 "of_int it + md_color_offset s"]
  by (simp add: Mandelbrot_color_index_def)

lemma PlasmaEffect_update_ok:
  assumes "effect_ok (EPlasma s)"
  shows "\<exists>s'. PlasmaEffect_update s = Inr s' \<and> effect_ok (EPlasma s')"
proof -
  from paint_ok [of "width div 2" "height div 2" 64 "pl_bitmap s"
      "PlasmaEffect_color_idx (pl_time s + 0.1)"] assms
  obtain b where "for_each (py_range (height div 2)) (\<lambda>y.
           for_each (py_range (width div 2)) (\<lambda>x b.
             bitmap_set b x y (PlasmaEffect_color_idx (pl_time s + 0.1) x y))) (pl_bitmap s) = Inr b"
    "bitmap_ok (width div 2) (height div 2) 64 b"
    using PlasmaEffect_color_idx_range by auto
  then show ?thesis by (simp add: PlasmaEffect_update_def then_do_def Let_def)
qed

lemma SpiralEffect_update_ok:
  assumes "effect_ok (ESpiral s)"
  shows "\<exists>s'. SpiralEffect_update s = Inr s' \<and> effect_ok (ESpiral s')"
proof -
  from paint_ok [of "width div 2" "height div 2" 32 "sp_bitmap s"
      "SpiralEffect_color_idx (sp_time s + 0.08) (sp_rotation s + 0.05)"] assms
  obtain b where "for_each (py_range (height div 2)) (\<lambda>y.
           for_each (py_range (width div 2)) (\<lambda>x b.
             bitmap_set b x y (SpiralEffect_color_idx (sp_time s + 0.08) (sp_rotation s + 0.05) x y)))
           (sp_bitmap s) = Inr b"
    "bitmap_ok (width div 2) (height div 2) 32 b"
    using SpiralEffect_color_idx_range by auto
  then show ?thesis by (simp add: SpiralEffect_update_def then_do_def Let_def)
qed

lemma SineWaveEffect_update_ok:
  assumes "effect_ok (ESineWave s)"
  shows "\<exists>s'. SineWaveEffect_update s = Inr s' \<and> effect_ok (ESineWave s')"
proof -
  define t where "t = sw_time s + 0.08"
  define shift where "shift = sw_color_shift s + 0.5"
  define sources where "sources = map (move_wave_source t) (enumerate 0 (sw_wave_sources s))"
  from paint_ok [of "width div 2" "height div 2" 64 "sw_bitmap s"
      "SineWaveEffect_color_index sources t shift"] assms
  obtain b where "for_each (py_range (height div 2)) (\<lambda>y.
           for_each (py_range (width div 2)) (\<lambda>x b.
             bitmap_set b x y (SineWaveEffect_color_index sources t shift x y)))
           (sw_bitmap s) = Inr b"
    "bitmap_ok (width div 2) (height div 2) 64 b"
    using SineWaveEffect_color_index_range by auto
  then show ?thesis
    by (simp add: SineWaveEffect_update_def then_do_def Let_def t_def shift_def sources_def)
qed

lemma PlasmaField_update_ok:
  assumes "effect_ok (EPlasmaField s)"
  shows "\<exists>s'. PlasmaField_update s = Inr s' \<and> effect_ok (EPlasmaField s')"
proof -
  from paint_ok [of "pf_width s" "pf_height s" 256 "pf_bitmap s"
      "PlasmaField_color_index s (pf_time s + plasma_speed)"] assms
  obtain b where "for_each (py_range (pf_height s)) (\<lambda>y.
           for_each (py_range (pf_width s)) (\<lambda>x b.
             bitmap_set b x y (PlasmaField_color_index s (pf_time s + plasma_speed) x y)))
           (pf_bitmap s) = Inr b"
    "bitmap_ok (pf_width s) (pf_height s) 256 b"
    using PlasmaField_color_index_range by auto
  then show ?thesis by (simp add: PlasmaField_update_def then_do_def Let_def)
qed

lemma Kaleidoscope_update_ok:
  assumes "effect_ok (EKaleidoscope s)"
  shows "\<exists>s'. Kaleidoscope_update s = Inr s' \<and> effect_ok (EKaleidoscope s')"
proof -
  from paint_ok [of "ka_width s" "ka_height s" 256 "ka_bitmap s"
      "Kaleidoscope_color_index s (ka_time s + rotation_speed) (ka_color_shift s + 0.5)"] assms
  obtain b where "for_each (py_range (ka_height s)) (\<lambda>y.
           for_each (py_range (ka_width s)) (\<lambda>x b.
             bitmap_set b x y
               (Kaleidoscope_color_index s (ka_time s + rotation_speed) (ka_color_shift s + 0.5) x y)))
           (ka_bitmap s) = Inr b"
    "bitmap_ok (ka_width s) (ka_height s) 256 b"
    using Kaleidoscope_color_index_range by auto
  then show ?thesis by (simp add: Kaleidoscope_update_def then_do_def Let_def)
qed

lemma clear_ok:
  assumes "bitmap_ok w h n b" "0 < n"
  shows "\<exists>b'. for_each (py_range h) (\<lambda>y. for_each (py_range w) (\<lambda>x b. bitmap_set b x y 0)) b
            = Inr b' \<and> bitmap_ok w h n b'"
  using paint_ok [of w h n b "\<lambda>x y. 0"] assms by simp

lemma fill_block_ok:
  assumes "bitmap_ok w h n b" "0 \<le> x" "x < w" "0 \<le> y" "y < h" "0 \<le> v" "v < n"
  shows "\<exists>b'. fill_block w h x y v b = Inr b' \<and> bitmap_ok w h n b'"
proof -
  from bitmap_set_ok [OF assms] obtain b1 where
    1: "bitmap_set b x y v = Inr b1" "bitmap_ok w h n b1" by blast
  have "\<exists>b2. (if x + 1 < w then bitmap_set b1 (x + 1) y v else Inr b1) = Inr b2 \<and> bitmap_ok w h n b2"
    using bitmap_set_ok [OF 1(2), of "x + 1" y v] assms 1(2) by auto
  then obtain b2 where
    2: "(if x + 1 < w then bitmap_set b1 (x + 1) y v else Inr b1) = Inr b2" "bitmap_ok w h n b2"
    by blast
  have "\<exists>b4. (if y + 1 < h then
         then_do (bitmap_set b2 x (y + 1) v) (\<lambda>b.
           if x + 1 < w then bitmap_set b (x + 1) (y + 1) v else Inr b)
       else Inr b2) = Inr b4 \<and> bitmap_ok w h n b4"
  proof (cases "y + 1 < h")
    case True
    from bitmap_set_ok [OF 2(2), of x "y + 1" v] assms True obtain b3 where
      3: "bitmap_set b2 x (y + 1) v = Inr b3" "bitmap_ok w h n b3" by auto
    have "\<exists>b4. (if x + 1 < w then bitmap_set b3 (x + 1) (y + 1) v else Inr b3) = Inr b4
            \<and> bitmap_ok w h n b4"
      using bitmap_set_ok [OF 3(2), of "x + 1" "y + 1" v] assms True 3(2) by auto
    then show ?thesis using True 3 by (simp add: then_do_def)
  next
    case False
    then show ?thesis using 2 by simp
  qed
  then show ?thesis using 1 2 by (simp add: fill_block_def then_do_def)
qed

lemma blocks_ok:
  assumes "bitmap_ok w h n b"
    and "\<And>x y b. 0 \<le> x \<Longrightarrow> x < w \<Longrightarrow> 0 \<le> y \<Longrightarrow> y < h \<Longrightarrow> bitmap_ok w h n b
          \<Longrightarrow> \<exists>b'. pixel x y b = Inr b' \<and> bitmap_ok w h n b'"
  shows "\<exists>b'. for_each (py_range_step2 0 h) (\<lambda>y. for_each (py_range_step2 0 w) (\<lambda>x. pixel x y)) b
            = Inr b' \<and> bitmap_ok w h n b'"
proof (rule for_each_inv [where I = "bitmap_ok w h n", OF assms(1)])
  fix y b assume y: "y \<in> set (py_range_step2 0 h)" and b: "bitmap_ok w h n b"
  show "\<exists>b'. for_each (py_range_step2 0 w) (\<lambda>x. pixel x y) b = Inr b' \<and> bitmap_ok w h n b'"
  proof (rule for_each_inv [where I = "bitmap_ok w h n", OF b])
    fix x b assume "x \<in> set (py_range_step2 0 w)" "bitmap_ok w h n b"
    then show "\<exists>b'. pixel x y b = Inr b' \<and> bitmap_ok w h n b'"
      using in_py_range_step2 [of x 0 w] in_py_range_step2 [OF y] assms(2) by simp
  qed
qed

lemma JuliaFractalEffect_update_ok:
  assumes "effect_ok (EJulia s)"
  shows "\<exists>s'. JuliaFractalEffect_update s = Inr s' \<and> effect_ok (EJulia s')"
proof -
  define s1 where "s1 = JuliaFractalEffect_animate s"
  have z: "ju_zoom s1 \<noteq> 0" using julia_zoom_bounds [of s] by (simp add: s1_def)
  have b: "bitmap_ok (width div 2) (height div 2) 64 (ju_bitmap s1)"
    using assms by (simp add: s1_def JuliaFractalEffect_animate_def Let_def)
  have "\<exists>b'. for_each (py_range_step2 0 (height div 2)) (\<lambda>y.
           for_each (py_range_step2 0 (width div 2)) (\<lambda>x. JuliaFractalEffect_pixel s1 x y))
           (ju_bitmap s1) = Inr b' \<and> bitmap_ok (width div 2) (height div 2) 64 b'"
  proof (rule blocks_ok [OF b])
    fix x y b
    assume "0 \<le> x" "x < width div 2" "0 \<le> y" "y < height div 2"
      "bitmap_ok (width div 2) (height div 2) 64 b"
    then show "\<exists>b'. JuliaFractalEffect_pixel s1 x y b = Inr b'
        \<and> bitmap_ok (width div 2) (height div 2) 64 b'"
      using z JuliaFractalEffect_color_index_range
      by (auto simp: JuliaFractalEffect_pixel_def julia_iteration_def then_do_def Let_def
          split: prod.splits intro!: fill_block_ok)
  qed
  then show ?thesis
    by (auto simp: JuliaFractalEffect_update_def then_do_def Let_def s1_def [symmetric])
qed

lemma Mandelbrot_animate_zoom:
  "0 < md_zoom s \<Longrightarrow> 0 < md_zoom (Mandelbrot_animate s)"
  by (simp add: Mandelbrot_animate_def Let_def zoom_speed_def)

lemma Mandelbrot_animate_shape:
  "md_width (Mandelbrot_animate s) = md_width s \<and> md_height (Mandelbrot_animate s) = md_height s
   \<and> md_bitmap (Mandelbrot_animate s) = md_bitmap s"
  by (simp add: Mandelbrot_animate_def Let_def)

lemma Mandelbrot_update_ok:
  assumes "effect_ok (EMandelbrot s)"
  shows "\<exists>s'. Mandelbrot_update s = Inr s' \<and> effect_ok (EMandelbrot s')"
proof -
  define s1 where "s1 = Mandelbrot_animate s"
  have z: "0 < md_zoom s1" using assms Mandelbrot_animate_zoom by (simp add: s1_def)
  have b: "bitmap_ok (md_width s1) (md_height s1) 256 (md_bitmap s1)"
    using assms Mandelbrot_animate_shape [of s] by (simp add: s1_def)
  have "\<exists>b'. for_each (py_range_step2 0 (md_height s1)) (\<lambda>y.
           for_each (py_range_step2 0 (md_width s1)) (\<lambda>x. Mandelbrot_pixel s1 x y))
           (md_bitmap s1) = Inr b' \<and> bitmap_ok (md_width s1) (md_height s1) 256 b'"
  proof (rule blocks_ok [OF b])
    fix x y b
    assume "0 \<le> x" "x < md_width s1" "0 \<le> y" "y < md_height s1"
      "bitmap_ok (md_width s1) (md_height s1) 256 b"
    then show "\<exists>b'. Mandelbrot_pixel s1 x y b = Inr b'
        \<and> bitmap_ok (md_width s1) (md_height s1) 256 b'"
      using z Mandelbrot_color_index_range
      by (auto simp: Mandelbrot_pixel_def screen_to_complex_def then_do_def Let_def
          intro!: fill_block_ok)
  qed
  then show ?thesis using z
    by (auto simp: Mandelbrot_update_def then_do_def Let_def s1_def [symmetric])
qed

lemma FireEffect_update_ok:
  assumes "effect_ok (EFire s)"
  shows "\<exists>s' g'. FireEffect_update s g = Inr (s', g') \<and> effect_ok (EFire s')"
proof -
  obtain buf g1 where u: "update_fire_simulation (fi_fire_buffer s, g) = (buf, g1)" by fastforce
  have sh: "grid_shape (fst (fi_fire_buffer s, g))" using assms by simp
  from update_fire_simulation_heat [OF sh] have
    h: "heat_in 0 31 ({0..<fire_height} \<times> {0..<fire_width}) (buf, g1)" by (simp add: u)
  have cell: "0 \<le> grid_get buf (nat y) (nat x) \<and> grid_get buf (nat y) (nat x) < 32"
    if "0 \<le> x" "x < int fire_width" "0 \<le> y" "y < int fire_height" for x y
  proof -
    have "nat y < fire_height" "nat x < fire_width" using that by auto
    with h have "0 \<le> grid_get buf (nat y) (nat x) \<and> grid_get buf (nat y) (nat x) \<le> 31"
      by (auto simp: heat_in_def)
    then show ?thesis by simp
  qed
  from paint_ok [of "int fire_width" "int fire_height" 32 "fi_bitmap s"
      "\<lambda>x y. grid_get buf (nat y) (nat x)"] assms cell
  obtain b where "for_each (py_range (int fire_height)) (\<lambda>y.
           for_each (py_range (int fire_width)) (\<lambda>x b.
             bitmap_set b x y (grid_get buf (nat y) (nat x)))) (fi_bitmap s) = Inr b"
    "bitmap_ok (int fire_width) (int fire_height) 32 b"
    by auto
  then show ?thesis using h
    by (simp add: FireEffect_update_def then_do_def Let_def u heat_in_def)
qed

lemma MatrixEffect_trail_ok:
  assumes "bitmap_ok columns rows 16 b" "0 \<le> col" "col < columns" "0 \<le> trail" "trail < 8"
  shows "\<exists>b'. MatrixEffect_trail col drop_y trail b = Inr b' \<and> bitmap_ok columns rows 16 b'"
proof (cases "0 \<le> drop_y - trail \<and> drop_y - trail < rows")
  case True
  have "0 \<le> (if trail = 0 then 15 else max 0 (15 - trail * 2))
      \<and> (if trail = 0 then 15 else max 0 (15 - trail * 2)) < 16"
    using assms(4) by auto
  then show ?thesis
    using True bitmap_set_ok [OF assms(1) assms(2,3), of "drop_y - trail"
        "if trail = 0 then 15 else max 0 (15 - trail * 2)"]
    by (simp add: MatrixEffect_trail_def Let_def)
next
  case False
  then show ?thesis using assms(1) by (auto simp: MatrixEffect_trail_def Let_def)
qed

lemma MatrixEffect_column_ok:
  assumes "effect_ok (EMatrix s)" "0 \<le> col" "col < columns"
  shows "\<exists>s' g'. MatrixEffect_column col (s, g) = Inr (s', g') \<and> effect_ok (EMatrix s')"
proof (cases "mx_drop_active s ! nat col")
  case True
  have b: "bitmap_ok columns rows 16 (mx_bitmap s)" using assms(1) by simp
  have "\<exists>b'. for_each (py_range 8) (MatrixEffect_trail col (py_int (mx_drop_positions s ! nat col)))
           (mx_bitmap s) = Inr b' \<and> bitmap_ok columns rows 16 b'"
    by (rule for_each_inv [where I = "bitmap_ok columns rows 16", OF b])
       (use assms in \<open>simp add: MatrixEffect_trail_ok\<close>)
  then obtain b' where
    "for_each (py_range 8) (MatrixEffect_trail col (py_int (mx_drop_positions s ! nat col)))
           (mx_bitmap s) = Inr b'" "bitmap_ok columns rows 16 b'" by blast
  then show ?thesis using True assms(1)
    by (auto simp: then_do_def Let_def split: prod.splits)
next
  case False
  then show ?thesis using assms(1)
    by (auto simp: Let_def split: prod.splits)
qed

lemma MatrixEffect_update_ok:
  assumes "effect_ok (EMatrix s)"
  shows "\<exists>s' g'. MatrixEffect_update s g = Inr (s', g') \<and> effect_ok (EMatrix s')"
proof -
  from clear_ok [of columns rows 16 "mx_bitmap s"] assms obtain b where
    c: "for_each (py_range rows) (\<lambda>y. for_each (py_range columns) (\<lambda>x b. bitmap_set b x y 0))
          (mx_bitmap s) = Inr b" "bitmap_ok columns rows 16 b" by auto
  define s1 where "s1 = s\<lparr>mx_time := mx_time s + 0.1, mx_bitmap := b\<rparr>"
  define I where "I = (\<lambda>(s :: MatrixEffect, g :: rng). effect_ok (EMatrix s))"
  have i: "I (s1, g)" using assms c(2) by (simp add: s1_def I_def)
  have "\<exists>sg'. for_each (py_range columns) MatrixEffect_column (s1, g) = Inr sg' \<and> I sg'"
  proof (rule for_each_inv [where I = I, OF i])
    fix col sg assume "col \<in> set (py_range columns)" "I sg"
    then show "\<exists>sg'. MatrixEffect_column col sg = Inr sg' \<and> I sg'"
      using MatrixEffect_column_ok [of "fst sg" col "snd sg"]
      by (cases sg) (auto simp: I_def simp del: MatrixEffect_column.simps)
  qed
  then show ?thesis using c(1)
    by (auto simp: MatrixEffect_update_def then_do_def Let_def s1_def [symmetric] I_def)
qed

lemma write_seq_ok:
  assumes "bitmap_ok w h n b" "\<forall>(x, y) \<in> set ps. 0 \<le> x \<and> x < w \<and> 0 \<le> y \<and> y < h"
    "0 \<le> v" "v < n"
  shows "\<exists>b'. write_seq b ps v = (b', None) \<and> bitmap_ok w h n b'"
  using assms
proof (induction ps arbitrary: b)
  case Nil
  then show ?case by simp
next
  case (Cons p ps)
  obtain x y where p: "p = (x, y)" by fastforce
  from bitmap_set_ok [OF Cons.prems(1), of x y v] Cons.prems p obtain b1 where
    1: "bitmap_set b x y v = Inr b1" "bitmap_ok w h n b1" by auto
  from Cons.IH [OF 1(2)] Cons.prems obtain b' where
    "write_seq b1 ps v = (b', None)" "bitmap_ok w h n b'" by auto
  then show ?case using 1 p by simp
qed

lemma star_writes_in:
  assumes "0 \<le> sx" "sx < width div 2" "0 \<le> sy" "sy < height div 2"
  shows "\<forall>(x, y) \<in> set (star_writes sx sy sf).
           0 \<le> x \<and> x < width div 2 \<and> 0 \<le> y \<and> y < height div 2"
  using assms by (auto simp: star_writes_def)

lemma star_draw_ok:
  assumes b: "bitmap_ok (width div 2) (height div 2) 16 (sf_bitmap s)"
  shows "\<exists>s' g'.
     (if sx < 0 \<or> sx \<ge> width div 2 \<or> sy < 0 \<or> sy \<ge> height div 2 \<or> z < 1 then
        case reset_star g of (st', g1) \<Rightarrow> Inr (s\<lparr>sf_stars := (sf_stars s)[i := st']\<rparr>, g1)
      else
        case write_seq (sf_bitmap s) (star_writes sx sy sf) (max 1 (min 15 br)) of
          (b, None) \<Rightarrow> Inr (s\<lparr>sf_stars := (sf_stars s)[i := st], sf_bitmap := b\<rparr>, g)
        | (b, Some IndexError) \<Rightarrow>
            (case reset_star g of (st', g1) \<Rightarrow>
               Inr (s\<lparr>sf_stars := (sf_stars s)[i := st'], sf_bitmap := b\<rparr>, g1))
        | (b, Some e) \<Rightarrow> Inl e) = Inr (s', g')
     \<and> effect_ok (EStarfield s')"
proof (cases "sx < 0 \<or> sx \<ge> width div 2 \<or> sy < 0 \<or> sy \<ge> height div 2 \<or> z < 1")
  case True
  then show ?thesis using b by (auto split: prod.splits)
next
  case False
  then have in_range: "0 \<le> sx" "sx < width div 2" "0 \<le> sy" "sy < height div 2" by auto
  have sw: "\<forall>(x, y) \<in> set (star_writes sx sy sf).
           0 \<le> x \<and> x < width div 2 \<and> 0 \<le> y \<and> y < height div 2"
    by (rule star_writes_in [OF in_range])
  have br: "0 \<le> max 1 (min 15 br)" "max 1 (min 15 br) < 16" by simp_all
  from write_seq_ok [OF b sw br] obtain b' where
    w: "write_seq (sf_bitmap s) (star_writes sx sy sf) (max 1 (min 15 br)) = (b', None)"
    "bitmap_ok (width div 2) (height div 2) 16 b'"
    by blast
  then show ?thesis using False by simp
qed

lemma StarfieldEffect_star_ok:
  assumes "effect_ok (EStarfield s)"
  shows "\<exists>s' g'. StarfieldEffect_star warp i (s, g) = Inr (s', g') \<and> effect_ok (EStarfield s')"
proof -
  have b: "bitmap_ok (width div 2) (height div 2) 16 (sf_bitmap s)" using assms by simp
  show ?thesis
    unfolding StarfieldEffect_star.simps Let_def by (rule star_draw_ok [OF b])
qed

lemma stars_loop_ok:
  assumes "effect_ok (EStarfield s)"
  shows "\<exists>s' g'. for_each ks (StarfieldEffect_star warp) (s, g) = Inr (s', g')
           \<and> effect_ok (EStarfield s')"
proof -
  define I where "I = (\<lambda>(s :: StarfieldEffect, g :: rng). effect_ok (EStarfield s))"
  have i: "I (s, g)" using assms by (simp add: I_def)
  have "\<exists>sg'. for_each ks (StarfieldEffect_star warp) (s, g) = Inr sg' \<and> I sg'"
  proof (rule for_each_inv [where I = I, OF i])
    fix k sg assume "I sg"
    then show "\<exists>sg'. StarfieldEffect_star warp k sg = Inr sg' \<and> I sg'"
      using StarfieldEffect_star_ok [of "fst sg" warp k "snd sg"]
      by (cases sg) (auto simp: I_def simp del: StarfieldEffect_star.simps)
  qed
  then show ?thesis by (auto simp: I_def)
qed

lemma StarfieldEffect_update_ok:
  assumes "effect_ok (EStarfield s)"
  shows "\<exists>s' g'. StarfieldEffect_update s g = Inr (s', g') \<and> effect_ok (EStarfield s')"
proof -
  from clear_ok [of "width div 2" "height div 2" 16 "sf_bitmap s"] assms obtain b where
    c: "for_each (py_range (height div 2)) (\<lambda>y. for_each (py_range (width div 2))
          (\<lambda>x b. bitmap_set b x y 0)) (sf_bitmap s) = Inr b"
      "bitmap_ok (width div 2) (height div 2) 16 b" by auto
  show ?thesis
    unfolding StarfieldEffect_update_def Let_def c(1) then_do_def sum.case
    by (rule stars_loop_ok) (simp add: c(2))
qed

lemma streamer_thick_ok:
  assumes b: "bitmap_ok (width div 2) (height div 2) 32 b" and c: "streamer_ok sr"
    and x: "0 \<le> x" "x < width div 2"
  shows "\<exists>b'. streamer_thick sr x y prev thickness b = Inr b'
           \<and> bitmap_ok (width div 2) (height div 2) 32 b'"
proof -
  define py where "py = y + thickness - sr_thickness sr div 2"
  have col: "0 \<le> sr_color sr" "sr_color sr < 32" using c by (simp_all add: streamer_ok_def)
  show ?thesis
  proof (cases "0 \<le> py \<and> py < height div 2")
    case True
    from bitmap_set_ok [OF b x _ _ col, of py] True obtain b1 where
      1: "bitmap_set b x py (sr_color sr) = Inr b1" "bitmap_ok (width div 2) (height div 2) 32 b1"
      by auto
    have "\<exists>b'. (case prev of
            None \<Rightarrow> Inr b1
          | Some (prev_x, prev_y) \<Rightarrow>
              if \<bar>x - prev_x\<bar> \<le> 2 \<and> \<bar>py - prev_y\<bar> \<le> 4 then
                let mid_y = (py + prev_y) div 2 in
                if 0 \<le> mid_y \<and> mid_y < height div 2 \<and> 0 \<le> prev_x \<and> prev_x < width div 2
                then bitmap_set b1 prev_x mid_y (sr_color sr)
                else Inr b1
              else Inr b1) = Inr b' \<and> bitmap_ok (width div 2) (height div 2) 32 b'"
    proof (cases prev)
      case None
      then show ?thesis using 1(2) by simp
    next
      case (Some p)
      obtain px pq where p: "p = (px, pq)" by fastforce
      show ?thesis
        using bitmap_set_ok [OF 1(2) _ _ _ _ col, of px "(py + pq) div 2"] 1(2)
        by (auto simp: Some p Let_def)
    qed
    then show ?thesis using True 1(1)
      by (simp add: py_def [symmetric] then_do_def Let_def)
  next
    case False
    then show ?thesis using b by (auto simp: py_def [symmetric] Let_def)
  qed
qed

lemma streamer_column_ok:
  assumes b: "bitmap_ok (width div 2) (height div 2) 32 b" and c: "streamer_ok sr"
  shows "\<exists>b' prev'. streamer_column sr x (b, prev) = Inr (b', prev')
           \<and> bitmap_ok (width div 2) (height div 2) 32 b'"
proof (cases "0 \<le> x \<and> x < width div 2")
  case True
  have "\<exists>b'. for_each (py_range (sr_thickness sr)) (streamer_thick sr x y prev) b = Inr b'
          \<and> bitmap_ok (width div 2) (height div 2) 32 b'" for y
    by (rule for_each_inv [where I = "bitmap_ok (width div 2) (height div 2) 32", OF b])
       (use True c in \<open>simp add: streamer_thick_ok del: streamer_thick.simps\<close>)
  then show ?thesis using True
    by (simp add: Let_def then_do_def del: streamer_thick.simps) (metis old.sum.simps(6))
next
  case False
  then show ?thesis using b by auto
qed

lemma draw_wavy_streamer_ok:
  assumes b: "bitmap_ok (width div 2) (height div 2) 32 b" and c: "streamer_ok sr"
  shows "\<exists>b'. draw_wavy_streamer sr b = Inr b' \<and> bitmap_ok (width div 2) (height div 2) 32 b'"
proof -
  define I where "I = (\<lambda>(b :: bitmap, prev :: (int \<times> int) option).
      bitmap_ok (width div 2) (height div 2) 32 b)"
  have i: "I (b, None)" using b by (simp add: I_def)
  define xs where "xs = py_range_step2
      (max (- 10) (min (width div 2 + 10) (py_int (sr_x_start sr) - 30)))
      (max (- 10) (min (width div 2 + 10) (py_int (sr_x_start sr) + 60)))"
  have "\<exists>bp'. for_each xs (streamer_column sr) (b, None) = Inr bp' \<and> I bp'"
  proof (rule for_each_inv [where I = I, OF i])
    fix x bp assume "I bp"
    then show "\<exists>bp'. streamer_column sr x bp = Inr bp' \<and> I bp'"
      using streamer_column_ok [OF _ c, of "fst bp" x "snd bp"]
      by (cases bp) (auto simp: I_def simp del: streamer_column.simps)
  qed
  then obtain b' prev' where
    "for_each xs (streamer_column sr) (b, None) = Inr (b', prev')"
    "bitmap_ok (width div 2) (height div 2) 32 b'"
    by (auto simp: I_def)
  then show ?thesis
    unfolding draw_wavy_streamer_def Let_def then_do_def xs_def [symmetric] by simp
qed

lemma move_streamer_ok:
  assumes "streamer_ok sr"
  shows "streamer_ok (fst (move_streamer sr g))"
proof -
  have "1 \<le> fst (randint 1 31 g') \<and> fst (randint 1 31 g') \<le> 31" for g'
    by (rule randint_bounds) simp
  then have r: "\<And>g' c g''. randint 1 31 g' = (c, g'') \<Longrightarrow> 1 \<le> c \<and> c \<le> 31"
    by (metis fst_conv)
  show ?thesis using assms
    by (auto simp: move_streamer_def Let_def streamer_ok_def split: prod.splits dest: r)
qed

lemma StreamersEffect_streamer_ok:
  assumes "effect_ok (EStreamers s)" "i < length (se_streamers s)"
  shows "\<exists>s' g'. StreamersEffect_streamer i (s, g) = Inr (s', g') \<and> effect_ok (EStreamers s')
           \<and> length (se_streamers s') = length (se_streamers s)"
proof -
  obtain sr g1 where m: "move_streamer (se_streamers s ! i) g = (sr, g1)" by fastforce
  have "streamer_ok (se_streamers s ! i)"
    using assms by (simp add: streamer_ok_def)
  then have c: "streamer_ok sr" using move_streamer_ok [of "se_streamers s ! i" g] m by simp
  have b: "bitmap_ok (width div 2) (height div 2) 32 (se_bitmap s)" using assms by simp
  from draw_wavy_streamer_ok [OF b c] obtain b' where
    d: "draw_wavy_streamer sr (se_bitmap s) = Inr b'"
    "bitmap_ok (width div 2) (height div 2) 32 b'" by blast
  have "set ((se_streamers s)[i := sr]) \<subseteq> insert sr (set (se_streamers s))"
    by (rule set_update_subset_insert)
  then have "\<forall>sr' \<in> set ((se_streamers s)[i := sr]). 1 \<le> sr_color sr' \<and> sr_color sr' \<le> 31"
    using assms(1) c by (auto simp: streamer_ok_def)
  then show ?thesis using m d by (simp add: then_do_def)
qed

lemma streamers_loop_ok:
  assumes "effect_ok (EStreamers s)"
  shows "\<exists>s' g'. for_each [0..<length (se_streamers s)] StreamersEffect_streamer (s, g)
            = Inr (s', g') \<and> effect_ok (EStreamers s')"
proof -
  define I where "I = (\<lambda>(s' :: StreamersEffect, g :: rng).
      effect_ok (EStreamers s') \<and> length (se_streamers s') = length (se_streamers s))"
  have i: "I (s, g)" using assms by (simp add: I_def)
  have "\<exists>sg'. for_each [0..<length (se_streamers s)] StreamersEffect_streamer (s, g) = Inr sg'
          \<and> I sg'"
  proof (rule for_each_inv [where I = I, OF i])
    fix k sg assume "k \<in> set [0..<length (se_streamers s)]" "I sg"
    then show "\<exists>sg'. StreamersEffect_streamer k sg = Inr sg' \<and> I sg'"
      using StreamersEffect_streamer_ok [of "fst sg" k "snd sg"]
      by (cases sg) (auto simp: I_def simp del: StreamersEffect_streamer.simps effect_ok.simps)
  qed
  then show ?thesis by (auto simp: I_def)
qed

lemma StreamersEffect_update_ok:
  assumes "effect_ok (EStreamers s)"
  shows "\<exists>s' g'. StreamersEffect_update s g = Inr (s', g') \<and> effect_ok (EStreamers s')"
proof -
  from clear_ok [of "width div 2" "height div 2" 32 "se_bitmap s"] assms obtain b where
    c: "for_each (py_range (height div 2)) (\<lambda>y. for_each (py_range (width div 2))
          (\<lambda>x b. bitmap_set b x y 0)) (se_bitmap s) = Inr b"
      "bitmap_ok (width div 2) (height div 2) 32 b" by auto
  define s1 where "s1 = s\<lparr>se_time := se_time s + 0.1, se_bitmap := b\<rparr>"
  have ok1: "effect_ok (EStreamers s1)" using assms c(2) by (simp add: s1_def)
  have len: "length (se_streamers s) = length (se_streamers s1)" by (simp add: s1_def)
  show ?thesis
    unfolding StreamersEffect_update_def Let_def c(1) then_do_def sum.case s1_def [symmetric] len
    by (rule streamers_loop_ok [OF ok1])
qed

text \<open>
  Claim C1: for every bitmap generator, in any state of the shape its constructor
  establishes, with any accumulated time and any draws of the random source, \<open>update\<close>
  returns: no write raises, so no write takes the branch of \<open>bitmap_set\<close> for a value
  outside \<open>[0, N - 1]\<close>, where \<open>N\<close> is the value count of the bitmap and the size of the
  effect's palette (64 for plasma, Julia and sine wave, 32 for spiral, fire and
  streamers, 16 for matrix and starfield, 256 for the framework's plasma, kaleidoscope
  and Mandelbrot).  Every pixel of the bitmap holds an index in that range afterwards.
  The colour-index functions of the generators that compute the index from the
  coordinates are in range for all coordinates, times and iteration counts.  The
  text rain (\<open>ColorMatrixEffect\<close>) has no bitmap and writes no index.
\<close>

theorem C1_index_in_range:
  assumes "effect_ok e"
  shows "(\<exists>e' g'. effect_update e g = Inr (e', g') \<and> effect_ok e'
            \<and> value_count (effect_bitmap e') = palette_size e')
       \<and> (0 \<le> PlasmaEffect_color_idx t x y \<and> PlasmaEffect_color_idx t x y < 64)
       \<and> (0 \<le> SpiralEffect_color_idx t rot x y \<and> SpiralEffect_color_idx t rot x y < 32)
       \<and> (0 \<le> JuliaFractalEffect_color_index ju iterations
            \<and> JuliaFractalEffect_color_index ju iterations < 64)
       \<and> (0 \<le> SineWaveEffect_color_index sources t shift x y
            \<and> SineWaveEffect_color_index sources t shift x y < 64)
       \<and> (0 \<le> PlasmaField_color_index pf t x y \<and> PlasmaField_color_index pf t x y < 256)
       \<and> (0 \<le> Kaleidoscope_color_index ka t shift x y
            \<and> Kaleidoscope_color_index ka t shift x y < 256)
       \<and> (0 \<le> Mandelbrot_color_index md iterations
            \<and> Mandelbrot_color_index md iterations < 256)"
proof -
  have vc: "value_count (effect_bitmap e') = palette_size e'" if "effect_ok e'" for e'
    using that by (cases e') (simp_all add: bitmap_ok_def)
  have "\<exists>e' g'. effect_update e g = Inr (e', g') \<and> effect_ok e'"
  proof (cases e)
    case (EPlasma s)
    then show ?thesis using PlasmaEffect_update_ok [of s] assms by (auto simp: then_do_def)
  next
    case (ESpiral s)
    then show ?thesis using SpiralEffect_update_ok [of s] assms by (auto simp: then_do_def)
  next
    case (EMatrix s)
    then show ?thesis using MatrixEffect_update_ok [of s g] assms by (auto simp: then_do_def)
  next
    case (EJulia s)
    then show ?thesis using JuliaFractalEffect_update_ok [of s] assms by (auto simp: then_do_def)
  next
    case (EFire s)
    then show ?thesis using FireEffect_update_ok [of s g] assms by (auto simp: then_do_def)
  next
    case (EStarfield s)
    then show ?thesis using StarfieldEffect_update_ok [of s g] assms by (auto simp: then_do_def)
  next
    case (ESineWave s)
    then show ?thesis using SineWaveEffect_update_ok [of s] assms by (auto simp: then_do_def)
  next
    case (EStreamers s)
    then show ?thesis using StreamersEffect_update_ok [of s g] assms by (auto simp: then_do_def)
  next
    case (EPlasmaField s)
    then show ?thesis using PlasmaField_update_ok [of s] assms by (auto simp: then_do_def)
  next
    case (EKaleidoscope s)
    then show ?thesis using Kaleidoscope_update_ok [of s] assms by (auto simp: then_do_def)
  next
    case (EMandelbrot s)
    then show ?thesis using Mandelbrot_update_ok [of s] assms by (auto simp: then_do_def)
  qed
  then have "\<exists>e' g'. effect_update e g = Inr (e', g') \<and> effect_ok e'
            \<and> value_count (effect_bitmap e') = palette_size e'"
    using vc by blast
  then show ?thesis
    using PlasmaEffect_color_idx_range [of t x y] SpiralEffect_color_idx_range [of t rot x y]
      JuliaFractalEffect_color_index_range [of ju iterations]
      SineWaveEffect_color_index_range [of sources t shift x y]
      PlasmaField_color_index_range [of pf t x y]
      Kaleidoscope_color_index_range [of ka t shift x y]
      Mandelbrot_color_index_range [of md iterations]
    by blast
qed

theorem C1_witness:
  "effect_ok (EPlasma (PlasmaEffect_new no_rounding))
   \<and> (\<exists>e' g'. effect_update (EPlasma (PlasmaEffect_new no_rounding)) zero_rng = Inr (e', g')
         \<and> effect_ok e' \<and> value_count (effect_bitmap e') = palette_size e')"
proof -
  have ok: "effect_ok (EPlasma (PlasmaEffect_new no_rounding))"
    by (simp add: PlasmaEffect_new_def PlasmaEffect_reset_def Bitmap_ok)
  from C1_index_in_range [OF ok, where g = zero_rng] ok show ?thesis by blast
qed

subsection \<open>Reset\<close>

lemma randint_zero [simp]: "randint a b zero_rng = (a, zero_rng)"
  by (simp add: randint_def rng_random_def zero_rng_def)

lemma choice_zero [simp]: "choice (x # xs) zero_rng = (x, zero_rng)"
  by (simp add: choice_def rng_random_def zero_rng_def)

lemma MatrixEffect_new_zero:
  "MatrixEffect_new zero_rng =
     (\<lparr>mx_palette = MatrixEffect_init_palette, mx_bitmap = Bitmap 20 15 16,
       mx_drop_positions = replicate 20 (- 10), mx_drop_speeds = replicate 20 1,
       mx_drop_active = replicate 20 True, mx_time = 0\<rparr>, zero_rng)"
  by (simp add: MatrixEffect_new_def MatrixEffect_reset_def columns_def rows_def Let_def
      numeral_eq_Suc upt_rec)

lemma trail_above_screen:
  "drop_y < 0 \<Longrightarrow> 0 \<le> trail \<Longrightarrow> MatrixEffect_trail col drop_y trail b = Inr b"
  by (simp add: MatrixEffect_trail_def Let_def)

lemma trails_above_screen:
  assumes "drop_y < 0"
  shows "for_each (py_range 8) (MatrixEffect_trail col drop_y) b = Inr b"
proof -
  have "\<exists>b'. for_each (py_range 8) (MatrixEffect_trail col drop_y) b = Inr b' \<and> b' = b"
    by (rule for_each_inv [where I = "\<lambda>b'. b' = b"])
       (use assms in \<open>simp_all add: trail_above_screen\<close>)
  then show ?thesis by simp
qed

lemma column_falling:
  assumes "mx_drop_active s ! nat col" "mx_drop_positions s ! nat col = - 10"
    "mx_drop_speeds s ! nat col = 1" "nat col < length (mx_drop_positions s)"
  shows "MatrixEffect_column col (s, g)
     = Inr (s\<lparr>mx_drop_positions := (mx_drop_positions s)[nat col := - 9.7]\<rparr>, g)"
proof -
  have "py_int (- 10) < 0" by (simp add: py_int_def)
  then have "for_each (py_range 8) (MatrixEffect_trail col (py_int (- 10))) (mx_bitmap s)
      = Inr (mx_bitmap s)" by (rule trails_above_screen)
  then show ?thesis using assms
    by (simp add: Let_def then_do_def rows_def)
qed

lemma MatrixEffect_first_frame:
  "\<exists>b. MatrixEffect_update (fst (MatrixEffect_new zero_rng)) zero_rng =
     Inr (\<lparr>mx_palette = MatrixEffect_init_palette, mx_bitmap = b,
           mx_drop_positions = replicate 20 (- 9.7), mx_drop_speeds = replicate 20 1,
           mx_drop_active = replicate 20 True, mx_time = 0.1\<rparr>, zero_rng)"
proof -
  have "bitmap_ok columns rows 16 (Bitmap 20 15 16)"
    by (simp add: columns_def rows_def Bitmap_ok)
  from clear_ok [OF this] obtain b where
    c: "for_each (py_range rows) (\<lambda>y. for_each (py_range columns) (\<lambda>x b. bitmap_set b x y 0))
          (Bitmap 20 15 16) = Inr b" by auto
  have 1: "MatrixEffect_update (fst (MatrixEffect_new zero_rng)) zero_rng =
     for_each (py_range columns) MatrixEffect_column
       (\<lparr>mx_palette = MatrixEffect_init_palette, mx_bitmap = b,
         mx_drop_positions = replicate 20 (- 10), mx_drop_speeds = replicate 20 1,
         mx_drop_active = replicate 20 True, mx_time = 0.1\<rparr>, zero_rng)"
    by (simp add: MatrixEffect_update_def MatrixEffect_new_zero Let_def c then_do_def)
  have 2: "for_each (py_range columns) MatrixEffect_column
       (\<lparr>mx_palette = MatrixEffect_init_palette, mx_bitmap = b,
         mx_drop_positions = replicate 20 (- 10), mx_drop_speeds = replicate 20 1,
         mx_drop_active = replicate 20 True, mx_time = 0.1\<rparr>, zero_rng) =
     Inr (\<lparr>mx_palette = MatrixEffect_init_palette, mx_bitmap = b,
           mx_drop_positions = replicate 20 (- 9.7), mx_drop_speeds = replicate 20 1,
           mx_drop_active = replicate 20 True, mx_time = 0.1\<rparr>, zero_rng)"
    by (simp add: column_falling columns_def py_range_def numeral_eq_Suc
        upto_rec1 del: MatrixEffect_column.simps)
  from 1 2 show ?thesis by simp
qed

lemma init_fire_source_loop:
  assumes "grid_shape buf"
  shows "grid_shape (fold (\<lambda>x buf. grid_set buf (fire_height - 1) x 31) [0..<k] buf)
    \<and> (k \<le> fire_width \<longrightarrow> (\<forall>y < fire_height. \<forall>x < fire_width.
          grid_get (fold (\<lambda>x buf. grid_set buf (fire_height - 1) x 31) [0..<k] buf) y x
            = (if y = fire_height - 1 \<and> x < k then 31 else grid_get buf y x)))"
proof (induction k)
  case 0
  then show ?case using assms by simp
next
  case (Suc k)
  then show ?case
    by (auto simp: grid_shape_set grid_get_set fire_height_def less_Suc_eq)
qed

lemma init_fire_source_get:
  assumes "grid_shape buf"
  shows "grid_shape (init_fire_source buf)
    \<and> (\<forall>y < fire_height. \<forall>x < fire_width.
          grid_get (init_fire_source buf) y x
            = (if y = fire_height - 1 then 31 else grid_get buf y x))"
  using init_fire_source_loop [OF assms, of fire_width] by (simp add: init_fire_source_def)

lemma draw_streamer_ok: "streamer_ok (fst (draw_streamer g))"
proof -
  have "1 \<le> fst (randint 1 31 g') \<and> fst (randint 1 31 g') \<le> 31" for g'
    by (rule randint_bounds) simp
  then have r: "\<And>g' c g''. randint 1 31 g' = (c, g'') \<Longrightarrow> 1 \<le> c \<and> c \<le> 31"
    by (metis fst_conv)
  show ?thesis
    by (auto simp: draw_streamer_def Let_def streamer_ok_def split: prod.splits dest: r)
qed

lemma init_streamers_loop:
  assumes "\<forall>sr \<in> set streamers. streamer_ok sr"
  shows "length (fst (fold init_streamers_step [0..<k] (streamers, g))) = length streamers + k
    \<and> (\<forall>sr \<in> set (fst (fold init_streamers_step [0..<k] (streamers, g))). streamer_ok sr)"
proof (induction k)
  case 0
  then show ?case using assms by simp
next
  case (Suc k)
  obtain srs g1 where f: "fold init_streamers_step [0..<k] (streamers, g) = (srs, g1)"
    by fastforce
  obtain sr g2 where d: "draw_streamer g1 = (sr, g2)" by fastforce
  have "streamer_ok sr" using draw_streamer_ok [of g1] d by simp
  with Suc f d show ?case by (auto simp: Let_def)
qed

lemma init_streamers_ok:
  "length (fst (init_streamers g)) = num_streamers
   \<and> (\<forall>sr \<in> set (fst (init_streamers g)). streamer_ok sr)"
  using init_streamers_loop [of "[]" num_streamers g] by (simp add: init_streamers_def)

lemma MatrixEffect_init_drops_length:
  "length (mx_drop_positions (fst (fold MatrixEffect_init_drop [0..<k] (s, g))))
      = length (mx_drop_positions s)
   \<and> length (mx_drop_speeds (fst (fold MatrixEffect_init_drop [0..<k] (s, g))))
      = length (mx_drop_speeds s)
   \<and> length (mx_drop_active (fst (fold MatrixEffect_init_drop [0..<k] (s, g))))
      = length (mx_drop_active s)
   \<and> mx_bitmap (fst (fold MatrixEffect_init_drop [0..<k] (s, g))) = mx_bitmap s
   \<and> mx_palette (fst (fold MatrixEffect_init_drop [0..<k] (s, g))) = mx_palette s"
proof (induction k)
  case 0
  then show ?case by simp
next
  case (Suc k)
  obtain s1 g1 where "fold MatrixEffect_init_drop [0..<k] (s, g) = (s1, g1)" by fastforce
  with Suc show ?case by (simp add: Let_def split: prod.splits)
qed

text \<open>Every constructor establishes the shape that \<open>update\<close> and \<open>reset\<close> keep.\<close>

lemma constructed_ok:
  "effect_ok (EPlasma (PlasmaEffect_new \<rho>))"
  "effect_ok (ESpiral SpiralEffect_new)"
  "effect_ok (EMatrix (fst (MatrixEffect_new g)))"
  "effect_ok (EJulia JuliaFractalEffect_new)"
  "effect_ok (EFire FireEffect_new)"
  "effect_ok (EStarfield (fst (StarfieldEffect_new g)))"
  "effect_ok (ESineWave SineWaveEffect_new)"
  "effect_ok (EStreamers (fst (StreamersEffect_new g)))"
  "effect_ok (EPlasmaField (PlasmaField_new \<rho> w h))"
  "effect_ok (EKaleidoscope (Kaleidoscope_new w h))"
  "effect_ok (EMandelbrot (Mandelbrot_new w h))"
proof -
  show "effect_ok (EPlasma (PlasmaEffect_new \<rho>))"
    by (simp add: PlasmaEffect_new_def PlasmaEffect_reset_def Bitmap_ok)
  show "effect_ok (ESpiral SpiralEffect_new)"
    by (simp add: SpiralEffect_new_def SpiralEffect_reset_def Bitmap_ok)
  show "effect_ok (EMatrix (fst (MatrixEffect_new g)))"
    using MatrixEffect_init_drops_length
    by (simp add: MatrixEffect_new_def MatrixEffect_reset_def Bitmap_ok Let_def
        split: prod.splits) (metis fst_conv length_replicate MatrixEffect.select_convs(2-5) Bitmap_ok zero_less_numeral)
  show "effect_ok (EJulia JuliaFractalEffect_new)"
    by (simp add: JuliaFractalEffect_new_def JuliaFractalEffect_reset_def Bitmap_ok)
  have "grid_shape (replicate fire_height (replicate fire_width 0))"
    by (simp add: grid_shape_def)
  then show "effect_ok (EFire FireEffect_new)"
    by (simp add: FireEffect_new_def FireEffect_reset_def Bitmap_ok Let_def init_fire_source_get)
  show "effect_ok (EStarfield (fst (StarfieldEffect_new g)))"
    by (simp add: StarfieldEffect_new_def StarfieldEffect_reset_def Bitmap_ok Let_def
        split: prod.splits)
  show "effect_ok (ESineWave SineWaveEffect_new)"
    by (simp add: SineWaveEffect_new_def SineWaveEffect_reset_def Bitmap_ok)
  show "effect_ok (EStreamers (fst (StreamersEffect_new g)))"
    using init_streamers_ok
    by (auto simp: StreamersEffect_new_def StreamersEffect_reset_def Bitmap_ok Let_def
        streamer_ok_def split: prod.splits) (metis fst_conv)+
  show "effect_ok (EPlasmaField (PlasmaField_new \<rho> w h))"
    by (simp add: PlasmaField_new_def Bitmap_ok)
  show "effect_ok (EKaleidoscope (Kaleidoscope_new w h))"
    by (simp add: Kaleidoscope_new_def Bitmap_ok)
  show "effect_ok (EMandelbrot (Mandelbrot_new w h))"
    by (simp add: Mandelbrot_new_def Bitmap_ok)
qed

lemma constructed_palette_size:
  "length (pl_palette (PlasmaEffect_new \<rho>)) = 64"
  "length (sp_palette SpiralEffect_new) = 32"
  "length (mx_palette (fst (MatrixEffect_new g))) = 16"
  "length (ju_palette JuliaFractalEffect_new) = 64"
  "length (fi_palette FireEffect_new) = 32"
  "length (sf_palette (fst (StarfieldEffect_new g))) = 16"
  "length (sw_palette SineWaveEffect_new) = 64"
  "length (se_palette (fst (StreamersEffect_new g))) = 32"
  "length (pf_palette (PlasmaField_new \<rho> w h)) = 256"
  "length (ka_palette (Kaleidoscope_new w h)) = 256"
  "length (md_palette (Mandelbrot_new w h)) = 256"
proof -
  obtain s1 g1 where f: "fold MatrixEffect_init_drop [0..<nat columns]
          (\<lparr>mx_palette = MatrixEffect_init_palette, mx_bitmap = Bitmap columns rows 16,
            mx_drop_positions = replicate (nat columns) 0,
            mx_drop_speeds = replicate (nat columns) 1,
            mx_drop_active = replicate (nat columns) True, mx_time = 0\<rparr>, g) = (s1, g1)"
    by fastforce
  have "mx_palette s1 = MatrixEffect_init_palette"
    using MatrixEffect_init_drops_length [of "nat columns"
        "\<lparr>mx_palette = MatrixEffect_init_palette, mx_bitmap = Bitmap columns rows 16,
            mx_drop_positions = replicate (nat columns) 0,
            mx_drop_speeds = replicate (nat columns) 1,
            mx_drop_active = replicate (nat columns) True, mx_time = 0\<rparr>" g] f
    by simp
  moreover have "MatrixEffect_new g = (MatrixEffect_reset s1, g1)"
    unfolding MatrixEffect_new_def Let_def f by simp
  ultimately show "length (mx_palette (fst (MatrixEffect_new g))) = 16"
    by (simp add: MatrixEffect_reset_def MatrixEffect_init_palette_def length_palette_fill)
qed (auto simp: PlasmaEffect_new_def PlasmaEffect_reset_def SpiralEffect_new_def
      SpiralEffect_reset_def JuliaFractalEffect_new_def JuliaFractalEffect_reset_def
      FireEffect_new_def FireEffect_reset_def SineWaveEffect_new_def SineWaveEffect_reset_def
      PlasmaField_new_def Kaleidoscope_new_def Mandelbrot_new_def
      StarfieldEffect_new_def StarfieldEffect_reset_def
      StreamersEffect_new_def StreamersEffect_reset_def Let_def length_palette_fill
      PlasmaEffect_init_palette_def SpiralEffect_init_palette_def
      JuliaFractalEffect_init_palette_def FireEffect_init_fire_palette_def
      StarfieldEffect_init_star_palette_def StreamersEffect_init_streamer_palette_def
      SineWaveEffect_init_wave_palette_def PlasmaField_init_plasma_palette_def
      Kaleidoscope_init_kaleidoscope_palette_def Mandelbrot_init_mandelbrot_palette_def
      split: prod.splits)

lemma effect_reset_ok: "effect_ok e \<Longrightarrow> effect_ok (fst (effect_reset e g))"
proof (cases e)
  case (EStreamers s)
  assume "effect_ok e"
  then show ?thesis using init_streamers_ok [of g]
    by (auto simp: EStreamers StreamersEffect_reset_def Let_def streamer_ok_def split: prod.splits)
next
  case (EFire s)
  assume "effect_ok e"
  then show ?thesis by (simp add: EFire FireEffect_reset_def init_fire_source_get)
qed (auto simp: PlasmaEffect_reset_def SpiralEffect_reset_def MatrixEffect_reset_def
      JuliaFractalEffect_reset_def StarfieldEffect_reset_def SineWaveEffect_reset_def
      PlasmaField_reset_def Kaleidoscope_reset_def Mandelbrot_reset_def Let_def
      split: prod.splits)

lemma Mandelbrot_reset_keeps_center:
  "md_center_x (Mandelbrot_reset (Mandelbrot_animate (Mandelbrot_new w h)))
     \<noteq> md_center_x (Mandelbrot_new w h)"
  by (simp add: Mandelbrot_reset_def Mandelbrot_animate_def Mandelbrot_new_def Let_def
      zoom_cycle_time_def zoom_center_x_def)

text \<open>
  The draws of the star and streamer initialisation: a star takes five draws and a
  streamer ten, so the lists that \<open>_init_stars\<close> and \<open>_init_streamers\<close> build are
  functions of the random source alone, and the source is left \<open>5 \<cdot> 150\<close> and
  \<open>10 \<cdot> 8\<close> draws further.
\<close>

lemma rng_drop_drop [simp]: "rng_drop m (rng_drop n g) = rng_drop (n + m) g"
  by (simp add: rng_drop_def ac_simps)

lemma rng_drop_apply: "rng_drop n g k = g (k + n)"
  by (simp add: rng_drop_def)

lemma draw_star_drop:
  "snd (draw_star max_distance min_z g) = rng_drop 5 g"
  "st_z (fst (draw_star max_distance min_z g)) = min_z + (50 - min_z) * frac (g 2)"
  by (simp_all add: draw_star_def uniform_def randint_def rng_random_def Let_def rng_drop_def
      eval_nat_numeral)

lemma init_stars_fold:
  "fold init_stars_step [0..<k] (stars, g) =
     (stars @ map (\<lambda>j. fst (draw_star 100 1 (rng_drop (5 * j) g))) [0..<k], rng_drop (5 * k) g)"
proof (induction k)
  case 0
  then show ?case by (simp add: rng_drop_def)
next
  case (Suc k)
  have "init_stars_step i (xs, g') = (xs @ [fst (draw_star 100 1 g')], rng_drop 5 g')"
    for i xs g'
    using draw_star_drop(1) [of 100 1 g'] by (cases "draw_star 100 1 g'") simp
  with Suc show ?case by (simp add: add.commute del: init_stars_step.simps)
qed

lemma init_stars_drawn:
  "init_stars g = (map (\<lambda>j. fst (draw_star 100 1 (rng_drop (5 * j) g))) [0..<num_stars],
                   rng_drop (5 * num_stars) g)"
  using init_stars_fold [of num_stars "[]" g] by (simp add: init_stars_def)

lemma draw_streamer_drop:
  "snd (draw_streamer g) = rng_drop 10 g"
  "sr_amplitude (fst (draw_streamer g)) = 5 + 20 * frac (g 2)"
  by (simp_all add: draw_streamer_def uniform_def randint_def choice_def rng_random_def Let_def
      rng_drop_def eval_nat_numeral)

lemma init_streamers_fold:
  "fold init_streamers_step [0..<k] (streamers, g) =
     (streamers @ map (\<lambda>j. fst (draw_streamer (rng_drop (10 * j) g))) [0..<k],
      rng_drop (10 * k) g)"
proof (induction k)
  case 0
  then show ?case by (simp add: rng_drop_def)
next
  case (Suc k)
  have "init_streamers_step i (xs, g') = (xs @ [fst (draw_streamer g')], rng_drop 10 g')"
    for i xs g'
    using draw_streamer_drop(1) [of g'] by (cases "draw_streamer g'") simp
  with Suc show ?case by (simp add: add.commute del: init_streamers_step.simps)
qed

lemma init_streamers_drawn:
  "init_streamers g = (map (\<lambda>j. fst (draw_streamer (rng_drop (10 * j) g))) [0..<num_streamers],
                       rng_drop (10 * num_streamers) g)"
  using init_streamers_fold [of num_streamers "[]" g] by (simp add: init_streamers_def)

lemma StarfieldEffect_reset_drawn:
  "StarfieldEffect_reset sf g =
     (sf\<lparr>sf_time := 0,
         sf_stars := map (\<lambda>j. fst (draw_star 100 1 (rng_drop (5 * j) g))) [0..<num_stars]\<rparr>,
      rng_drop (5 * num_stars) g)"
  by (simp add: StarfieldEffect_reset_def init_stars_drawn)

lemma StreamersEffect_reset_drawn:
  "StreamersEffect_reset se g =
     (se\<lparr>se_time := 0,
         se_streamers := map (\<lambda>j. fst (draw_streamer (rng_drop (10 * j) g))) [0..<num_streamers]\<rparr>,
      rng_drop (10 * num_streamers) g)"
  by (simp add: StreamersEffect_reset_def init_streamers_drawn)

lemma frac_harmonic: "frac (harmonic_rng n) = 1 / (of_nat n + 2)"
  by (simp add: harmonic_rng_def frac_eq)

text \<open>
  The constructors initialise the list and then call \<open>reset\<close>, which initialises it
  again: the constructed list comes from the second batch of draws.
\<close>

lemma StarfieldEffect_new_drawn:
  "StarfieldEffect_new g =
     (\<lparr>sf_palette = StarfieldEffect_init_star_palette,
       sf_bitmap = Bitmap (width div 2) (height div 2) 16,
       sf_stars = map (\<lambda>j. fst (draw_star 100 1 (rng_drop (5 * j) (rng_drop (5 * num_stars) g))))
                    [0..<num_stars],
       sf_time = 0\<rparr>, rng_drop (5 * num_stars) (rng_drop (5 * num_stars) g))"
  by (simp add: StarfieldEffect_new_def init_stars_drawn StarfieldEffect_reset_drawn del: rng_drop_drop)

lemma star_redrawn:
  "st_z (sf_stars (fst (StarfieldEffect_new harmonic_rng)) ! 0) = 1 + 49 / 754"
  "st_z (sf_stars (fst (StarfieldEffect_reset (fst (StarfieldEffect_new harmonic_rng))
                                (snd (StarfieldEffect_new harmonic_rng)))) ! 0) = 1 + 49 / 1504"
  by (simp_all add: StarfieldEffect_new_drawn StarfieldEffect_reset_drawn num_stars_def
      draw_star_drop rng_drop_apply frac_harmonic upt_conv_Cons)

lemma StreamersEffect_new_drawn:
  "StreamersEffect_new g =
     (\<lparr>se_palette = StreamersEffect_init_streamer_palette,
       se_bitmap = Bitmap (width div 2) (height div 2) 32,
       se_streamers = map (\<lambda>j. fst (draw_streamer
                        (rng_drop (10 * j) (rng_drop (10 * num_streamers) g))))
                    [0..<num_streamers],
       se_time = 0\<rparr>, rng_drop (10 * num_streamers) (rng_drop (10 * num_streamers) g))"
  by (simp add: StreamersEffect_new_def init_streamers_drawn StreamersEffect_reset_drawn
      del: rng_drop_drop)

lemma streamer_redrawn:
  "sr_amplitude (se_streamers (fst (StreamersEffect_new harmonic_rng)) ! 0) = 5 + 20 / 84"
  "sr_amplitude (se_streamers (fst (StreamersEffect_reset (fst (StreamersEffect_new harmonic_rng))
                                (snd (StreamersEffect_new harmonic_rng)))) ! 0) = 5 + 20 / 164"
  by (simp_all add: StreamersEffect_new_drawn StreamersEffect_reset_drawn num_streamers_def
      draw_streamer_drop rng_drop_apply frac_harmonic upt_conv_Cons)

text \<open>
  The first frame of the constructed fire on the source that always draws \<open>0\<close>: a
  cell keeps what was written to it until it is written again, and each cell is written
  once in a run of the simulation.
\<close>

lemma fire_cell_zero:
  "\<exists>v. fire_cell y x (buf, zero_rng) = (grid_set buf y x v, zero_rng)"
  by (auto simp: Let_def split: prod.splits)

lemma fire_source_cell_zero:
  "fire_source_cell x (buf, zero_rng) = (grid_set buf (fire_height - 1) x 25, zero_rng)"
  by (simp add: Let_def)

lemma cell_kept_write:
  assumes "cell_kept p c S (buf, zero_rng)" "y < fire_height" "x < fire_width"
  shows "cell_kept p c (S \<union> {(y, x)}) (grid_set buf y x v, zero_rng)"
  using assms unfolding cell_kept_def
  by (auto simp: grid_shape_set grid_get_set)

lemma fire_cell_kept:
  assumes "cell_kept p c S bg" "y < fire_height" "x < fire_width"
  shows "cell_kept p c (S \<union> {(y, x)}) (fire_cell y x bg)"
proof -
  obtain buf where bg: "bg = (buf, zero_rng)"
    using assms(1) by (cases bg) (simp add: cell_kept_def)
  from fire_cell_zero [of y x buf] obtain v where
    "fire_cell y x (buf, zero_rng) = (grid_set buf y x v, zero_rng)" by blast
  then show ?thesis using cell_kept_write [of p c S buf y x v] assms by (simp add: bg)
qed

lemma fire_source_cell_kept:
  assumes "cell_kept p c S bg" "x < fire_width"
  shows "cell_kept p c (S \<union> {(fire_height - 1, x)}) (fire_source_cell x bg)"
proof -
  obtain buf where bg: "bg = (buf, zero_rng)"
    using assms(1) by (cases bg) (simp add: cell_kept_def)
  show ?thesis
    unfolding bg fire_source_cell_zero
    using cell_kept_write [of p c S buf "fire_height - 1" x 25] assms
    by (simp add: bg fire_height_def)
qed

lemma fire_cells_kept:
  assumes "cell_kept p c S bg" "y < fire_height" "\<forall>x \<in> set xs. x < fire_width"
  shows "cell_kept p c (S \<union> {y} \<times> set xs) (fold (fire_cell y) xs bg)"
proof -
  have "cell_kept p c (S \<union> (\<Union>x \<in> set xs. {(y, x)})) (fold (fire_cell y) xs bg)"
    by (rule fold_grow [where Q = "cell_kept p c" and K = "\<lambda>x. {(y, x)}"], intro fire_cell_kept)
       (use assms in simp_all)
  moreover have "(\<Union>x \<in> set xs. {(y, x)}) = {y} \<times> set xs" by auto
  ultimately show ?thesis by simp
qed

lemma fire_rows_kept:
  assumes "cell_kept p c S bg" "\<forall>y \<in> set ys. y < fire_height"
  shows "cell_kept p c (S \<union> set ys \<times> {0..<fire_width})
           (fold (\<lambda>y. fold (fire_cell y) [0..<fire_width]) ys bg)"
proof -
  have "cell_kept p c (S \<union> (\<Union>y \<in> set ys. {y} \<times> set [0..<fire_width]))
          (fold (\<lambda>y. fold (fire_cell y) [0..<fire_width]) ys bg)"
    by (rule fold_grow [where Q = "cell_kept p c" and K = "\<lambda>y. {y} \<times> set [0..<fire_width]"],
        intro fire_cells_kept)
       (use assms in simp_all)
  moreover have "(\<Union>y \<in> set ys. {y} \<times> set [0..<fire_width]) = set ys \<times> {0..<fire_width}"
    by auto
  ultimately show ?thesis by simp
qed

lemma fire_sources_kept:
  assumes "cell_kept p c S bg" "\<forall>x \<in> set xs. x < fire_width"
  shows "cell_kept p c (S \<union> {fire_height - 1} \<times> set xs) (fold fire_source_cell xs bg)"
proof -
  have "cell_kept p c (S \<union> (\<Union>x \<in> set xs. {(fire_height - 1, x)})) (fold fire_source_cell xs bg)"
    by (rule fold_grow [where Q = "cell_kept p c" and K = "\<lambda>x. {(fire_height - 1, x)}"],
        intro fire_source_cell_kept)
       (use assms in simp_all)
  moreover have "(\<Union>x \<in> set xs. {(fire_height - 1, x)}) = {fire_height - 1} \<times> set xs" by auto
  ultimately show ?thesis by simp
qed

lemma FireEffect_new_buffer:
  "grid_shape (fi_fire_buffer FireEffect_new)"
  "y < fire_height \<Longrightarrow> x < fire_width \<Longrightarrow>
     grid_get (fi_fire_buffer FireEffect_new) y x = (if y = fire_height - 1 then 31 else 0)"
proof -
  have 0: "grid_shape (replicate fire_height (replicate fire_width 0))"
    by (simp add: grid_shape_def)
  have 1: "grid_shape (init_fire_source (replicate fire_height (replicate fire_width 0)))"
    using init_fire_source_get [OF 0] by simp
  have b: "fi_fire_buffer FireEffect_new
      = init_fire_source (init_fire_source (replicate fire_height (replicate fire_width 0)))"
    by (simp add: FireEffect_new_def FireEffect_reset_def Let_def)
  show "grid_shape (fi_fire_buffer FireEffect_new)"
    using init_fire_source_get [OF 1] by (simp add: b)
  assume "y < fire_height" "x < fire_width"
  then show "grid_get (fi_fire_buffer FireEffect_new) y x = (if y = fire_height - 1 then 31 else 0)"
    using init_fire_source_get [OF 1] init_fire_source_get [OF 0]
    by (simp add: b grid_get_def)
qed

text \<open>
  The cell \<open>(58, 0)\<close> is the first one written: its neighbours in the grid are itself
  and its right neighbour (heat \<open>0\<close>) and the two source cells below them (heat \<open>31\<close>),
  the average is \<open>15.5\<close>, the cooling drawn is \<open>1\<close> and the heat written is \<open>14\<close>.
\<close>

lemma fire_first_cell:
  "fire_cell 58 0 (fi_fire_buffer FireEffect_new, zero_rng)
     = (grid_set (fi_fire_buffer FireEffect_new) 58 0 14, zero_rng)"
proof -
  have "fire_neighbours (fi_fire_buffer FireEffect_new) 0 58 = (62, 4)"
    by (simp add: fire_neighbours_def FireEffect_new_buffer(2) fire_width_def fire_height_def)
  then show ?thesis by (simp add: Let_def py_int_def)
qed

lemma fire_first_update:
  "grid_shape (fst (update_fire_simulation (fi_fire_buffer FireEffect_new, zero_rng)))"
  "grid_get (fst (update_fire_simulation (fi_fire_buffer FireEffect_new, zero_rng))) 58 0 = 14"
  "grid_get (fst (update_fire_simulation (fi_fire_buffer FireEffect_new, zero_rng))) 59 0 = 25"
proof -
  let ?B = "fi_fire_buffer FireEffect_new"
  let ?rows = "\<lambda>ys. fold (\<lambda>y. fold (fire_cell y) [0..<fire_width]) ys"
  have upt: "[0..<fire_width] = 0 # [1..<fire_width]"
    by (simp add: fire_width_def upt_conv_Cons)
  have e: "(59 :: nat) = Suc 58" by simp
  have "[0..<59] = [0..<58] @ [58 :: nat]" unfolding e by (rule upt_Suc_append) simp
  then have rows: "rev [0..<fire_height - 1] = 58 # rev [0..<58]"
    by (simp add: fire_height_def)
  have b: "fold (fire_cell 58) [0..<fire_width] (?B, zero_rng)
      = fold (fire_cell 58) [1..<fire_width] (grid_set ?B 58 0 14, zero_rng)"
    by (subst upt) (simp add: fire_first_cell del: fire_cell.simps)
  have u: "update_fire_simulation (?B, zero_rng) =
      fold fire_source_cell [0..<fire_width]
        (?rows (rev [0..<58]) (fold (fire_cell 58) [1..<fire_width]
           (grid_set ?B 58 0 14, zero_rng)))"
    unfolding update_fire_simulation_def rows fold_Cons comp_apply b by (rule refl)
  have 0: "cell_kept (58, 0) 14 {} (grid_set ?B 58 0 14, zero_rng)"
    by (simp add: cell_kept_def grid_shape_set grid_get_set FireEffect_new_buffer(1)
        fire_height_def fire_width_def)
  have 1: "cell_kept (58, 0) 14 ({} \<union> {58} \<times> set [1..<fire_width])
      (fold (fire_cell 58) [1..<fire_width] (grid_set ?B 58 0 14, zero_rng))"
    by (rule fire_cells_kept [OF 0]) (simp_all add: fire_height_def)
  have 2: "cell_kept (58, 0) 14 (({} \<union> {58} \<times> set [1..<fire_width])
        \<union> set (rev [0..<58]) \<times> {0..<fire_width})
      (?rows (rev [0..<58]) (fold (fire_cell 58) [1..<fire_width]
           (grid_set ?B 58 0 14, zero_rng)))"
    by (rule fire_rows_kept [OF 1]) (simp add: fire_height_def)
  have 3: "cell_kept (58, 0) 14 ((({} \<union> {58} \<times> set [1..<fire_width])
        \<union> set (rev [0..<58]) \<times> {0..<fire_width}) \<union> {fire_height - 1} \<times> set [0..<fire_width])
      (update_fire_simulation (?B, zero_rng))"
    unfolding u by (rule fire_sources_kept [OF 2]) simp
  from 3 show "grid_shape (fst (update_fire_simulation (?B, zero_rng)))"
    by (simp add: cell_kept_def)
  from 3 show "grid_get (fst (update_fire_simulation (?B, zero_rng))) 58 0 = 14"
    by (simp add: cell_kept_def fire_height_def)
  let ?mid = "?rows (rev [0..<fire_height - 1]) (?B, zero_rng)"
  have k: "cell_kept (59, 0) 25 UNIV (?B, zero_rng)"
    by (simp add: cell_kept_def FireEffect_new_buffer(1))
  have "cell_kept (59, 0) 25 (UNIV \<union> set (rev [0..<fire_height - 1]) \<times> {0..<fire_width}) ?mid"
    by (rule fire_rows_kept [OF k]) (simp add: fire_height_def)
  then have m: "grid_shape (fst ?mid)" "snd ?mid = zero_rng"
    by (simp_all add: cell_kept_def)
  then obtain bm where mid: "?mid = (bm, zero_rng)" "grid_shape bm"
    by (cases ?mid) simp
  have 4: "cell_kept (59, 0) 25 {} (grid_set bm (fire_height - 1) 0 25, zero_rng)"
    using mid(2)
    by (simp add: cell_kept_def grid_shape_set grid_get_set fire_height_def fire_width_def)
  have 5: "cell_kept (59, 0) 25 ({} \<union> {fire_height - 1} \<times> set [1..<fire_width])
      (fold fire_source_cell [1..<fire_width] (grid_set bm (fire_height - 1) 0 25, zero_rng))"
    by (rule fire_sources_kept [OF 4]) simp
  have "update_fire_simulation (?B, zero_rng) =
      fold fire_source_cell [1..<fire_width] (grid_set bm (fire_height - 1) 0 25, zero_rng)"
    unfolding update_fire_simulation_def mid(1)
    by (subst upt) (simp add: fire_source_cell_zero del: fire_source_cell.simps)
  with 5 show "grid_get (fst (update_fire_simulation (?B, zero_rng))) 59 0 = 25"
    by (simp add: cell_kept_def)
qed

lemma FireEffect_first_frame:
  "\<exists>s'. FireEffect_update FireEffect_new zero_rng = Inr (s', zero_rng)
     \<and> grid_shape (fi_fire_buffer s')
     \<and> grid_get (fi_fire_buffer s') 58 0 = 14
     \<and> grid_get (fi_fire_buffer s') 59 0 = 25"
proof -
  have "effect_ok (EFire FireEffect_new)" by (rule constructed_ok)
  from FireEffect_update_ok [OF this, of zero_rng] obtain s' g' where
    u: "FireEffect_update FireEffect_new zero_rng = Inr (s', g')" by blast
  from FireEffect_update_buffer [OF u] have
    b: "fi_fire_buffer s' = fst (update_fire_simulation (fi_fire_buffer FireEffect_new, zero_rng))"
       "g' = snd (update_fire_simulation (fi_fire_buffer FireEffect_new, zero_rng))"
    by (simp_all add: prod_eq_iff)
  have "cell_kept (0, 0) 0 UNIV (fi_fire_buffer FireEffect_new, zero_rng)"
    by (simp add: cell_kept_def FireEffect_new_buffer(1))
  then have "cell_kept (0, 0) 0 (UNIV \<union> set (rev [0..<fire_height - 1]) \<times> {0..<fire_width})
      (fold (\<lambda>y. fold (fire_cell y) [0..<fire_width]) (rev [0..<fire_height - 1])
         (fi_fire_buffer FireEffect_new, zero_rng))"
    by (rule fire_rows_kept) (simp add: fire_height_def)
  then have "cell_kept (0, 0) 0 ((UNIV \<union> set (rev [0..<fire_height - 1]) \<times> {0..<fire_width})
        \<union> {fire_height - 1} \<times> set [0..<fire_width])
      (update_fire_simulation (fi_fire_buffer FireEffect_new, zero_rng))"
    unfolding update_fire_simulation_def by (rule fire_sources_kept) simp
  then have "g' = zero_rng" by (simp add: b cell_kept_def)
  with u b(1) fire_first_update show ?thesis by simp
qed

text \<open>
  Claim C2, as stated.  For the matrix rain constructed with the random source that
  always draws \<open>0\<close>, every drop starts at position \<open>-10\<close>; the first \<open>update\<close>
  returns and moves every drop to \<open>-9.7\<close>, and \<open>reset\<close> assigns the time only, so the
  effect after \<open>reset\<close> is not the effect as constructed.  For the fire on the same
  source, the first \<open>update\<close> returns and writes heat \<open>14\<close> to the cell \<open>(58, 0)\<close>,
  which held \<open>0\<close> at construction, and \<open>reset\<close> re-seeds the bottom row only.  For the
  starfield and the streamers constructed with a source whose draws are all different,
  \<open>reset\<close> right after the construction draws the list again, from later draws: the
  first star and the first streamer are not the constructed ones.
\<close>

theorem C2_counterexample:
  "\<not> isl (MatrixEffect_update (fst (MatrixEffect_new zero_rng)) zero_rng)
   \<and> MatrixEffect_reset
        (fst (projr (MatrixEffect_update (fst (MatrixEffect_new zero_rng)) zero_rng)))
      \<noteq> fst (MatrixEffect_new zero_rng)
   \<and> \<not> isl (FireEffect_update FireEffect_new zero_rng)
   \<and> FireEffect_reset (fst (projr (FireEffect_update FireEffect_new zero_rng)))
      \<noteq> FireEffect_new
   \<and> fst (StarfieldEffect_reset (fst (StarfieldEffect_new harmonic_rng))
                                (snd (StarfieldEffect_new harmonic_rng)))
      \<noteq> fst (StarfieldEffect_new harmonic_rng)
   \<and> fst (StreamersEffect_reset (fst (StreamersEffect_new harmonic_rng))
                                (snd (StreamersEffect_new harmonic_rng)))
      \<noteq> fst (StreamersEffect_new harmonic_rng)"
proof -
  from MatrixEffect_first_frame obtain b where
    u: "MatrixEffect_update (fst (MatrixEffect_new zero_rng)) zero_rng =
     Inr (\<lparr>mx_palette = MatrixEffect_init_palette, mx_bitmap = b,
           mx_drop_positions = replicate 20 (- 9.7), mx_drop_speeds = replicate 20 1,
           mx_drop_active = replicate 20 True, mx_time = 0.1\<rparr>, zero_rng)" by blast
  have "mx_drop_positions (MatrixEffect_reset
        (fst (projr (MatrixEffect_update (fst (MatrixEffect_new zero_rng)) zero_rng)))) ! 0 = - 9.7"
    by (simp add: u MatrixEffect_reset_def)
  moreover have "mx_drop_positions (fst (MatrixEffect_new zero_rng)) ! 0 = - 10"
    by (simp add: MatrixEffect_new_zero)
  ultimately have "mx_drop_positions (MatrixEffect_reset
        (fst (projr (MatrixEffect_update (fst (MatrixEffect_new zero_rng)) zero_rng))))
      \<noteq> mx_drop_positions (fst (MatrixEffect_new zero_rng))"
    by auto
  then have m: "\<not> isl (MatrixEffect_update (fst (MatrixEffect_new zero_rng)) zero_rng)
   \<and> MatrixEffect_reset
        (fst (projr (MatrixEffect_update (fst (MatrixEffect_new zero_rng)) zero_rng)))
      \<noteq> fst (MatrixEffect_new zero_rng)" using u by auto
  from FireEffect_first_frame obtain s' where
    f: "FireEffect_update FireEffect_new zero_rng = Inr (s', zero_rng)"
       "grid_shape (fi_fire_buffer s')" "grid_get (fi_fire_buffer s') 58 0 = 14" by blast
  have "grid_get (fi_fire_buffer (FireEffect_reset s')) 58 0 = 14"
    using init_fire_source_get [OF f(2)] f(3)
    by (simp add: FireEffect_reset_def fire_height_def fire_width_def)
  moreover have "grid_get (fi_fire_buffer FireEffect_new) 58 0 = 0"
    by (simp add: FireEffect_new_buffer(2) fire_height_def fire_width_def)
  ultimately have "FireEffect_reset s' \<noteq> FireEffect_new" by auto
  then have fi: "\<not> isl (FireEffect_update FireEffect_new zero_rng)
   \<and> FireEffect_reset (fst (projr (FireEffect_update FireEffect_new zero_rng)))
      \<noteq> FireEffect_new" by (simp add: f(1))
  have "st_z (sf_stars (fst (StarfieldEffect_reset (fst (StarfieldEffect_new harmonic_rng))
                                (snd (StarfieldEffect_new harmonic_rng)))) ! 0)
      \<noteq> st_z (sf_stars (fst (StarfieldEffect_new harmonic_rng)) ! 0)"
    unfolding star_redrawn by simp
  then have st: "fst (StarfieldEffect_reset (fst (StarfieldEffect_new harmonic_rng))
                                (snd (StarfieldEffect_new harmonic_rng)))
      \<noteq> fst (StarfieldEffect_new harmonic_rng)" by auto
  have "sr_amplitude (se_streamers (fst (StreamersEffect_reset
            (fst (StreamersEffect_new harmonic_rng)) (snd (StreamersEffect_new harmonic_rng)))) ! 0)
      \<noteq> sr_amplitude (se_streamers (fst (StreamersEffect_new harmonic_rng)) ! 0)"
    unfolding streamer_redrawn by simp
  then have sr: "fst (StreamersEffect_reset (fst (StreamersEffect_new harmonic_rng))
                                (snd (StreamersEffect_new harmonic_rng)))
      \<noteq> fst (StreamersEffect_new harmonic_rng)" by auto
  from m fi st sr show ?thesis by blast
qed

text \<open>
  Claim C2, amended: for every effect, \<open>reset\<close> sets the elapsed time and the other
  counters it has (rotation, colour offset or shift, frame count) to zero and leaves
  the palette and the bitmap object as they are.  Of the auxiliary state, the drop
  columns of the matrix rain and of the text rain are kept as they are (the text
  rain's labels are cleared); the fire reset re-seeds the bottom row of the heat
  grid to \<open>31\<close> and keeps every other cell; the star and streamer lists are replaced
  by lists drawn from the random source as it stands at the reset, by the
  initialisation that the constructor runs: star \<open>j\<close> of the \<open>150\<close> is drawn from the
  draws \<open>5j, \<dots>, 5j + 4\<close>, streamer \<open>j\<close> of the \<open>8\<close> from the draws
  \<open>10j, \<dots>, 10j + 9\<close>, whatever the lists held, and the source is left \<open>750\<close> and
  \<open>80\<close> draws further.
\<close>

theorem C2_reset:
  "(case effect_reset e g of (e', g') \<Rightarrow>
       effect_time e' = 0 \<and> (\<forall>c \<in> set (effect_counters e'). c = 0)
     \<and> effect_palette e' = effect_palette e \<and> effect_bitmap e' = effect_bitmap e)
   \<and> mx_drop_positions (MatrixEffect_reset m) = mx_drop_positions m
   \<and> mx_drop_speeds (MatrixEffect_reset m) = mx_drop_speeds m
   \<and> mx_drop_active (MatrixEffect_reset m) = mx_drop_active m
   \<and> (grid_shape (fi_fire_buffer f) \<longrightarrow>
        grid_shape (fi_fire_buffer (FireEffect_reset f))
        \<and> (\<forall>y < fire_height. \<forall>x < fire_width.
              grid_get (fi_fire_buffer (FireEffect_reset f)) y x
                = (if y = fire_height - 1 then 31 else grid_get (fi_fire_buffer f) y x)))
   \<and> StarfieldEffect_reset sf g =
        (sf\<lparr>sf_time := 0,
            sf_stars := map (\<lambda>j. fst (draw_star 100 1 (rng_drop (5 * j) g))) [0..<num_stars]\<rparr>,
         rng_drop (5 * num_stars) g)
   \<and> length (sf_stars (fst (StarfieldEffect_reset sf g))) = num_stars
   \<and> StreamersEffect_reset se g =
        (se\<lparr>se_time := 0,
            se_streamers := map (\<lambda>j. fst (draw_streamer (rng_drop (10 * j) g)))
                               [0..<num_streamers]\<rparr>,
         rng_drop (10 * num_streamers) g)
   \<and> length (se_streamers (fst (StreamersEffect_reset se g))) = num_streamers
   \<and> cm_time (ColorMatrixEffect_reset cm) = 0
   \<and> cm_active_labels (ColorMatrixEffect_reset cm) = []
   \<and> cm_drop_positions (ColorMatrixEffect_reset cm) = cm_drop_positions cm
   \<and> cm_drop_speeds (ColorMatrixEffect_reset cm) = cm_drop_speeds cm
   \<and> cm_drop_active (ColorMatrixEffect_reset cm) = cm_drop_active cm
   \<and> cm_drop_colors (ColorMatrixEffect_reset cm) = cm_drop_colors cm"
proof -
  have a: "case effect_reset e g of (e', g') \<Rightarrow>
       effect_time e' = 0 \<and> (\<forall>c \<in> set (effect_counters e'). c = 0)
     \<and> effect_palette e' = effect_palette e \<and> effect_bitmap e' = effect_bitmap e"
    by (cases e)
       (simp_all add: PlasmaEffect_reset_def SpiralEffect_reset_def MatrixEffect_reset_def
         JuliaFractalEffect_reset_def FireEffect_reset_def StarfieldEffect_reset_def
         SineWaveEffect_reset_def StreamersEffect_reset_def PlasmaField_reset_def
         Kaleidoscope_reset_def Mandelbrot_reset_def Let_def split: prod.splits)
  have b: "grid_shape (fi_fire_buffer f) \<longrightarrow>
        grid_shape (fi_fire_buffer (FireEffect_reset f))
        \<and> (\<forall>y < fire_height. \<forall>x < fire_width.
              grid_get (fi_fire_buffer (FireEffect_reset f)) y x
                = (if y = fire_height - 1 then 31 else grid_get (fi_fire_buffer f) y x))"
    using init_fire_source_get [of "fi_fire_buffer f"] by (simp add: FireEffect_reset_def)
  have c: "length (sf_stars (fst (StarfieldEffect_reset sf g))) = num_stars"
    by (simp add: StarfieldEffect_reset_drawn)
  have d: "length (se_streamers (fst (StreamersEffect_reset se g))) = num_streamers"
    by (simp add: StreamersEffect_reset_drawn)
  from a b c d StarfieldEffect_reset_drawn [of sf g] StreamersEffect_reset_drawn [of se g]
  show ?thesis
    by (simp add: MatrixEffect_reset_def ColorMatrixEffect_reset_def)
qed

theorem C2_witness:
  "\<not> isl (FireEffect_update FireEffect_new zero_rng)
   \<and> grid_shape (fi_fire_buffer (fst (projr (FireEffect_update FireEffect_new zero_rng))))
   \<and> grid_get (fi_fire_buffer (fst (projr (FireEffect_update FireEffect_new zero_rng)))) 59 0 = 25
   \<and> grid_get (fi_fire_buffer (FireEffect_reset
         (fst (projr (FireEffect_update FireEffect_new zero_rng))))) 59 0 = 31
   \<and> grid_get (fi_fire_buffer (FireEffect_reset
         (fst (projr (FireEffect_update FireEffect_new zero_rng))))) 58 0 = 14
   \<and> effect_time (fst (effect_reset (EMandelbrot (Mandelbrot_animate (Mandelbrot_new 320 240)))
                          zero_rng)) = 0"
proof -
  from FireEffect_first_frame obtain s' where
    f: "FireEffect_update FireEffect_new zero_rng = Inr (s', zero_rng)"
       "grid_shape (fi_fire_buffer s')" "grid_get (fi_fire_buffer s') 58 0 = 14"
       "grid_get (fi_fire_buffer s') 59 0 = 25" by blast
  have 2: "(59 :: nat) < fire_height" "(58 :: nat) < fire_height" "0 < fire_width"
    "(58 :: nat) \<noteq> fire_height - 1" "(59 :: nat) = fire_height - 1"
    by (simp_all add: fire_height_def fire_width_def)
  from C2_reset [of "EMandelbrot (Mandelbrot_animate (Mandelbrot_new 320 240))" zero_rng
      _ s'] f 2
  show ?thesis by (auto split: prod.splits)
qed

end
